theory Spec2Isabelle
  imports Main "HOL-Library.AList" "HOL-Library.Char_ord" "HOL-Library.List_Lexorder"
begin

section \<open>Values of the Go runtime and of net/http that the client touches\<close>

text \<open>
  A Go string is a sequence of bytes: \<^typ>\<open>string\<close>. A Go error value is kept by its
  construction: \<open>Errorf m\<close> is \<^verbatim>\<open>fmt.Errorf\<close> with a format that has no \<^verbatim>\<open>%w\<close> (\<open>m\<close>
  is the formatted message), \<open>Wrapf p e\<close> is \<^verbatim>\<open>fmt.Errorf("p: %w", e)\<close>, \<open>LibError m\<close> is an
  error value made by net/http, io or the transport (its text is opaque), and \<open>JSONError\<close>
  is an error of encoding/json (its text is not modelled).
\<close>

datatype error = Errorf string | Wrapf string error | LibError string | JSONError

text \<open>\<^verbatim>\<open>*http.Cookie\<close>, \<^verbatim>\<open>*http.Request\<close> and \<^verbatim>\<open>*http.Response\<close>, with the fields the client
  reads or writes. A header is \<^verbatim>\<open>map[string][]string\<close> under canonical keys. The body of
  a response is what \<^verbatim>\<open>io.ReadAll\<close> gives for it: an error, or all its bytes.\<close>

record Cookie =
  Name :: string
  Value :: string
  Quoted :: bool

type_synonym Header = "(string \<times> string list) list"

record Request =
  Method :: string
  URL :: string
  Header :: Header
  Body :: "string option"

record Response =
  StatusCode :: int
  RespBody :: "error + string"

text \<open>The state outside the client: the requests handed to the transport so far, in
  order, and how many response bodies have been closed.\<close>

record world =
  sent :: "Request list"
  closed :: nat

text \<open>
  \<^verbatim>\<open>*http.Client\<close> together with \<^verbatim>\<open>http.NewRequestWithContext\<close>: \<open>NewRequest_err m u\<close> is the
  error with which net/http refuses to build a request for method \<open>m\<close> and URL \<open>u\<close> (an
  invalid method, a URL that does not parse), if any; \<open>Do hist req\<close> is what the
  transport answers to \<open>req\<close> after the requests \<open>hist\<close>: a transport error (connection
  refused, timeout, cancelled context) or a response of any status.
\<close>

record HTTPClient =
  NewRequest_err :: "string \<Rightarrow> string \<Rightarrow> error option"
  Do :: "Request list \<Rightarrow> Request \<Rightarrow> error + Response"

subsection \<open>strings, strconv, textproto\<close>

definition TrimRight :: "string \<Rightarrow> string \<Rightarrow> string" where
  "TrimRight s cutset = rev (dropWhile (\<lambda>c. c \<in> set cutset) (rev s))"

fun Join :: "string list \<Rightarrow> string \<Rightarrow> string" where
  "Join [] sep = []"
| "Join [x] sep = x"
| "Join (x # y # ys) sep = x @ sep @ Join (y # ys) sep"

definition digit_char :: "nat \<Rightarrow> char" where
  "digit_char d = char_of (48 + d)"

fun nat_dec :: "nat \<Rightarrow> string" where
  "nat_dec n = (if n < 10 then [digit_char n] else nat_dec (n div 10) @ [digit_char (n mod 10)])"

declare nat_dec.simps [simp del]

text \<open>\<^verbatim>\<open>fmt.Sprintf("%d", i)\<close>.\<close>

definition Itoa :: "int \<Rightarrow> string" where
  "Itoa i = (if i < 0 then CHR ''-'' # nat_dec (nat (- i)) else nat_dec (nat i))"

definition is_lower :: "char \<Rightarrow> bool" where
  "is_lower c = (97 \<le> (of_char c :: nat) \<and> (of_char c :: nat) \<le> 122)"

definition is_upper :: "char \<Rightarrow> bool" where
  "is_upper c = (65 \<le> (of_char c :: nat) \<and> (of_char c :: nat) \<le> 90)"

definition is_digit :: "char \<Rightarrow> bool" where
  "is_digit c = (48 \<le> (of_char c :: nat) \<and> (of_char c :: nat) \<le> 57)"

definition to_upper :: "char \<Rightarrow> char" where
  "to_upper c = (if is_lower c then char_of ((of_char c :: nat) - 32) else c)"

definition to_lower :: "char \<Rightarrow> char" where
  "to_lower c = (if is_upper c then char_of ((of_char c :: nat) + 32) else c)"

text \<open>textproto: the bytes of a header field name (an RFC 7230 token).\<close>

definition validHeaderFieldByte :: "char \<Rightarrow> bool" where
  "validHeaderFieldByte c =
     (is_lower c \<or> is_upper c \<or> is_digit c \<or> c \<in> set ''!#$%&'' \<or> c = CHR 0x27
      \<or> c \<in> set ''*+-.^_`|~'')"

fun canonical_loop :: "bool \<Rightarrow> string \<Rightarrow> string" where
  "canonical_loop upper [] = []"
| "canonical_loop upper (c # cs) =
     (let c' = (if upper \<and> is_lower c then to_upper c
                else if \<not> upper \<and> is_upper c then to_lower c else c)
      in c' # canonical_loop (c' = CHR ''-'') cs)"

definition CanonicalMIMEHeaderKey :: "string \<Rightarrow> string" where
  "CanonicalMIMEHeaderKey s =
     (if list_all validHeaderFieldByte s then canonical_loop True s else s)"

text \<open>\<^verbatim>\<open>Header.Set\<close> and \<^verbatim>\<open>Header.Get\<close>.\<close>

definition Header_Set :: "Header \<Rightarrow> string \<Rightarrow> string \<Rightarrow> Header" where
  "Header_Set h key v = AList.update (CanonicalMIMEHeaderKey key) [v] h"

definition Header_Get :: "Header \<Rightarrow> string \<Rightarrow> string" where
  "Header_Get h key =
     (case map_of h (CanonicalMIMEHeaderKey key) of
        None \<Rightarrow> [] | Some [] \<Rightarrow> [] | Some (v # _) \<Rightarrow> v)"

subsection \<open>encoding/base64 (StdEncoding), for \<^verbatim>\<open>Request.SetBasicAuth\<close>\<close>

definition encodeStd :: string where
  "encodeStd = ''ABCDEFGHIJKLMNOPQRSTUVWXYZabcdefghijklmnopqrstuvwxyz0123456789+/''"

definition b64 :: "nat \<Rightarrow> char" where
  "b64 n = encodeStd ! (n mod 64)"

fun EncodeToString :: "string \<Rightarrow> string" where
  "EncodeToString [] = []"
| "EncodeToString [a] =
     (let v = (of_char a :: nat) * 65536
      in [b64 (v div 262144), b64 (v div 4096), CHR ''='', CHR ''=''])"
| "EncodeToString [a, b] =
     (let v = (of_char a :: nat) * 65536 + (of_char b :: nat) * 256
      in [b64 (v div 262144), b64 (v div 4096), b64 (v div 64), CHR ''=''])"
| "EncodeToString (a # b # c # rest) =
     (let v = (of_char a :: nat) * 65536 + (of_char b :: nat) * 256 + (of_char c :: nat)
      in [b64 (v div 262144), b64 (v div 4096), b64 (v div 64), b64 v] @ EncodeToString rest)"

definition SetBasicAuth :: "Request \<Rightarrow> string \<Rightarrow> string \<Rightarrow> Request" where
  "SetBasicAuth req username password =
     req\<lparr>Header := Header_Set (Header req) ''Authorization''
            (''Basic '' @ EncodeToString (username @ '':'' @ password))\<rparr>"

subsection \<open>\<^verbatim>\<open>Request.AddCookie\<close>\<close>

definition sanitizeCookieName :: "string \<Rightarrow> string" where
  "sanitizeCookieName n = map (\<lambda>c. if c = CHR 0x0A \<or> c = CHR 0x0D then CHR ''-'' else c) n"

definition validCookieValueByte :: "char \<Rightarrow> bool" where
  "validCookieValueByte c =
     (32 \<le> (of_char c :: nat) \<and> (of_char c :: nat) < 127
      \<and> c \<noteq> CHR 0x22 \<and> c \<noteq> CHR '';'' \<and> c \<noteq> CHR 0x5C)"

definition sanitizeCookieValue :: "string \<Rightarrow> bool \<Rightarrow> string" where
  "sanitizeCookieValue v quoted =
     (let v' = filter validCookieValueByte v
      in if v' = [] then v'
         else if (\<exists>c \<in> set v'. c = CHR '' '' \<or> c = CHR '','') \<or> quoted
           then [CHR 0x22] @ v' @ [CHR 0x22]
         else v')"

definition AddCookie :: "Request \<Rightarrow> Cookie \<Rightarrow> Request" where
  "AddCookie req c =
     (let s = sanitizeCookieName (Name c) @ ''='' @ sanitizeCookieValue (Value c) (Quoted c);
          old = Header_Get (Header req) ''Cookie''
      in if old \<noteq> [] then req\<lparr>Header := Header_Set (Header req) ''Cookie'' (old @ ''; '' @ s)\<rparr>
         else req\<lparr>Header := Header_Set (Header req) ''Cookie'' s\<rparr>)"

section \<open>client.go\<close>

subsection \<open>The authenticators\<close>

text \<open>
  The interface \<^verbatim>\<open>Authenticator\<close> and its four implementations. \<open>OtherAuthenticator f\<close>
  is an implementation from outside the package: \<open>f\<close> is what its \<^verbatim>\<open>Authenticate\<close> does to
  the request, or the error it returns. \<^verbatim>\<open>Authenticate\<close> changes the request in place;
  here it returns the changed request.
\<close>

datatype Authenticator =
    BasicAuthenticator string string
  | CookieAuthenticator "Cookie option"
  | ProxyAuthenticator "string list" string string
  | JWTAuthenticator string
  | OtherAuthenticator "Request \<Rightarrow> error + Request"

fun Authenticate :: "Authenticator \<Rightarrow> Request \<Rightarrow> error + Request" where
  "Authenticate (BasicAuthenticator username password) req =
     Inr (SetBasicAuth req username password)"
| "Authenticate (CookieAuthenticator cookie) req =
     (case cookie of Some c \<Rightarrow> Inr (AddCookie req c) | None \<Rightarrow> Inr req)"
| "Authenticate (ProxyAuthenticator roles username token) req =
     (let req1 = req\<lparr>Header := Header_Set (Header req) ''X-Auth-CouchDB-UserName'' username\<rparr>;
          req2 = (if length roles > 0
                  then req1\<lparr>Header := Header_Set (Header req1) ''X-Auth-CouchDB-Roles''
                                          (Join roles '','')\<rparr>
                  else req1);
          req3 = (if token \<noteq> []
                  then req2\<lparr>Header := Header_Set (Header req2) ''X-Auth-CouchDB-Token'' token\<rparr>
                  else req2)
      in Inr req3)"
| "Authenticate (JWTAuthenticator token) req =
     (if token \<noteq> []
      then Inr (req\<lparr>Header := Header_Set (Header req) ''Authorization'' (''Bearer '' @ token)\<rparr>)
      else Inr req)"
| "Authenticate (OtherAuthenticator f) req = f req"

text \<open>A \<^verbatim>\<open>RequestOption\<close> is a \<^verbatim>\<open>func() Authenticator\<close>; the four selectors of the package
  return a closure that builds the authenticator and does nothing else, so a selector is
  kept as the authenticator it yields.\<close>

type_synonym RequestOption = Authenticator

definition WithBasicAuth :: "string \<Rightarrow> string \<Rightarrow> RequestOption" where
  "WithBasicAuth username password = BasicAuthenticator username password"

definition WithCookieAuth :: "Cookie option \<Rightarrow> RequestOption" where
  "WithCookieAuth cookie = CookieAuthenticator cookie"

definition WithProxyAuth :: "string \<Rightarrow> string list \<Rightarrow> string \<Rightarrow> RequestOption" where
  "WithProxyAuth username roles token = ProxyAuthenticator roles username token"

definition WithJWTAuth :: "string \<Rightarrow> RequestOption" where
  "WithJWTAuth token = JWTAuthenticator token"

subsection \<open>The client and the dispatcher\<close>

record Client =
  baseURL :: string
  client :: HTTPClient

type_synonym ClientOption = "Client \<Rightarrow> Client"

definition WithHTTPClient :: "HTTPClient \<Rightarrow> ClientOption" where
  "WithHTTPClient h = (\<lambda>c. c\<lparr>client := h\<rparr>)"

text \<open>\<^verbatim>\<open>NewClient\<close>; \<open>DefaultClient\<close> stands for \<^verbatim>\<open>http.DefaultClient\<close>.\<close>

definition NewClient :: "HTTPClient \<Rightarrow> string \<Rightarrow> ClientOption list \<Rightarrow> Client" where
  "NewClient DefaultClient base opts =
     fold (\<lambda>opt c. opt c) opts \<lparr>baseURL = TrimRight base ''/'', client = DefaultClient\<rparr>"

definition NewRequestWithContext ::
  "HTTPClient \<Rightarrow> string \<Rightarrow> string \<Rightarrow> string option \<Rightarrow> error + Request" where
  "NewRequestWithContext h method url body =
     (case NewRequest_err h method url of
        Some err \<Rightarrow> Inl err
      | None \<Rightarrow> Inr \<lparr>Method = (if method = [] then ''GET'' else method), URL = url,
                     Header = [], Body = body\<rparr>)"

definition client_Do :: "HTTPClient \<Rightarrow> Request \<Rightarrow> world \<Rightarrow> (error + Response) \<times> world" where
  "client_Do h req w = (Do h (sent w) req, w\<lparr>sent := sent w @ [req]\<rparr>)"

definition doRequest ::
  "Client \<Rightarrow> string \<Rightarrow> string \<Rightarrow> string option \<Rightarrow> RequestOption list \<Rightarrow> world
     \<Rightarrow> (error + Response) \<times> world" where
  "doRequest c method path body opts w =
     (let reqURL = baseURL c @ path
      in case NewRequestWithContext (client c) method reqURL body of
           Inl err \<Rightarrow> (Inl err, w)
         | Inr req \<Rightarrow>
             (case (if length opts > 0
                    then (case Authenticate (last opts) req of
                            Inl err \<Rightarrow> Inl (Wrapf ''authentication failed'' err)
                          | Inr req' \<Rightarrow> Inr req')
                    else Inr req) of
                Inl err \<Rightarrow> (Inl err, w)
              | Inr req1 \<Rightarrow>
                  client_Do (client c)
                    (req1\<lparr>Header := Header_Set (Header req1) ''Content-Type'' ''application/json''\<rparr>)
                    w))"

section \<open>net/url\<close>

datatype encoding = encodePathSegment | encodeQueryComponent

definition shouldEscape :: "char \<Rightarrow> encoding \<Rightarrow> bool" where
  "shouldEscape c mode =
     (if is_lower c \<or> is_upper c \<or> is_digit c then False
      else if c \<in> set ''-_.~'' then False
      else if c \<in> set ''$&+,/:;=?@''
        then (case mode of
                encodePathSegment \<Rightarrow> c = CHR ''/'' \<or> c = CHR '';'' \<or> c = CHR '','' \<or> c = CHR ''?''
              | encodeQueryComponent \<Rightarrow> True)
      else True)"

definition upperhex :: string where
  "upperhex = ''0123456789ABCDEF''"

fun escape :: "string \<Rightarrow> encoding \<Rightarrow> string" where
  "escape [] mode = []"
| "escape (c # cs) mode =
     (if shouldEscape c mode
      then (if c = CHR '' '' \<and> mode = encodeQueryComponent then CHR ''+'' # escape cs mode
            else CHR ''%'' # upperhex ! ((of_char c :: nat) div 16)
                 # upperhex ! ((of_char c :: nat) mod 16) # escape cs mode)
      else c # escape cs mode)"

definition PathEscape :: "string \<Rightarrow> string" where
  "PathEscape s = escape s encodePathSegment"

definition QueryEscape :: "string \<Rightarrow> string" where
  "QueryEscape s = escape s encodeQueryComponent"

text \<open>\<^verbatim>\<open>url.Values\<close> is a \<^verbatim>\<open>map[string][]string\<close>; \<^verbatim>\<open>Encode\<close> writes the keys in sorted
  order.\<close>

type_synonym Values = "(string \<times> string list) list"

definition Values_Set :: "Values \<Rightarrow> string \<Rightarrow> string \<Rightarrow> Values" where
  "Values_Set q key v = AList.update key [v] q"

definition Values_Encode :: "Values \<Rightarrow> string" where
  "Values_Encode q =
     Join (concat (map (\<lambda>(k, vs). map (\<lambda>v. QueryEscape k @ ''='' @ QueryEscape v) vs)
                       (sort_key fst q))) ''&''"

section \<open>encoding/json: Marshal\<close>

subsection \<open>unicode/utf8\<close>

definition cont :: "char \<Rightarrow> bool" where
  "cont c = (128 \<le> (of_char c :: nat) \<and> (of_char c :: nat) \<le> 191)"

text \<open>The number of bytes of the UTF-8 encoding at the head of a string, or 0 when the
  head is not one (\<^verbatim>\<open>utf8.DecodeRune\<close> then gives \<^verbatim>\<open>RuneError\<close> and width 1).\<close>

definition rune_width :: "string \<Rightarrow> nat" where
  "rune_width s =
     (case s of
        [] \<Rightarrow> 0
      | b0 # r \<Rightarrow>
          (let n0 = (of_char b0 :: nat) in
           if n0 < 128 then 1
           else if 194 \<le> n0 \<and> n0 \<le> 223
             then (case r of b1 # _ \<Rightarrow> if cont b1 then 2 else 0 | _ \<Rightarrow> 0)
           else if 224 \<le> n0 \<and> n0 \<le> 239
             then (case r of
                     b1 # b2 # _ \<Rightarrow>
                       (let n1 = (of_char b1 :: nat) in
                        if (if n0 = 224 then 160 \<le> n1 \<and> n1 \<le> 191
                            else if n0 = 237 then 128 \<le> n1 \<and> n1 \<le> 159
                            else cont b1) \<and> cont b2
                        then 3 else 0)
                   | _ \<Rightarrow> 0)
           else if 240 \<le> n0 \<and> n0 \<le> 244
             then (case r of
                     b1 # b2 # b3 # _ \<Rightarrow>
                       (let n1 = (of_char b1 :: nat) in
                        if (if n0 = 240 then 144 \<le> n1 \<and> n1 \<le> 191
                            else if n0 = 244 then 128 \<le> n1 \<and> n1 \<le> 143
                            else cont b1) \<and> cont b2 \<and> cont b3
                        then 4 else 0)
                   | _ \<Rightarrow> 0)
           else 0))"

text \<open>\<^verbatim>\<open>utf8.EncodeRune\<close>: a surrogate or a value past U+10FFFF is written as U+FFFD.\<close>

definition EncodeRune :: "nat \<Rightarrow> string" where
  "EncodeRune r =
     (if r < 128 then [char_of r]
      else if r < 2048 then [char_of (192 + r div 64), char_of (128 + r mod 64)]
      else if (55296 \<le> r \<and> r < 57344) \<or> 1114111 < r then [CHR 0xEF, CHR 0xBF, CHR 0xBD]
      else if r < 65536
        then [char_of (224 + r div 4096), char_of (128 + (r div 64) mod 64),
              char_of (128 + r mod 64)]
      else [char_of (240 + r div 262144), char_of (128 + (r div 4096) mod 64),
            char_of (128 + (r div 64) mod 64), char_of (128 + r mod 64)])"

subsection \<open>The encoder\<close>

definition lowerhex :: string where
  "lowerhex = ''0123456789abcdef''"

text \<open>\<^verbatim>\<open>htmlSafeSet\<close>: the ASCII bytes written as they are inside a JSON string.\<close>

definition htmlSafe :: "char \<Rightarrow> bool" where
  "htmlSafe c =
     (32 \<le> (of_char c :: nat) \<and> (of_char c :: nat) < 128
      \<and> c \<noteq> CHR 0x22 \<and> c \<noteq> CHR 0x5C \<and> c \<noteq> CHR ''<'' \<and> c \<noteq> CHR ''>'' \<and> c \<noteq> CHR ''&'')"

text \<open>The loop of \<^verbatim>\<open>appendString\<close> (with HTML escaping, as \<^verbatim>\<open>json.Marshal\<close> calls it); \<open>n\<close>
  bounds the number of steps and is the length of the string.\<close>

fun appendString_loop :: "nat \<Rightarrow> string \<Rightarrow> string" where
  "appendString_loop 0 s = []"
| "appendString_loop (Suc n) [] = []"
| "appendString_loop (Suc n) (b # r) =
     (if (of_char b :: nat) < 128
      then (if htmlSafe b then b # appendString_loop n r
            else if b = CHR 0x5C \<or> b = CHR 0x22 then CHR 0x5C # b # appendString_loop n r
            else if b = CHR 0x08 then CHR 0x5C # CHR ''b'' # appendString_loop n r
            else if b = CHR 0x0C then CHR 0x5C # CHR ''f'' # appendString_loop n r
            else if b = CHR 0x0A then CHR 0x5C # CHR ''n'' # appendString_loop n r
            else if b = CHR 0x0D then CHR 0x5C # CHR ''r'' # appendString_loop n r
            else if b = CHR 0x09 then CHR 0x5C # CHR ''t'' # appendString_loop n r
            else [CHR 0x5C, CHR ''u'', CHR ''0'', CHR ''0'',
                  lowerhex ! ((of_char b :: nat) div 16), lowerhex ! ((of_char b :: nat) mod 16)]
                 @ appendString_loop n r)
      else (let size = rune_width (b # r) in
            if size = 0 then [CHR 0x5C, CHR ''u'', CHR ''f'', CHR ''f'', CHR ''f'', CHR ''d'']
                             @ appendString_loop n r
            else if take 3 (b # r) = [CHR 0xE2, CHR 0x80, CHR 0xA8]
              then [CHR 0x5C, CHR ''u'', CHR ''2'', CHR ''0'', CHR ''2'', CHR ''8'']
                   @ appendString_loop n (drop 3 (b # r))
            else if take 3 (b # r) = [CHR 0xE2, CHR 0x80, CHR 0xA9]
              then [CHR 0x5C, CHR ''u'', CHR ''2'', CHR ''0'', CHR ''2'', CHR ''9'']
                   @ appendString_loop n (drop 3 (b # r))
            else take size (b # r) @ appendString_loop n (drop size (b # r))))"

definition appendString :: "string \<Rightarrow> string" where
  "appendString s = [CHR 0x22] @ appendString_loop (length s) s @ [CHR 0x22]"

text \<open>
  A Go value handed to \<^verbatim>\<open>json.Marshal\<close> as an \<^verbatim>\<open>any\<close>: the nil interface, a nil pointer,
  slice or map inside an interface, a bool, an integer, a string, a slice, a map with
  string keys, and \<open>AOther r\<close> for a value of any other type (a float, a struct, a
  \<^verbatim>\<open>Marshaler\<close>, a channel), which stands for what encoding it gives: \<open>Some\<close> its JSON
  text, or \<open>None\<close> when encoding/json refuses it.
\<close>

datatype any =
    ANil | ATypedNil | ABool bool | AInt int | AString string
  | ASlice "any list" | AMap "(string \<times> any) list" | AOther "string option"

fun sequence :: "'a option list \<Rightarrow> 'a list option" where
  "sequence [] = Some []"
| "sequence (None # xs) = None"
| "sequence (Some x # xs) = (case sequence xs of None \<Rightarrow> None | Some ys \<Rightarrow> Some (x # ys))"

text \<open>The encoding of a value; map entries are written in the order of their keys.\<close>

fun encode_any :: "any \<Rightarrow> string option" where
  "encode_any ANil = Some ''null''"
| "encode_any ATypedNil = Some ''null''"
| "encode_any (ABool b) = Some (if b then ''true'' else ''false'')"
| "encode_any (AInt i) = Some (Itoa i)"
| "encode_any (AString s) = Some (appendString s)"
| "encode_any (ASlice xs) =
     (case sequence (map encode_any xs) of
        None \<Rightarrow> None
      | Some es \<Rightarrow> Some (''['' @ Join es '','' @ '']''))"
| "encode_any (AMap kvs) =
     (case sequence (map (\<lambda>(k, v). map_option (\<lambda>e. (k, e)) (encode_any v)) kvs) of
        None \<Rightarrow> None
      | Some es \<Rightarrow>
          Some (''{'' @ Join (map (\<lambda>(k, e). appendString k @ '':'' @ e) (sort_key fst es)) '',''
                @ ''}''))"
| "encode_any (AOther r) = r"

definition json_Marshal :: "any \<Rightarrow> error + string" where
  "json_Marshal v = (case encode_any v of None \<Rightarrow> Inl JSONError | Some data \<Rightarrow> Inr data)"

section \<open>encoding/json: Unmarshal\<close>

text \<open>
  \<^verbatim>\<open>json.Unmarshal\<close> first checks that the whole input is one JSON value between white
  space, then stores it into the target by the target's type. The check and the reading
  of the value are one parser here, which gives the value as a tree; a number keeps its
  literal, a string is unquoted as encoding/json unquotes it, and the members of an object
  stay in the order of the text.
\<close>

datatype json =
    JNull | JBool bool | JNumber string | JString string
  | JArray "json list" | JObject "(string \<times> json) list"

definition is_space :: "char \<Rightarrow> bool" where
  "is_space c = (c = CHR '' '' \<or> c = CHR 0x09 \<or> c = CHR 0x0D \<or> c = CHR 0x0A)"

definition skip_ws :: "string \<Rightarrow> string" where
  "skip_ws s = dropWhile is_space s"

definition hexval :: "char \<Rightarrow> nat option" where
  "hexval c =
     (let n = (of_char c :: nat) in
      if is_digit c then Some (n - 48)
      else if 97 \<le> n \<and> n \<le> 102 then Some (n - 87)
      else if 65 \<le> n \<and> n \<le> 70 then Some (n - 55)
      else None)"

text \<open>\<^verbatim>\<open>getu4\<close>: the value of \<^verbatim>\<open>\uXXXX\<close> at the head of a string.\<close>

definition getu4 :: "string \<Rightarrow> nat option" where
  "getu4 s =
     (case s of
        b # u # h1 # h2 # h3 # h4 # _ \<Rightarrow>
          (if b = CHR 0x5C \<and> u = CHR ''u''
           then (case (hexval h1, hexval h2, hexval h3, hexval h4) of
                   (Some a, Some b, Some c, Some d) \<Rightarrow> Some (a * 4096 + b * 256 + c * 16 + d)
                 | _ \<Rightarrow> None)
           else None)
      | _ \<Rightarrow> None)"

definition simple_escape :: "char \<Rightarrow> char option" where
  "simple_escape e =
     (if e = CHR 0x22 \<or> e = CHR 0x5C \<or> e = CHR ''/'' then Some e
      else if e = CHR ''b'' then Some (CHR 0x08)
      else if e = CHR ''f'' then Some (CHR 0x0C)
      else if e = CHR ''n'' then Some (CHR 0x0A)
      else if e = CHR ''r'' then Some (CHR 0x0D)
      else if e = CHR ''t'' then Some (CHR 0x09)
      else None)"

definition replacement :: string where
  "replacement = [CHR 0xEF, CHR 0xBF, CHR 0xBD]"

definition prepend :: "string \<Rightarrow> (string \<times> string) option \<Rightarrow> (string \<times> string) option" where
  "prepend x r = map_option (\<lambda>(str, rest). (x @ str, rest)) r"

text \<open>
  A string literal after its opening quote: the unquoted string and what follows the
  closing quote, or \<open>None\<close> when the literal is not valid (a control character, a bad
  escape, no closing quote). Bytes that are not UTF-8 and unpaired surrogates are
  replaced by U+FFFD. \<open>n\<close> bounds the number of steps and is the length of the text.
\<close>

fun unquote :: "nat \<Rightarrow> string \<Rightarrow> (string \<times> string) option" where
  "unquote 0 s = None"
| "unquote (Suc n) [] = None"
| "unquote (Suc n) (c # r) =
     (if c = CHR 0x22 then Some ([], r)
      else if c = CHR 0x5C then
        (case r of
           [] \<Rightarrow> None
         | e # r' \<Rightarrow>
             if e = CHR ''u'' then
               (case getu4 (c # r) of
                  None \<Rightarrow> None
                | Some rr \<Rightarrow>
                    (let r2 = drop 4 r' in
                     if 55296 \<le> rr \<and> rr < 57344 then
                       (case getu4 r2 of
                          None \<Rightarrow> prepend replacement (unquote n r2)
                        | Some rr1 \<Rightarrow>
                            if rr < 56320 \<and> 56320 \<le> rr1 \<and> rr1 < 57344
                            then prepend (EncodeRune ((rr - 55296) * 1024 + (rr1 - 56320) + 65536))
                                   (unquote n (drop 6 r2))
                            else prepend replacement (unquote n r2))
                     else prepend (EncodeRune rr) (unquote n r2)))
             else (case simple_escape e of
                     None \<Rightarrow> None
                   | Some ch \<Rightarrow> prepend [ch] (unquote n r')))
      else if (of_char c :: nat) < 32 then None
      else if (of_char c :: nat) < 128 then prepend [c] (unquote n r)
      else (let size = rune_width (c # r) in
            if size = 0 then prepend replacement (unquote n r)
            else prepend (take size (c # r)) (unquote n (drop size (c # r)))))"

text \<open>A number literal at the head of a string, and what follows it.\<close>

definition scan_digits :: "string \<Rightarrow> (string \<times> string) option" where
  "scan_digits s =
     (if takeWhile is_digit s = [] then None else Some (takeWhile is_digit s, dropWhile is_digit s))"

definition scan_int :: "string \<Rightarrow> (string \<times> string) option" where
  "scan_int s =
     (case s of
        [] \<Rightarrow> None
      | c # r \<Rightarrow> if c = CHR ''0'' then Some ([c], r) else scan_digits s)"

definition scan_frac :: "string \<Rightarrow> (string \<times> string) option" where
  "scan_frac s =
     (case s of
        [] \<Rightarrow> Some ([], s)
      | c # r \<Rightarrow>
          if c = CHR ''.'' then map_option (\<lambda>(ds, r'). (c # ds, r')) (scan_digits r)
          else Some ([], s))"

definition scan_exp :: "string \<Rightarrow> (string \<times> string) option" where
  "scan_exp s =
     (case s of
        [] \<Rightarrow> Some ([], s)
      | c # r \<Rightarrow>
          if c = CHR ''e'' \<or> c = CHR ''E'' then
            (case r of
               [] \<Rightarrow> None
             | g # r' \<Rightarrow>
                 if g = CHR ''+'' \<or> g = CHR ''-''
                 then map_option (\<lambda>(ds, r''). (c # g # ds, r'')) (scan_digits r')
                 else map_option (\<lambda>(ds, r''). (c # ds, r'')) (scan_digits r))
          else Some ([], s))"

definition scan_number :: "string \<Rightarrow> (string \<times> string) option" where
  "scan_number s =
     (let (sign, s1) = (case s of [] \<Rightarrow> ([], s)
                        | c # r \<Rightarrow> if c = CHR ''-'' then ([c], r) else ([], s))
      in case scan_int s1 of
           None \<Rightarrow> None
         | Some (i, s2) \<Rightarrow>
             (case scan_frac s2 of
                None \<Rightarrow> None
              | Some (f, s3) \<Rightarrow>
                  (case scan_exp s3 of
                     None \<Rightarrow> None
                   | Some (e, s4) \<Rightarrow> Some (sign @ i @ f @ e, s4))))"

definition maxNestingDepth :: nat where
  "maxNestingDepth = 10000"

definition literal :: "string \<Rightarrow> json \<Rightarrow> string \<Rightarrow> (json \<times> string) option" where
  "literal word v s = (if take (length word) s = word then Some (v, drop (length word) s) else None)"

text \<open>
  One value at the head of a string after white space, the elements of an array after
  its bracket, and the members of an object from its first key. The first argument bounds
  the depth of the calls, the second counts the arrays and objects that are open.
\<close>

fun parse_value :: "nat \<Rightarrow> nat \<Rightarrow> string \<Rightarrow> (json \<times> string) option"
  and parse_elements :: "nat \<Rightarrow> nat \<Rightarrow> string \<Rightarrow> (json list \<times> string) option"
  and parse_members :: "nat \<Rightarrow> nat \<Rightarrow> string \<Rightarrow> ((string \<times> json) list \<times> string) option"
where
  "parse_value 0 d s = None"
| "parse_value (Suc n) d s =
     (case skip_ws s of
        [] \<Rightarrow> None
      | c # cs \<Rightarrow>
          if c = CHR ''{'' then
            (if maxNestingDepth \<le> d then None
             else (case skip_ws cs of
                     [] \<Rightarrow> None
                   | c2 # r2 \<Rightarrow>
                       if c2 = CHR ''}'' then Some (JObject [], r2)
                       else map_option (\<lambda>(ms, r). (JObject ms, r))
                              (parse_members n (Suc d) (c2 # r2))))
          else if c = CHR ''['' then
            (if maxNestingDepth \<le> d then None
             else (case skip_ws cs of
                     [] \<Rightarrow> None
                   | c2 # r2 \<Rightarrow>
                       if c2 = CHR '']'' then Some (JArray [], r2)
                       else map_option (\<lambda>(vs, r). (JArray vs, r))
                              (parse_elements n (Suc d) (c2 # r2))))
          else if c = CHR 0x22 then
            map_option (\<lambda>(str, r). (JString str, r)) (unquote (length cs) cs)
          else if c = CHR ''t'' then literal ''true'' (JBool True) (c # cs)
          else if c = CHR ''f'' then literal ''false'' (JBool False) (c # cs)
          else if c = CHR ''n'' then literal ''null'' JNull (c # cs)
          else map_option (\<lambda>(lit, r). (JNumber lit, r)) (scan_number (c # cs)))"
| "parse_elements 0 d s = None"
| "parse_elements (Suc n) d s =
     (case parse_value n d s of
        None \<Rightarrow> None
      | Some (v, r) \<Rightarrow>
          (case skip_ws r of
             [] \<Rightarrow> None
           | c # r' \<Rightarrow>
               if c = CHR '','' then map_option (\<lambda>(vs, r''). (v # vs, r'')) (parse_elements n d r')
               else if c = CHR '']'' then Some ([v], r')
               else None))"
| "parse_members 0 d s = None"
| "parse_members (Suc n) d s =
     (case skip_ws s of
        [] \<Rightarrow> None
      | c # cs \<Rightarrow>
          if c \<noteq> CHR 0x22 then None
          else (case unquote (length cs) cs of
                  None \<Rightarrow> None
                | Some (k, r) \<Rightarrow>
                    (case skip_ws r of
                       [] \<Rightarrow> None
                     | c1 # r1 \<Rightarrow>
                         if c1 \<noteq> CHR '':'' then None
                         else (case parse_value n d r1 of
                                 None \<Rightarrow> None
                               | Some (v, r2) \<Rightarrow>
                                   (case skip_ws r2 of
                                      [] \<Rightarrow> None
                                    | c3 # r3 \<Rightarrow>
                                        if c3 = CHR '','' then
                                          map_option (\<lambda>(ms, r4). ((k, v) # ms, r4))
                                            (parse_members n d r3)
                                        else if c3 = CHR ''}'' then Some ([(k, v)], r3)
                                        else None)))))"

text \<open>The whole input as one value. Every call the parser makes on a valid text either
  consumes a byte or is followed by one that does, so twice the length bounds the depth
  of the calls (\<open>parse_value_fuel\<close> below: a larger bound gives the same result).\<close>

definition json_parse :: "string \<Rightarrow> json option" where
  "json_parse data =
     (case parse_value (2 * length data + 2) 0 data of
        None \<Rightarrow> None
      | Some (v, rest) \<Rightarrow> if skip_ws rest = [] then Some v else None)"

subsection \<open>Storing a value into a Go target\<close>

text \<open>
  Each decoder takes the JSON value and the current value of the target and gives the new
  value, or \<open>None\<close> for a value the target's type cannot hold (an
  \<^verbatim>\<open>UnmarshalTypeError\<close>; the caller drops the target then). \<^verbatim>\<open>null\<close> leaves a string, a
  bool, an integer and a struct as they are and makes a slice, a map and an interface
  nil. A \<^verbatim>\<open>map[string]any\<close> is \<open>None\<close> when nil and otherwise the list of its entries, a
  later entry for a key replacing an earlier one; a value decoded into an \<^verbatim>\<open>any\<close> is kept
  as its tree (\<open>JNull\<close> is nil, a number is the \<^verbatim>\<open>float64\<close> of its literal).
\<close>

definition dec_string :: "json \<Rightarrow> string \<Rightarrow> string option" where
  "dec_string v cur = (case v of JString x \<Rightarrow> Some x | JNull \<Rightarrow> Some cur | _ \<Rightarrow> None)"

definition dec_bool :: "json \<Rightarrow> bool \<Rightarrow> bool option" where
  "dec_bool v cur = (case v of JBool x \<Rightarrow> Some x | JNull \<Rightarrow> Some cur | _ \<Rightarrow> None)"

text \<open>\<^verbatim>\<open>strconv.ParseInt(lit, 10, 64)\<close> on a JSON number literal.\<close>

definition parse_int64 :: "string \<Rightarrow> int option" where
  "parse_int64 lit =
     (let (neg, ds) = (case lit of [] \<Rightarrow> (False, lit)
                       | c # r \<Rightarrow> if c = CHR ''-'' then (True, r) else (False, lit))
      in if ds \<noteq> [] \<and> list_all is_digit ds
         then (let v = foldl (\<lambda>a c. 10 * a + (int (of_char c) - 48)) 0 ds;
                   i = (if neg then - v else v)
               in if - 9223372036854775808 \<le> i \<and> i \<le> 9223372036854775807 then Some i else None)
         else None)"

definition dec_int :: "json \<Rightarrow> int \<Rightarrow> int option" where
  "dec_int v cur = (case v of JNumber lit \<Rightarrow> parse_int64 lit | JNull \<Rightarrow> Some cur | _ \<Rightarrow> None)"

text \<open>
  A slice under decoding is the list of its elements together with the elements that its
  array holds beyond its length. The array decoder stores the \<open>i\<close>-th value of a JSON
  array into the \<open>i\<close>-th element of the array when there is one, and into a zero element
  otherwise, so that an element keeps what the value does not give; it then cuts the
  slice to the number of values. The elements beyond the length are those an earlier,
  longer value of the same member left there. An empty JSON array gives a new empty
  slice, \<^verbatim>\<open>null\<close> a nil one (the empty list here; where the source tells nil from empty,
  the decoder of the field does).
\<close>

definition dec_slice ::
  "(json \<Rightarrow> 'a \<Rightarrow> 'a option) \<Rightarrow> 'a \<Rightarrow> json \<Rightarrow> 'a list \<times> 'a list
     \<Rightarrow> ('a list \<times> 'a list) option" where
  "dec_slice elem zero v cur =
     (case v of
        JArray xs \<Rightarrow>
          (if xs = [] then Some ([], [])
           else (let arr = fst cur @ snd cur;
                     old = take (length xs) arr @ replicate (length xs - length arr) zero
                 in map_option (\<lambda>ys. (ys, drop (length xs) arr))
                      (sequence (map (\<lambda>(x, y). elem x y) (zip xs old)))))
      | JNull \<Rightarrow> Some ([], [])
      | _ \<Rightarrow> None)"

text \<open>
  \<^verbatim>\<open>strconv.ParseFloat(lit, 64)\<close> on a JSON number literal fails only when the value rounds
  to an infinity, that is when its magnitude reaches \<open>2 ^ 1024 - 2 ^ 970\<close>, half way between
  the largest \<^verbatim>\<open>float64\<close> and \<open>2 ^ 1024\<close>. It reads the digits of the exponent only while the
  exponent read so far is below 10000.
\<close>

definition digits_int :: "string \<Rightarrow> int" where
  "digits_int ds = foldl (\<lambda>a c. 10 * a + (of_char c - 48)) 0 ds"

definition exponent_nat :: "string \<Rightarrow> nat" where
  "exponent_nat ds = foldl (\<lambda>e c. if e < 10000 then 10 * e + (of_char c - 48) else e) 0 ds"

definition float64_limit :: int where
  "float64_limit = 2 ^ 1024 - 2 ^ 970"

definition ParseFloat_ok :: "string \<Rightarrow> bool" where
  "ParseFloat_ok lit =
     (let s1 = (case lit of [] \<Rightarrow> lit | c # r \<Rightarrow> if c = CHR ''-'' then r else lit);
          ip = takeWhile is_digit s1;
          s2 = dropWhile is_digit s1;
          (fp, s3) = (case s2 of
                        [] \<Rightarrow> ([], s2)
                      | c # r \<Rightarrow> if c = CHR ''.'' then (takeWhile is_digit r, dropWhile is_digit r)
                                 else ([], s2));
          (neg, eds) = (case s3 of
                          [] \<Rightarrow> (False, [])
                        | c # r \<Rightarrow>
                            (case r of
                               [] \<Rightarrow> (False, [])
                             | g # r' \<Rightarrow> if g = CHR ''-'' then (True, r')
                                        else if g = CHR ''+'' then (False, r')
                                        else (False, r)));
          m = digits_int (ip @ fp);
          e = exponent_nat eds
      in if neg then m < float64_limit * 10 ^ (e + length fp)
         else if length fp \<le> e then m * 10 ^ (e - length fp) < float64_limit
         else m < float64_limit * 10 ^ (length fp - e))"

text \<open>A tree is stored into an \<^verbatim>\<open>any\<close> when each of its numbers is a \<^verbatim>\<open>float64\<close>.\<close>

fun numbers_ok :: "json \<Rightarrow> bool" where
  "numbers_ok (JNumber lit) = ParseFloat_ok lit"
| "numbers_ok (JArray xs) = list_all numbers_ok xs"
| "numbers_ok (JObject ms) = list_all (\<lambda>(k, v). numbers_ok v) ms"
| "numbers_ok v = True"

definition dec_any :: "json \<Rightarrow> json option" where
  "dec_any v = (if numbers_ok v then Some v else None)"

type_synonym gomap = "(string \<times> json) list option"

definition dec_map :: "json \<Rightarrow> gomap \<Rightarrow> gomap option" where
  "dec_map v cur =
     (case v of
        JObject ms \<Rightarrow>
          if numbers_ok v then Some (Some ((case cur of None \<Rightarrow> [] | Some old \<Rightarrow> old) @ ms))
          else None
      | JNull \<Rightarrow> Some None
      | _ \<Rightarrow> None)"

text \<open>The name under which a key is looked up when no field has exactly its name:
  ASCII letters in upper case, and the two letters outside ASCII that fold to ASCII
  (U+017F to S, U+212A to K).\<close>

fun foldName :: "string \<Rightarrow> string" where
  "foldName (a # b # c # cs) =
     (if a = CHR 0xE2 \<and> b = CHR 0x84 \<and> c = CHR 0xAA then CHR ''K'' # foldName cs
      else if a = CHR 0xC5 \<and> b = CHR 0xBF then CHR ''S'' # foldName (c # cs)
      else to_upper a # foldName (b # c # cs))"
| "foldName [a, b] =
     (if a = CHR 0xC5 \<and> b = CHR 0xBF then ''S'' else [to_upper a, to_upper b])"
| "foldName [a] = [to_upper a]"
| "foldName [] = []"

text \<open>Whether a key of the text names the field with JSON name \<open>name\<close>. (No two
  fields of one struct of the package have the same folded name, so the field with the
  exact name, if any, is the one this finds.)\<close>

definition field_match :: "string \<Rightarrow> string \<Rightarrow> bool" where
  "field_match key name = (key = name \<or> foldName key = foldName name)"

fun decode_fields :: "(string \<Rightarrow> json \<Rightarrow> 'a \<Rightarrow> 'a option) \<Rightarrow> (string \<times> json) list \<Rightarrow> 'a \<Rightarrow> 'a option" where
  "decode_fields field [] cur = Some cur"
| "decode_fields field ((k, v) # ms) cur =
     (case field k v cur of None \<Rightarrow> None | Some cur' \<Rightarrow> decode_fields field ms cur')"

definition decode_struct :: "(string \<Rightarrow> json \<Rightarrow> 'a \<Rightarrow> 'a option) \<Rightarrow> json \<Rightarrow> 'a \<Rightarrow> 'a option" where
  "decode_struct field v cur =
     (case v of JObject ms \<Rightarrow> decode_fields field ms cur | JNull \<Rightarrow> Some cur | _ \<Rightarrow> None)"

text \<open>\<^verbatim>\<open>json.Unmarshal(data, &target)\<close> for a struct whose fields \<open>field\<close> stores, a
  string, and a slice.\<close>

definition Unmarshal_struct :: "(string \<Rightarrow> json \<Rightarrow> 'a \<Rightarrow> 'a option) \<Rightarrow> 'a \<Rightarrow> string \<Rightarrow> 'a option" where
  "Unmarshal_struct field zero data =
     (case json_parse data of None \<Rightarrow> None | Some v \<Rightarrow> decode_struct field v zero)"

definition Unmarshal_string :: "string \<Rightarrow> string option" where
  "Unmarshal_string data =
     (case json_parse data of None \<Rightarrow> None | Some v \<Rightarrow> dec_string v [])"

definition Unmarshal_slice :: "(json \<Rightarrow> 'a \<Rightarrow> 'a option) \<Rightarrow> 'a \<Rightarrow> string \<Rightarrow> 'a list option" where
  "Unmarshal_slice elem zero data =
     (case json_parse data of
        None \<Rightarrow> None
      | Some v \<Rightarrow> map_option fst (dec_slice elem zero v ([], [])))"

definition Unmarshal_map :: "string \<Rightarrow> gomap option" where
  "Unmarshal_map data =
     (case json_parse data of None \<Rightarrow> None | Some v \<Rightarrow> dec_map v None)"

section \<open>The error envelope and the classification of a response\<close>

record ErrorResponse =
  er_Error :: string
  er_Reason :: string

definition ErrorResponse_field :: "string \<Rightarrow> json \<Rightarrow> ErrorResponse \<Rightarrow> ErrorResponse option" where
  "ErrorResponse_field k v r =
     (if field_match k ''error'' then map_option (\<lambda>x. r\<lparr>er_Error := x\<rparr>) (dec_string v (er_Error r))
      else if field_match k ''reason'' then map_option (\<lambda>x. r\<lparr>er_Reason := x\<rparr>) (dec_string v (er_Reason r))
      else Some r)"

definition Unmarshal_ErrorResponse :: "string \<Rightarrow> ErrorResponse option" where
  "Unmarshal_ErrorResponse data =
     Unmarshal_struct ErrorResponse_field \<lparr>er_Error = [], er_Reason = []\<rparr> data"

abbreviation StatusOK :: int where "StatusOK \<equiv> 200"
abbreviation StatusCreated :: int where "StatusCreated \<equiv> 201"
abbreviation StatusAccepted :: int where "StatusAccepted \<equiv> 202"
abbreviation StatusNotFound :: int where "StatusNotFound \<equiv> 404"

text \<open>\<^verbatim>\<open>io.ReadAll(resp.Body)\<close>, and the deferred \<^verbatim>\<open>resp.Body.Close()\<close>, which runs when the
  function returns with the result \<open>r\<close>.\<close>

definition ReadAll :: "Response \<Rightarrow> error + string" where
  "ReadAll resp = RespBody resp"

definition defer_Close :: "world \<Rightarrow> 'a \<Rightarrow> 'a \<times> world" where
  "defer_Close w r = (r, w\<lparr>closed := Suc (closed w)\<rparr>)"

section \<open>configuration.go\<close>

definition SetConfigurationValue ::
  "Client \<Rightarrow> string \<Rightarrow> string \<Rightarrow> string \<Rightarrow> string \<Rightarrow> RequestOption list \<Rightarrow> world
     \<Rightarrow> (error + string) \<times> world" where
  "SetConfigurationValue c nodeName section_name key val opts w =
     (let path = ''/_node/'' @ PathEscape nodeName @ ''/_config/'' @ PathEscape section_name
                 @ ''/'' @ PathEscape key
      in case json_Marshal (AString val) of
           Inl err \<Rightarrow> (Inl (Wrapf ''failed to marshal value'' err), w)
         | Inr data \<Rightarrow>
             (let (r, w1) = doRequest c ''PUT'' path (Some data) opts w
              in case r of
                   Inl err \<Rightarrow> (Inl (Wrapf ''failed to set configuration value'' err), w1)
                 | Inr resp \<Rightarrow>
                     defer_Close w1
                       (case ReadAll resp of
                          Inl err \<Rightarrow> Inl (Wrapf ''failed to read response'' err)
                        | Inr body \<Rightarrow>
                            if StatusCode resp \<noteq> StatusOK then
                              (case Unmarshal_ErrorResponse body of
                                 None \<Rightarrow> Inl (Errorf (''request failed with status ''
                                            @ Itoa (StatusCode resp) @ '': '' @ body))
                               | Some errResp \<Rightarrow>
                                   Inl (Errorf (''failed to set configuration value: ''
                                          @ er_Error errResp @ '' - '' @ er_Reason errResp)))
                            else (case Unmarshal_string body of
                                    None \<Rightarrow> Inl (Wrapf ''failed to unmarshal old value'' JSONError)
                                  | Some oldValue \<Rightarrow> Inr oldValue))))"

text \<open>\<^verbatim>\<open>CreateAdmin\<close> and \<^verbatim>\<open>UpdateAdminPassword\<close> call \<^verbatim>\<open>SetConfigurationValue\<close> on the
  section \<^verbatim>\<open>admins\<close> and return its error only (\<open>None\<close> is nil).\<close>

definition CreateAdmin ::
  "Client \<Rightarrow> string \<Rightarrow> string \<Rightarrow> string \<Rightarrow> RequestOption list \<Rightarrow> world
     \<Rightarrow> error option \<times> world" where
  "CreateAdmin c nodeName username password opts w =
     (let (r, w1) = SetConfigurationValue c nodeName ''admins'' username password opts w
      in ((case r of Inl err \<Rightarrow> Some err | Inr oldValue \<Rightarrow> None), w1))"

definition UpdateAdminPassword ::
  "Client \<Rightarrow> string \<Rightarrow> string \<Rightarrow> string \<Rightarrow> RequestOption list \<Rightarrow> world
     \<Rightarrow> error option \<times> world" where
  "UpdateAdminPassword c nodeName username newPassword opts w =
     (let (r, w1) = SetConfigurationValue c nodeName ''admins'' username newPassword opts w
      in ((case r of Inl err \<Rightarrow> Some err | Inr oldValue \<Rightarrow> None), w1))"

section \<open>databases.go\<close>

record DatabaseInfoCluster =
  cluster_N :: int
  cluster_Q :: int
  cluster_R :: int
  cluster_W :: int

record DatabaseInfoSizes =
  sizes_Active :: int
  sizes_File :: int
  sizes_External :: int

record DatabaseInfoProps =
  props_Partitioned :: bool

record DatabaseInfo =
  dbi_Cluster :: DatabaseInfoCluster
  dbi_CompactRunning :: bool
  dbi_DBName :: string
  dbi_DiskFormatVersion :: int
  dbi_DocCount :: int
  dbi_DocDelCount :: int
  dbi_InstanceStartTime :: string
  dbi_PurgeSeq :: string
  dbi_Sizes :: DatabaseInfoSizes
  dbi_UpdateSeq :: string
  dbi_Props :: DatabaseInfoProps

record DatabaseResponse =
  dbr_OK :: bool
  dbr_Error :: string
  dbr_Reason :: string

record DatabaseCreateOptions =
  dco_Q :: int
  dco_N :: int
  dco_Partitioned :: bool

definition DatabaseInfoCluster_field ::
  "string \<Rightarrow> json \<Rightarrow> DatabaseInfoCluster \<Rightarrow> DatabaseInfoCluster option" where
  "DatabaseInfoCluster_field k v r =
     (if field_match k ''n'' then map_option (\<lambda>x. r\<lparr>cluster_N := x\<rparr>) (dec_int v (cluster_N r))
      else if field_match k ''q'' then map_option (\<lambda>x. r\<lparr>cluster_Q := x\<rparr>) (dec_int v (cluster_Q r))
      else if field_match k ''r'' then map_option (\<lambda>x. r\<lparr>cluster_R := x\<rparr>) (dec_int v (cluster_R r))
      else if field_match k ''w'' then map_option (\<lambda>x. r\<lparr>cluster_W := x\<rparr>) (dec_int v (cluster_W r))
      else Some r)"

definition DatabaseInfoSizes_field ::
  "string \<Rightarrow> json \<Rightarrow> DatabaseInfoSizes \<Rightarrow> DatabaseInfoSizes option" where
  "DatabaseInfoSizes_field k v r =
     (if field_match k ''active''
        then map_option (\<lambda>x. r\<lparr>sizes_Active := x\<rparr>) (dec_int v (sizes_Active r))
      else if field_match k ''file''
        then map_option (\<lambda>x. r\<lparr>sizes_File := x\<rparr>) (dec_int v (sizes_File r))
      else if field_match k ''external''
        then map_option (\<lambda>x. r\<lparr>sizes_External := x\<rparr>) (dec_int v (sizes_External r))
      else Some r)"

definition DatabaseInfoProps_field ::
  "string \<Rightarrow> json \<Rightarrow> DatabaseInfoProps \<Rightarrow> DatabaseInfoProps option" where
  "DatabaseInfoProps_field k v r =
     (if field_match k ''partitioned''
        then map_option (\<lambda>x. r\<lparr>props_Partitioned := x\<rparr>) (dec_bool v (props_Partitioned r))
      else Some r)"

definition DatabaseInfo_field :: "string \<Rightarrow> json \<Rightarrow> DatabaseInfo \<Rightarrow> DatabaseInfo option" where
  "DatabaseInfo_field k v r =
     (if field_match k ''cluster''
        then map_option (\<lambda>x. r\<lparr>dbi_Cluster := x\<rparr>)
               (decode_struct DatabaseInfoCluster_field v (dbi_Cluster r))
      else if field_match k ''compact_running''
        then map_option (\<lambda>x. r\<lparr>dbi_CompactRunning := x\<rparr>) (dec_bool v (dbi_CompactRunning r))
      else if field_match k ''db_name''
        then map_option (\<lambda>x. r\<lparr>dbi_DBName := x\<rparr>) (dec_string v (dbi_DBName r))
      else if field_match k ''disk_format_version''
        then map_option (\<lambda>x. r\<lparr>dbi_DiskFormatVersion := x\<rparr>) (dec_int v (dbi_DiskFormatVersion r))
      else if field_match k ''doc_count''
        then map_option (\<lambda>x. r\<lparr>dbi_DocCount := x\<rparr>) (dec_int v (dbi_DocCount r))
      else if field_match k ''doc_del_count''
        then map_option (\<lambda>x. r\<lparr>dbi_DocDelCount := x\<rparr>) (dec_int v (dbi_DocDelCount r))
      else if field_match k ''instance_start_time''
        then map_option (\<lambda>x. r\<lparr>dbi_InstanceStartTime := x\<rparr>)
               (dec_string v (dbi_InstanceStartTime r))
      else if field_match k ''purge_seq''
        then map_option (\<lambda>x. r\<lparr>dbi_PurgeSeq := x\<rparr>) (dec_string v (dbi_PurgeSeq r))
      else if field_match k ''sizes''
        then map_option (\<lambda>x. r\<lparr>dbi_Sizes := x\<rparr>)
               (decode_struct DatabaseInfoSizes_field v (dbi_Sizes r))
      else if field_match k ''update_seq''
        then map_option (\<lambda>x. r\<lparr>dbi_UpdateSeq := x\<rparr>) (dec_string v (dbi_UpdateSeq r))
      else if field_match k ''props''
        then map_option (\<lambda>x. r\<lparr>dbi_Props := x\<rparr>)
               (decode_struct DatabaseInfoProps_field v (dbi_Props r))
      else Some r)"

definition DatabaseInfo_zero :: DatabaseInfo where
  "DatabaseInfo_zero =
     \<lparr>dbi_Cluster = \<lparr>cluster_N = 0, cluster_Q = 0, cluster_R = 0, cluster_W = 0\<rparr>,
      dbi_CompactRunning = False, dbi_DBName = [], dbi_DiskFormatVersion = 0,
      dbi_DocCount = 0, dbi_DocDelCount = 0, dbi_InstanceStartTime = [], dbi_PurgeSeq = [],
      dbi_Sizes = \<lparr>sizes_Active = 0, sizes_File = 0, sizes_External = 0\<rparr>,
      dbi_UpdateSeq = [], dbi_Props = \<lparr>props_Partitioned = False\<rparr>\<rparr>"

definition Unmarshal_DatabaseInfo :: "string \<Rightarrow> DatabaseInfo option" where
  "Unmarshal_DatabaseInfo data = Unmarshal_struct DatabaseInfo_field DatabaseInfo_zero data"

definition DatabaseResponse_field ::
  "string \<Rightarrow> json \<Rightarrow> DatabaseResponse \<Rightarrow> DatabaseResponse option" where
  "DatabaseResponse_field k v r =
     (if field_match k ''ok'' then map_option (\<lambda>x. r\<lparr>dbr_OK := x\<rparr>) (dec_bool v (dbr_OK r))
      else if field_match k ''error''
        then map_option (\<lambda>x. r\<lparr>dbr_Error := x\<rparr>) (dec_string v (dbr_Error r))
      else if field_match k ''reason''
        then map_option (\<lambda>x. r\<lparr>dbr_Reason := x\<rparr>) (dec_string v (dbr_Reason r))
      else Some r)"

definition Unmarshal_DatabaseResponse :: "string \<Rightarrow> DatabaseResponse option" where
  "Unmarshal_DatabaseResponse data =
     Unmarshal_struct DatabaseResponse_field \<lparr>dbr_OK = False, dbr_Error = [], dbr_Reason = []\<rparr> data"

definition GetDatabase ::
  "Client \<Rightarrow> string \<Rightarrow> RequestOption list \<Rightarrow> world \<Rightarrow> (error + DatabaseInfo) \<times> world" where
  "GetDatabase c dbName opts w =
     (let path = ''/'' @ PathEscape dbName;
          (r, w1) = doRequest c ''GET'' path None opts w
      in case r of
           Inl err \<Rightarrow> (Inl (Wrapf ''failed to get database'' err), w1)
         | Inr resp \<Rightarrow>
             defer_Close w1
               (case ReadAll resp of
                  Inl err \<Rightarrow> Inl (Wrapf ''failed to read response'' err)
                | Inr body \<Rightarrow>
                    if StatusCode resp = StatusNotFound
                      then Inl (Errorf (''database not found: '' @ dbName))
                    else if StatusCode resp \<noteq> StatusOK then
                      (case Unmarshal_ErrorResponse body of
                         None \<Rightarrow> Inl (Errorf (''request failed with status ''
                                    @ Itoa (StatusCode resp) @ '': '' @ body))
                       | Some errResp \<Rightarrow>
                           Inl (Errorf (''failed to get database: ''
                                  @ er_Error errResp @ '' - '' @ er_Reason errResp)))
                    else (case Unmarshal_DatabaseInfo body of
                            None \<Rightarrow> Inl (Wrapf ''failed to unmarshal database info'' JSONError)
                          | Some dbInfo \<Rightarrow> Inr dbInfo)))"

text \<open>A query that is not empty is appended to the path.\<close>

definition with_query :: "string \<Rightarrow> Values \<Rightarrow> string" where
  "with_query path query = (if length query > 0 then path @ ''?'' @ Values_Encode query else path)"

definition set_if :: "bool \<Rightarrow> string \<Rightarrow> string \<Rightarrow> Values \<Rightarrow> Values" where
  "set_if b key v query = (if b then Values_Set query key v else query)"

text \<open>The path of \<^verbatim>\<open>CreateDatabase\<close>, with the query parameters of its options.\<close>

definition CreateDatabase_path :: "string \<Rightarrow> DatabaseCreateOptions option \<Rightarrow> string" where
  "CreateDatabase_path dbName options =
     (let path = ''/'' @ PathEscape dbName
      in case options of
           None \<Rightarrow> path
         | Some opt \<Rightarrow>
             with_query path
               (fold (\<lambda>step query. step query)
                  [set_if (dco_Q opt > 0) ''q'' (Itoa (dco_Q opt)),
                   set_if (dco_N opt > 0) ''n'' (Itoa (dco_N opt)),
                   set_if (dco_Partitioned opt) ''partitioned'' ''true'']
                  []))"

definition CreateDatabase ::
  "Client \<Rightarrow> string \<Rightarrow> DatabaseCreateOptions option \<Rightarrow> RequestOption list \<Rightarrow> world
     \<Rightarrow> (error + DatabaseResponse) \<times> world" where
  "CreateDatabase c dbName options opts w =
     (let path = CreateDatabase_path dbName options;
          (r, w1) = doRequest c ''PUT'' path None opts w
      in case r of
           Inl err \<Rightarrow> (Inl (Wrapf ''failed to create database'' err), w1)
         | Inr resp \<Rightarrow>
             defer_Close w1
               (case ReadAll resp of
                  Inl err \<Rightarrow> Inl (Wrapf ''failed to read response'' err)
                | Inr body \<Rightarrow>
                    if StatusCode resp \<noteq> StatusCreated \<and> StatusCode resp \<noteq> StatusOK then
                      (case Unmarshal_ErrorResponse body of
                         None \<Rightarrow> Inl (Errorf (''request failed with status ''
                                    @ Itoa (StatusCode resp) @ '': '' @ body))
                       | Some errResp \<Rightarrow>
                           Inl (Errorf (''failed to create database: ''
                                  @ er_Error errResp @ '' - '' @ er_Reason errResp)))
                    else (case Unmarshal_DatabaseResponse body of
                            None \<Rightarrow> Inl (Wrapf ''failed to unmarshal response'' JSONError)
                          | Some dbResp \<Rightarrow> Inr dbResp)))"

record BulkDocItem =
  bdi_ID :: string
  bdi_OK :: bool
  bdi_Rev :: string

type_synonym BulkDocsResponse = "BulkDocItem list"

definition BulkDocItem_field :: "string \<Rightarrow> json \<Rightarrow> BulkDocItem \<Rightarrow> BulkDocItem option" where
  "BulkDocItem_field k v r =
     (if field_match k ''id'' then map_option (\<lambda>x. r\<lparr>bdi_ID := x\<rparr>) (dec_string v (bdi_ID r))
      else if field_match k ''ok'' then map_option (\<lambda>x. r\<lparr>bdi_OK := x\<rparr>) (dec_bool v (bdi_OK r))
      else if field_match k ''rev'' then map_option (\<lambda>x. r\<lparr>bdi_Rev := x\<rparr>) (dec_string v (bdi_Rev r))
      else Some r)"

definition Unmarshal_BulkDocsResponse :: "string \<Rightarrow> BulkDocsResponse option" where
  "Unmarshal_BulkDocsResponse data =
     Unmarshal_slice (decode_struct BulkDocItem_field)
       \<lparr>bdi_ID = [], bdi_OK = False, bdi_Rev = []\<rparr> data"

text \<open>A \<^verbatim>\<open>map[string]any\<close> handed in by the caller (\<open>None\<close> when nil), and a
  \<^verbatim>\<open>[]map[string]any\<close> (\<open>None\<close> when nil) as the \<^verbatim>\<open>any\<close> that is marshalled.\<close>

type_synonym document = "(string \<times> any) list option"

definition docs_any :: "document list option \<Rightarrow> any" where
  "docs_any docs =
     (case docs of
        None \<Rightarrow> ATypedNil
      | Some ds \<Rightarrow> ASlice (map (\<lambda>d. case d of None \<Rightarrow> ATypedNil | Some m \<Rightarrow> AMap m) ds))"

definition BulkInsert ::
  "Client \<Rightarrow> string \<Rightarrow> document list option \<Rightarrow> RequestOption list \<Rightarrow> world
     \<Rightarrow> (error + BulkDocsResponse) \<times> world" where
  "BulkInsert c dbName docs opts w =
     (let path = ''/'' @ PathEscape dbName @ ''/_bulk_docs'';
          body = AMap [(''docs'', docs_any docs)]
      in case json_Marshal body of
           Inl err \<Rightarrow> (Inl (Wrapf ''failed to marshal bulk docs'' err), w)
         | Inr data \<Rightarrow>
             (let (r, w1) = doRequest c ''POST'' path (Some data) opts w
              in case r of
                   Inl err \<Rightarrow> (Inl (Wrapf ''failed to bulk insert'' err), w1)
                 | Inr resp \<Rightarrow>
                     defer_Close w1
                       (case ReadAll resp of
                          Inl err \<Rightarrow> Inl (Wrapf ''failed to read response'' err)
                        | Inr respBody \<Rightarrow>
                            if StatusCode resp \<noteq> StatusCreated \<and> StatusCode resp \<noteq> StatusOK then
                              (case Unmarshal_ErrorResponse respBody of
                                 None \<Rightarrow> Inl (Errorf (''request failed with status ''
                                            @ Itoa (StatusCode resp) @ '': '' @ respBody))
                               | Some errResp \<Rightarrow>
                                   Inl (Errorf (''failed to bulk insert: ''
                                          @ er_Error errResp @ '' - '' @ er_Reason errResp)))
                            else (case Unmarshal_BulkDocsResponse respBody of
                                    None \<Rightarrow> Inl (Wrapf ''failed to unmarshal response'' JSONError)
                                  | Some bulkResp \<Rightarrow> Inr bulkResp))))"

definition BulkUpdate ::
  "Client \<Rightarrow> string \<Rightarrow> document list option \<Rightarrow> RequestOption list \<Rightarrow> world
     \<Rightarrow> (error + BulkDocsResponse) \<times> world" where
  "BulkUpdate c dbName docs opts w =
     (let path = ''/'' @ PathEscape dbName @ ''/_bulk_docs'';
          body = AMap [(''docs'', docs_any docs)]
      in case json_Marshal body of
           Inl err \<Rightarrow> (Inl (Wrapf ''failed to marshal bulk docs'' err), w)
         | Inr data \<Rightarrow>
             (let (r, w1) = doRequest c ''POST'' path (Some data) opts w
              in case r of
                   Inl err \<Rightarrow> (Inl (Wrapf ''failed to bulk update'' err), w1)
                 | Inr resp \<Rightarrow>
                     defer_Close w1
                       (case ReadAll resp of
                          Inl err \<Rightarrow> Inl (Wrapf ''failed to read response'' err)
                        | Inr respBody \<Rightarrow>
                            if StatusCode resp \<noteq> StatusCreated \<and> StatusCode resp \<noteq> StatusOK then
                              (case Unmarshal_ErrorResponse respBody of
                                 None \<Rightarrow> Inl (Errorf (''request failed with status ''
                                            @ Itoa (StatusCode resp) @ '': '' @ respBody))
                               | Some errResp \<Rightarrow>
                                   Inl (Errorf (''failed to bulk update: ''
                                          @ er_Error errResp @ '' - '' @ er_Reason errResp)))
                            else (case Unmarshal_BulkDocsResponse respBody of
                                    None \<Rightarrow> Inl (Wrapf ''failed to unmarshal response'' JSONError)
                                  | Some bulkResp \<Rightarrow> Inr bulkResp))))"

subsection \<open>\<^verbatim>\<open>AllDocs\<close>\<close>

record AllDocsOptions =
  ado_Conflicts :: bool
  ado_Descending :: bool
  ado_EndKey :: string
  ado_EndKeyDocID :: string
  ado_IncludeDocs :: bool
  ado_InclusiveEnd :: bool
  ado_Key :: string
  ado_Keys :: "string list"
  ado_Limit :: int
  ado_Skip :: int
  ado_StartKey :: string
  ado_StartKeyDocID :: string
  ado_UpdateSeq :: bool

record AllDocsRow =
  adr_ID :: string
  adr_Key :: string
  adr_Value :: gomap
  adr_Doc :: gomap

record AllDocsResponse =
  adresp_Offset :: int
  adresp_Rows :: "AllDocsRow list"
  adresp_TotalRows :: int
  adresp_UpdateSeq :: string

definition AllDocsRow_field :: "string \<Rightarrow> json \<Rightarrow> AllDocsRow \<Rightarrow> AllDocsRow option" where
  "AllDocsRow_field k v r =
     (if field_match k ''id'' then map_option (\<lambda>x. r\<lparr>adr_ID := x\<rparr>) (dec_string v (adr_ID r))
      else if field_match k ''key'' then map_option (\<lambda>x. r\<lparr>adr_Key := x\<rparr>) (dec_string v (adr_Key r))
      else if field_match k ''value''
        then map_option (\<lambda>x. r\<lparr>adr_Value := x\<rparr>) (dec_map v (adr_Value r))
      else if field_match k ''doc'' then map_option (\<lambda>x. r\<lparr>adr_Doc := x\<rparr>) (dec_map v (adr_Doc r))
      else Some r)"

text \<open>The response under decoding: the struct, and the rows that the array of \<^verbatim>\<open>Rows\<close>
  holds beyond its length.\<close>

definition AllDocsResponse_field ::
  "string \<Rightarrow> json \<Rightarrow> AllDocsResponse \<times> AllDocsRow list
     \<Rightarrow> (AllDocsResponse \<times> AllDocsRow list) option" where
  "AllDocsResponse_field k v st =
     (let r = fst st; spare = snd st
      in if field_match k ''offset''
           then map_option (\<lambda>x. (r\<lparr>adresp_Offset := x\<rparr>, spare)) (dec_int v (adresp_Offset r))
         else if field_match k ''rows''
           then map_option (\<lambda>(rows, spare'). (r\<lparr>adresp_Rows := rows\<rparr>, spare'))
                  (dec_slice (decode_struct AllDocsRow_field)
                     \<lparr>adr_ID = [], adr_Key = [], adr_Value = None, adr_Doc = None\<rparr>
                     v (adresp_Rows r, spare))
         else if field_match k ''total_rows''
           then map_option (\<lambda>x. (r\<lparr>adresp_TotalRows := x\<rparr>, spare)) (dec_int v (adresp_TotalRows r))
         else if field_match k ''update_seq''
           then map_option (\<lambda>x. (r\<lparr>adresp_UpdateSeq := x\<rparr>, spare))
                  (dec_string v (adresp_UpdateSeq r))
         else Some st)"

definition Unmarshal_AllDocsResponse :: "string \<Rightarrow> AllDocsResponse option" where
  "Unmarshal_AllDocsResponse data =
     map_option fst
       (Unmarshal_struct AllDocsResponse_field
          (\<lparr>adresp_Offset = 0, adresp_Rows = [], adresp_TotalRows = 0, adresp_UpdateSeq = []\<rparr>, [])
          data)"

text \<open>\<^verbatim>\<open>fmt.Sprintf(`"%s"`, s)\<close>.\<close>

definition quoted :: "string \<Rightarrow> string" where
  "quoted s = [CHR 0x22] @ s @ [CHR 0x22]"

text \<open>The query parameters that \<^verbatim>\<open>AllDocs\<close> sets when no key list is given, in the
  order of the source, and the ones it sets when a key list is given.\<close>

definition AllDocs_query :: "AllDocsOptions \<Rightarrow> Values" where
  "AllDocs_query opt =
     fold (\<lambda>step query. step query)
       [set_if (ado_Conflicts opt) ''conflicts'' ''true'',
        set_if (ado_Descending opt) ''descending'' ''true'',
        set_if (ado_EndKey opt \<noteq> []) ''endkey'' (quoted (ado_EndKey opt)),
        set_if (ado_EndKeyDocID opt \<noteq> []) ''endkey_docid'' (ado_EndKeyDocID opt),
        set_if (ado_IncludeDocs opt) ''include_docs'' ''true'',
        set_if (ado_InclusiveEnd opt) ''inclusive_end'' ''true'',
        set_if (ado_Key opt \<noteq> []) ''key'' (quoted (ado_Key opt)),
        set_if (ado_Limit opt > 0) ''limit'' (Itoa (ado_Limit opt)),
        set_if (ado_Skip opt > 0) ''skip'' (Itoa (ado_Skip opt)),
        set_if (ado_StartKey opt \<noteq> []) ''startkey'' (quoted (ado_StartKey opt)),
        set_if (ado_StartKeyDocID opt \<noteq> []) ''startkey_docid'' (ado_StartKeyDocID opt),
        set_if (ado_UpdateSeq opt) ''update_seq'' ''true'']
       []"

definition AllDocs_keys_query :: "AllDocsOptions \<Rightarrow> Values" where
  "AllDocs_keys_query opt = set_if (ado_IncludeDocs opt) ''include_docs'' ''true'' []"

text \<open>The outcome of a call: it returns, or it panics (the deferred calls run either
  way).\<close>

datatype 'a completion = Returns 'a | Panics string

text \<open>
  The statements of \<^verbatim>\<open>AllDocs\<close> after its if/else (from \<^verbatim>\<open>if err != nil\<close> on), which read
  the variables \<^verbatim>\<open>resp\<close> and \<^verbatim>\<open>err\<close> declared at the top of the function: \<open>None\<close> is nil.
  \<^verbatim>\<open>defer resp.Body.Close()\<close> evaluates \<^verbatim>\<open>resp.Body\<close> when the statement runs, which
  panics on a nil \<^verbatim>\<open>resp\<close>.
\<close>

definition AllDocs_rest ::
  "Response option \<Rightarrow> error option \<Rightarrow> world \<Rightarrow> (error + AllDocsResponse) completion \<times> world" where
  "AllDocs_rest resp err w1 =
     (case err of
        Some e \<Rightarrow> (Returns (Inl (Wrapf ''failed to get all docs'' e)), w1)
      | None \<Rightarrow>
          (case resp of
             None \<Rightarrow> (Panics ''runtime error: invalid memory address or nil pointer dereference'', w1)
           | Some rsp \<Rightarrow>
               defer_Close w1
                 (Returns
                    (case ReadAll rsp of
                       Inl e \<Rightarrow> Inl (Wrapf ''failed to read response'' e)
                     | Inr body \<Rightarrow>
                         if StatusCode rsp \<noteq> StatusOK then
                           (case Unmarshal_ErrorResponse body of
                              None \<Rightarrow> Inl (Errorf (''request failed with status ''
                                         @ Itoa (StatusCode rsp) @ '': '' @ body))
                            | Some errResp \<Rightarrow>
                                Inl (Errorf (''failed to get all docs: ''
                                       @ er_Error errResp @ '' - '' @ er_Reason errResp)))
                         else (case Unmarshal_AllDocsResponse body of
                                 None \<Rightarrow> Inl (Wrapf ''failed to unmarshal response'' JSONError)
                               | Some allDocsResp \<Rightarrow> Inr allDocsResp)))))"

text \<open>
  \<^verbatim>\<open>AllDocs\<close>. In the branch for a key list, \<^verbatim>\<open>resp, err := s.client.doRequest(...)\<close>
  declares a new \<^verbatim>\<open>resp\<close> (and assigns the \<^verbatim>\<open>err\<close> that \<^verbatim>\<open>data, err := json.Marshal(body)\<close>
  declared in that block): the function's own \<^verbatim>\<open>resp\<close> and \<^verbatim>\<open>err\<close> stay nil. The
  \<^verbatim>\<open>defer\<close> of that block closes the body of the inner response when the function ends.
\<close>

definition AllDocs ::
  "Client \<Rightarrow> string \<Rightarrow> AllDocsOptions option \<Rightarrow> RequestOption list \<Rightarrow> world
     \<Rightarrow> (error + AllDocsResponse) completion \<times> world" where
  "AllDocs c dbName options opts w =
     (let path = ''/'' @ PathEscape dbName @ ''/_all_docs''
      in case (case options of
                 None \<Rightarrow> None
               | Some opt \<Rightarrow> if length (ado_Keys opt) > 0 then Some opt else None) of
           Some opt \<Rightarrow>
             (let path' = with_query path (AllDocs_keys_query opt);
                  body = AMap [(''keys'', ASlice (map AString (ado_Keys opt)))]
              in case json_Marshal body of
                   Inl err \<Rightarrow> (Returns (Inl (Wrapf ''failed to marshal keys'' err)), w)
                 | Inr data \<Rightarrow>
                     (let (r, w1) = doRequest c ''POST'' path' (Some data) opts w
                      in case r of
                           Inl err \<Rightarrow> (Returns (Inl err), w1)
                         | Inr inner_resp \<Rightarrow>
                             (let (res, w2) = AllDocs_rest None None w1
                              in defer_Close w2 res)))
         | None \<Rightarrow>
             (let path' = (case options of
                             None \<Rightarrow> path
                           | Some opt \<Rightarrow> with_query path (AllDocs_query opt));
                  (r, w1) = doRequest c ''GET'' path' None opts w
              in case r of
                   Inl err \<Rightarrow> AllDocs_rest None (Some err) w1
                 | Inr resp \<Rightarrow> AllDocs_rest (Some resp) None w1))"

section \<open>documents.go\<close>

record DocumentResponse =
  dr_OK :: bool
  dr_ID :: string
  dr_Rev :: string

record DocumentGetOptions =
  dgo_Rev :: string
  dgo_Revs :: bool
  dgo_RevsInfo :: bool
  dgo_OpenRevs :: "string list"
  dgo_Latest :: bool
  dgo_Conflicts :: bool
  dgo_DeletedConflicts :: bool
  dgo_LocalSeq :: bool
  dgo_Meta :: bool

record DocumentPutOptions =
  dpo_Rev :: string
  dpo_Batch :: string

definition DocumentResponse_field ::
  "string \<Rightarrow> json \<Rightarrow> DocumentResponse \<Rightarrow> DocumentResponse option" where
  "DocumentResponse_field k v r =
     (if field_match k ''ok'' then map_option (\<lambda>x. r\<lparr>dr_OK := x\<rparr>) (dec_bool v (dr_OK r))
      else if field_match k ''id'' then map_option (\<lambda>x. r\<lparr>dr_ID := x\<rparr>) (dec_string v (dr_ID r))
      else if field_match k ''rev'' then map_option (\<lambda>x. r\<lparr>dr_Rev := x\<rparr>) (dec_string v (dr_Rev r))
      else Some r)"

definition Unmarshal_DocumentResponse :: "string \<Rightarrow> DocumentResponse option" where
  "Unmarshal_DocumentResponse data =
     Unmarshal_struct DocumentResponse_field \<lparr>dr_OK = False, dr_ID = [], dr_Rev = []\<rparr> data"

definition GetDocument_path :: "string \<Rightarrow> string \<Rightarrow> DocumentGetOptions option \<Rightarrow> string" where
  "GetDocument_path dbName docID options =
     (let path = ''/'' @ PathEscape dbName @ ''/'' @ PathEscape docID
      in case options of
           None \<Rightarrow> path
         | Some opt \<Rightarrow>
             with_query path
               (fold (\<lambda>step query. step query)
                  [set_if (dgo_Rev opt \<noteq> []) ''rev'' (dgo_Rev opt),
                   set_if (dgo_Revs opt) ''revs'' ''true'',
                   set_if (dgo_RevsInfo opt) ''revs_info'' ''true'',
                   set_if (dgo_Latest opt) ''latest'' ''true'',
                   set_if (dgo_Conflicts opt) ''conflicts'' ''true'',
                   set_if (dgo_DeletedConflicts opt) ''deleted_conflicts'' ''true'',
                   set_if (dgo_LocalSeq opt) ''local_seq'' ''true'',
                   set_if (dgo_Meta opt) ''meta'' ''true'']
                  []))"

definition GetDocument ::
  "Client \<Rightarrow> string \<Rightarrow> string \<Rightarrow> DocumentGetOptions option \<Rightarrow> RequestOption list \<Rightarrow> world
     \<Rightarrow> (error + gomap) \<times> world" where
  "GetDocument c dbName docID options opts w =
     (let path = GetDocument_path dbName docID options;
          (r, w1) = doRequest c ''GET'' path None opts w
      in case r of
           Inl err \<Rightarrow> (Inl (Wrapf ''failed to get document'' err), w1)
         | Inr resp \<Rightarrow>
             defer_Close w1
               (case ReadAll resp of
                  Inl err \<Rightarrow> Inl (Wrapf ''failed to read response'' err)
                | Inr body \<Rightarrow>
                    if StatusCode resp = StatusNotFound
                      then Inl (Errorf (''document not found: '' @ dbName @ ''/'' @ docID))
                    else if StatusCode resp \<noteq> StatusOK then
                      (case Unmarshal_ErrorResponse body of
                         None \<Rightarrow> Inl (Errorf (''request failed with status ''
                                    @ Itoa (StatusCode resp) @ '': '' @ body))
                       | Some errResp \<Rightarrow>
                           Inl (Errorf (''failed to get document: ''
                                  @ er_Error errResp @ '' - '' @ er_Reason errResp)))
                    else (case Unmarshal_map body of
                            None \<Rightarrow> Inl (Wrapf ''failed to unmarshal document'' JSONError)
                          | Some doc \<Rightarrow> Inr doc)))"

definition CreateDocument_path :: "string \<Rightarrow> DocumentPutOptions option \<Rightarrow> string" where
  "CreateDocument_path dbName options =
     (let path = ''/'' @ PathEscape dbName
      in case options of
           None \<Rightarrow> path
         | Some opt \<Rightarrow> with_query path (set_if (dpo_Batch opt \<noteq> []) ''batch'' (dpo_Batch opt) []))"

definition CreateDocument ::
  "Client \<Rightarrow> string \<Rightarrow> any \<Rightarrow> DocumentPutOptions option \<Rightarrow> RequestOption list \<Rightarrow> world
     \<Rightarrow> (error + DocumentResponse) \<times> world" where
  "CreateDocument c dbName doc options opts w =
     (let path = CreateDocument_path dbName options
      in case json_Marshal doc of
           Inl err \<Rightarrow> (Inl (Wrapf ''failed to marshal document'' err), w)
         | Inr data \<Rightarrow>
             (let (r, w1) = doRequest c ''POST'' path (Some data) opts w
              in case r of
                   Inl err \<Rightarrow> (Inl (Wrapf ''failed to create document'' err), w1)
                 | Inr resp \<Rightarrow>
                     defer_Close w1
                       (case ReadAll resp of
                          Inl err \<Rightarrow> Inl (Wrapf ''failed to read response'' err)
                        | Inr body \<Rightarrow>
                            if StatusCode resp \<noteq> StatusCreated \<and> StatusCode resp \<noteq> StatusAccepted then
                              (case Unmarshal_ErrorResponse body of
                                 None \<Rightarrow> Inl (Errorf (''request failed with status ''
                                            @ Itoa (StatusCode resp) @ '': '' @ body))
                               | Some errResp \<Rightarrow>
                                   Inl (Errorf (''failed to create document: ''
                                          @ er_Error errResp @ '' - '' @ er_Reason errResp)))
                            else (case Unmarshal_DocumentResponse body of
                                    None \<Rightarrow> Inl (Wrapf ''failed to unmarshal response'' JSONError)
                                  | Some docResp \<Rightarrow> Inr docResp))))"

definition UpdateDocument_path :: "string \<Rightarrow> string \<Rightarrow> DocumentPutOptions option \<Rightarrow> string" where
  "UpdateDocument_path dbName docID options =
     (let path = ''/'' @ PathEscape dbName @ ''/'' @ PathEscape docID
      in case options of
           None \<Rightarrow> path
         | Some opt \<Rightarrow>
             with_query path
               (fold (\<lambda>step query. step query)
                  [set_if (dpo_Rev opt \<noteq> []) ''rev'' (dpo_Rev opt),
                   set_if (dpo_Batch opt \<noteq> []) ''batch'' (dpo_Batch opt)]
                  []))"

definition UpdateDocument ::
  "Client \<Rightarrow> string \<Rightarrow> string \<Rightarrow> any \<Rightarrow> DocumentPutOptions option \<Rightarrow> RequestOption list \<Rightarrow> world
     \<Rightarrow> (error + DocumentResponse) \<times> world" where
  "UpdateDocument c dbName docID doc options opts w =
     (let path = UpdateDocument_path dbName docID options
      in case json_Marshal doc of
           Inl err \<Rightarrow> (Inl (Wrapf ''failed to marshal document'' err), w)
         | Inr data \<Rightarrow>
             (let (r, w1) = doRequest c ''PUT'' path (Some data) opts w
              in case r of
                   Inl err \<Rightarrow> (Inl (Wrapf ''failed to update document'' err), w1)
                 | Inr resp \<Rightarrow>
                     defer_Close w1
                       (case ReadAll resp of
                          Inl err \<Rightarrow> Inl (Wrapf ''failed to read response'' err)
                        | Inr body \<Rightarrow>
                            if StatusCode resp \<noteq> StatusCreated \<and> StatusCode resp \<noteq> StatusAccepted then
                              (case Unmarshal_ErrorResponse body of
                                 None \<Rightarrow> Inl (Errorf (''request failed with status ''
                                            @ Itoa (StatusCode resp) @ '': '' @ body))
                               | Some errResp \<Rightarrow>
                                   Inl (Errorf (''failed to update document: ''
                                          @ er_Error errResp @ '' - '' @ er_Reason errResp)))
                            else (case Unmarshal_DocumentResponse body of
                                    None \<Rightarrow> Inl (Wrapf ''failed to unmarshal response'' JSONError)
                                  | Some docResp \<Rightarrow> Inr docResp))))"

section \<open>users.go\<close>

text \<open>\<open>user_Roles\<close> is \<open>None\<close> for a nil slice.\<close>

record User =
  user_ID :: string
  user_Rev :: string
  user_Name :: string
  user_Type :: string
  user_Roles :: "string list option"
  user_Password :: string
  user_Salt :: string
  user_DerivedKey :: string
  user_Iterations :: int
  user_PasswordScheme :: string

record UserResponse =
  ur_OK :: bool
  ur_ID :: string
  ur_Rev :: string

text \<open>A \<^verbatim>\<open>[]string\<close> under decoding: \<^verbatim>\<open>null\<close> makes it nil, an array a slice that is
  not nil.\<close>

definition dec_string_slice ::
  "json \<Rightarrow> string list option \<times> string list \<Rightarrow> (string list option \<times> string list) option" where
  "dec_string_slice v cur =
     (case v of
        JNull \<Rightarrow> Some (None, [])
      | _ \<Rightarrow> map_option (\<lambda>(xs, spare). (Some xs, spare))
               (dec_slice dec_string [] v
                  ((case fst cur of None \<Rightarrow> [] | Some xs \<Rightarrow> xs), snd cur)))"

text \<open>The user under decoding: the struct, and the strings that the array of \<^verbatim>\<open>Roles\<close>
  holds beyond its length.\<close>

definition User_field :: "string \<Rightarrow> json \<Rightarrow> User \<times> string list \<Rightarrow> (User \<times> string list) option" where
  "User_field k v st =
     (let r = fst st; spare = snd st
      in if field_match k ''_id''
           then map_option (\<lambda>x. (r\<lparr>user_ID := x\<rparr>, spare)) (dec_string v (user_ID r))
         else if field_match k ''_rev''
           then map_option (\<lambda>x. (r\<lparr>user_Rev := x\<rparr>, spare)) (dec_string v (user_Rev r))
         else if field_match k ''name''
           then map_option (\<lambda>x. (r\<lparr>user_Name := x\<rparr>, spare)) (dec_string v (user_Name r))
         else if field_match k ''type''
           then map_option (\<lambda>x. (r\<lparr>user_Type := x\<rparr>, spare)) (dec_string v (user_Type r))
         else if field_match k ''roles''
           then map_option (\<lambda>(x, spare'). (r\<lparr>user_Roles := x\<rparr>, spare'))
                  (dec_string_slice v (user_Roles r, spare))
         else if field_match k ''password''
           then map_option (\<lambda>x. (r\<lparr>user_Password := x\<rparr>, spare)) (dec_string v (user_Password r))
         else if field_match k ''salt''
           then map_option (\<lambda>x. (r\<lparr>user_Salt := x\<rparr>, spare)) (dec_string v (user_Salt r))
         else if field_match k ''derived_key''
           then map_option (\<lambda>x. (r\<lparr>user_DerivedKey := x\<rparr>, spare)) (dec_string v (user_DerivedKey r))
         else if field_match k ''iterations''
           then map_option (\<lambda>x. (r\<lparr>user_Iterations := x\<rparr>, spare)) (dec_int v (user_Iterations r))
         else if field_match k ''password_scheme''
           then map_option (\<lambda>x. (r\<lparr>user_PasswordScheme := x\<rparr>, spare))
                  (dec_string v (user_PasswordScheme r))
         else Some st)"

definition User_zero :: User where
  "User_zero =
     \<lparr>user_ID = [], user_Rev = [], user_Name = [], user_Type = [], user_Roles = None,
      user_Password = [], user_Salt = [], user_DerivedKey = [], user_Iterations = 0,
      user_PasswordScheme = []\<rparr>"

definition Unmarshal_User :: "string \<Rightarrow> User option" where
  "Unmarshal_User data = map_option fst (Unmarshal_struct User_field (User_zero, []) data)"

definition UserResponse_field :: "string \<Rightarrow> json \<Rightarrow> UserResponse \<Rightarrow> UserResponse option" where
  "UserResponse_field k v r =
     (if field_match k ''ok'' then map_option (\<lambda>x. r\<lparr>ur_OK := x\<rparr>) (dec_bool v (ur_OK r))
      else if field_match k ''id'' then map_option (\<lambda>x. r\<lparr>ur_ID := x\<rparr>) (dec_string v (ur_ID r))
      else if field_match k ''rev'' then map_option (\<lambda>x. r\<lparr>ur_Rev := x\<rparr>) (dec_string v (ur_Rev r))
      else Some r)"

definition Unmarshal_UserResponse :: "string \<Rightarrow> UserResponse option" where
  "Unmarshal_UserResponse data =
     Unmarshal_struct UserResponse_field \<lparr>ur_OK = False, ur_ID = [], ur_Rev = []\<rparr> data"

text \<open>\<^verbatim>\<open>json.Marshal\<close> of a \<^verbatim>\<open>User\<close>: the fields in the order of the struct, those tagged
  \<^verbatim>\<open>omitempty\<close> left out when empty or zero, a nil slice written as \<^verbatim>\<open>null\<close>.\<close>

definition member :: "string \<Rightarrow> string \<Rightarrow> string" where
  "member name text = quoted name @ '':'' @ text"

definition omitempty :: "string \<Rightarrow> string \<Rightarrow> string list" where
  "omitempty name v = (if v = [] then [] else [member name (appendString v)])"

definition encode_strings :: "string list option \<Rightarrow> string" where
  "encode_strings xs =
     (case xs of None \<Rightarrow> ''null'' | Some ys \<Rightarrow> ''['' @ Join (map appendString ys) '','' @ '']'')"

definition Marshal_User :: "User \<Rightarrow> error + string" where
  "Marshal_User u =
     Inr (''{'' @ Join (omitempty ''_id'' (user_ID u) @ omitempty ''_rev'' (user_Rev u)
                        @ [member ''name'' (appendString (user_Name u)),
                           member ''type'' (appendString (user_Type u)),
                           member ''roles'' (encode_strings (user_Roles u))]
                        @ omitempty ''password'' (user_Password u)
                        @ omitempty ''salt'' (user_Salt u)
                        @ omitempty ''derived_key'' (user_DerivedKey u)
                        @ (if user_Iterations u = 0 then []
                           else [member ''iterations'' (Itoa (user_Iterations u))])
                        @ omitempty ''password_scheme'' (user_PasswordScheme u)) '',''
          @ ''}'')"

text \<open>\<^verbatim>\<open>CreateUser\<close>; \<open>roles\<close> is the \<^verbatim>\<open>[]string\<close> (\<open>None\<close> when nil).\<close>

definition CreateUser ::
  "Client \<Rightarrow> string \<Rightarrow> string \<Rightarrow> string list option \<Rightarrow> RequestOption list \<Rightarrow> world
     \<Rightarrow> (error + UserResponse) \<times> world" where
  "CreateUser c name password roles opts w =
     (let user = \<lparr>user_ID = ''org.couchdb.user:'' @ name, user_Rev = [], user_Name = name,
                  user_Type = ''user'', user_Roles = roles, user_Password = password,
                  user_Salt = [], user_DerivedKey = [], user_Iterations = 0,
                  user_PasswordScheme = []\<rparr>;
          user1 = (if user_Roles user = None then user\<lparr>user_Roles := Some []\<rparr> else user)
      in case Marshal_User user1 of
           Inl err \<Rightarrow> (Inl (Wrapf ''failed to marshal user'' err), w)
         | Inr data \<Rightarrow>
             (let (r, w1) = doRequest c ''POST'' ''/_users'' (Some data) opts w
              in case r of
                   Inl err \<Rightarrow> (Inl (Wrapf ''failed to create user'' err), w1)
                 | Inr resp \<Rightarrow>
                     defer_Close w1
                       (case ReadAll resp of
                          Inl err \<Rightarrow> Inl (Wrapf ''failed to read response'' err)
                        | Inr body \<Rightarrow>
                            if StatusCode resp \<noteq> StatusCreated \<and> StatusCode resp \<noteq> StatusOK then
                              (case Unmarshal_ErrorResponse body of
                                 None \<Rightarrow> Inl (Errorf (''request failed with status ''
                                            @ Itoa (StatusCode resp) @ '': '' @ body))
                               | Some errResp \<Rightarrow>
                                   Inl (Errorf (''failed to create user: ''
                                          @ er_Error errResp @ '' - '' @ er_Reason errResp)))
                            else (case Unmarshal_UserResponse body of
                                    None \<Rightarrow> Inl (Wrapf ''failed to unmarshal response'' JSONError)
                                  | Some userResp \<Rightarrow> Inr userResp))))"

definition GetUser ::
  "Client \<Rightarrow> string \<Rightarrow> RequestOption list \<Rightarrow> world \<Rightarrow> (error + User) \<times> world" where
  "GetUser c name opts w =
     (let docID = ''org.couchdb.user:'' @ name;
          path = ''/_users/'' @ PathEscape docID;
          (r, w1) = doRequest c ''GET'' path None opts w
      in case r of
           Inl err \<Rightarrow> (Inl (Wrapf ''failed to get user'' err), w1)
         | Inr resp \<Rightarrow>
             defer_Close w1
               (case ReadAll resp of
                  Inl err \<Rightarrow> Inl (Wrapf ''failed to read response'' err)
                | Inr body \<Rightarrow>
                    if StatusCode resp = StatusNotFound
                      then Inl (Errorf (''user not found: '' @ name))
                    else if StatusCode resp \<noteq> StatusOK then
                      (case Unmarshal_ErrorResponse body of
                         None \<Rightarrow> Inl (Errorf (''request failed with status ''
                                    @ Itoa (StatusCode resp) @ '': '' @ body))
                       | Some errResp \<Rightarrow>
                           Inl (Errorf (''failed to get user: ''
                                  @ er_Error errResp @ '' - '' @ er_Reason errResp)))
                    else (case Unmarshal_User body of
                            None \<Rightarrow> Inl (Wrapf ''failed to unmarshal user'' JSONError)
                          | Some user \<Rightarrow> Inr user)))"

text \<open>\<^verbatim>\<open>UpdateUser\<close>; \<open>revision\<close> is the parameter \<^verbatim>\<open>rev\<close>, \<open>password\<close> is the \<^verbatim>\<open>*string\<close> (\<open>None\<close> when nil) and \<open>roles\<close> the
  \<^verbatim>\<open>[]string\<close> (\<open>None\<close> when nil).\<close>

definition UpdateUser ::
  "Client \<Rightarrow> string \<Rightarrow> string \<Rightarrow> string option \<Rightarrow> string list option \<Rightarrow> RequestOption list
     \<Rightarrow> world \<Rightarrow> (error + UserResponse) \<times> world" where
  "UpdateUser c name revision password roles opts w =
     (let docID = ''org.couchdb.user:'' @ name;
          user = \<lparr>user_ID = docID, user_Rev = revision, user_Name = name, user_Type = ''user'',
                  user_Roles = roles, user_Password = [], user_Salt = [], user_DerivedKey = [],
                  user_Iterations = 0, user_PasswordScheme = []\<rparr>;
          user1 = (case password of None \<Rightarrow> user | Some p \<Rightarrow> user\<lparr>user_Password := p\<rparr>);
          user2 = (if user_Roles user1 = None then user1\<lparr>user_Roles := Some []\<rparr> else user1)
      in case Marshal_User user2 of
           Inl err \<Rightarrow> (Inl (Wrapf ''failed to marshal user'' err), w)
         | Inr data \<Rightarrow>
             (let path = ''/_users/'' @ PathEscape docID;
                  (r, w1) = doRequest c ''PUT'' path (Some data) opts w
              in case r of
                   Inl err \<Rightarrow> (Inl (Wrapf ''failed to update user'' err), w1)
                 | Inr resp \<Rightarrow>
                     defer_Close w1
                       (case ReadAll resp of
                          Inl err \<Rightarrow> Inl (Wrapf ''failed to read response'' err)
                        | Inr body \<Rightarrow>
                            if StatusCode resp \<noteq> StatusCreated \<and> StatusCode resp \<noteq> StatusOK then
                              (case Unmarshal_ErrorResponse body of
                                 None \<Rightarrow> Inl (Errorf (''request failed with status ''
                                            @ Itoa (StatusCode resp) @ '': '' @ body))
                               | Some errResp \<Rightarrow>
                                   Inl (Errorf (''failed to update user: ''
                                          @ er_Error errResp @ '' - '' @ er_Reason errResp)))
                            else (case Unmarshal_UserResponse body of
                                    None \<Rightarrow> Inl (Wrapf ''failed to unmarshal response'' JSONError)
                                  | Some userResp \<Rightarrow> Inr userResp))))"

definition UpdatePassword ::
  "Client \<Rightarrow> string \<Rightarrow> string \<Rightarrow> string \<Rightarrow> RequestOption list \<Rightarrow> world
     \<Rightarrow> (error + UserResponse) \<times> world" where
  "UpdatePassword c name revision newPassword opts w =
     (let (r, w1) = GetUser c name opts w
      in case r of
           Inl err \<Rightarrow> (Inl (Wrapf ''failed to get user'' err), w1)
         | Inr user \<Rightarrow> UpdateUser c name revision (Some newPassword) (user_Roles user) opts w1)"

definition UpdateRoles ::
  "Client \<Rightarrow> string \<Rightarrow> string \<Rightarrow> string list option \<Rightarrow> RequestOption list \<Rightarrow> world
     \<Rightarrow> (error + UserResponse) \<times> world" where
  "UpdateRoles c name revision roles opts w =
     (let (r0, w0') = GetUser c name opts w
      in case r0 of
           Inl err \<Rightarrow> (Inl (Wrapf ''failed to get user'' err), w0')
         | Inr currentUser \<Rightarrow>
             (let docID = ''org.couchdb.user:'' @ name;
                  user = \<lparr>user_ID = docID, user_Rev = revision, user_Name = name, user_Type = ''user'',
                          user_Roles = roles, user_Password = [],
                          user_Salt = user_Salt currentUser,
                          user_DerivedKey = user_DerivedKey currentUser,
                          user_Iterations = user_Iterations currentUser,
                          user_PasswordScheme = user_PasswordScheme currentUser\<rparr>;
                  user1 = (if user_Roles user = None then user\<lparr>user_Roles := Some []\<rparr> else user)
              in case Marshal_User user1 of
                   Inl err \<Rightarrow> (Inl (Wrapf ''failed to marshal user'' err), w0')
                 | Inr data \<Rightarrow>
                     (let path = ''/_users/'' @ PathEscape docID;
                          (r, w1) = doRequest c ''PUT'' path (Some data) opts w0'
                      in case r of
                           Inl err \<Rightarrow> (Inl (Wrapf ''failed to update roles'' err), w1)
                         | Inr resp \<Rightarrow>
                             defer_Close w1
                               (case ReadAll resp of
                                  Inl err \<Rightarrow> Inl (Wrapf ''failed to read response'' err)
                                | Inr body \<Rightarrow>
                                    if StatusCode resp \<noteq> StatusCreated
                                       \<and> StatusCode resp \<noteq> StatusOK then
                                      (case Unmarshal_ErrorResponse body of
                                         None \<Rightarrow> Inl (Errorf (''request failed with status ''
                                                    @ Itoa (StatusCode resp) @ '': '' @ body))
                                       | Some errResp \<Rightarrow>
                                           Inl (Errorf (''failed to update roles: ''
                                                  @ er_Error errResp @ '' - ''
                                                  @ er_Reason errResp)))
                                    else (case Unmarshal_UserResponse body of
                                            None \<Rightarrow> Inl (Wrapf ''failed to unmarshal response''
                                                          JSONError)
                                          | Some userResp \<Rightarrow> Inr userResp)))))"

section \<open>design_documents.go\<close>

record ViewOptions =
  vo_Conflicts :: bool
  vo_Descending :: bool
  vo_EndKey :: any
  vo_EndKeyDocID :: string
  vo_Group :: bool
  vo_GroupLevel :: int
  vo_IncludeDocs :: bool
  vo_InclusiveEnd :: bool
  vo_Key :: any
  vo_Keys :: "any list"
  vo_Limit :: int
  vo_Reduce :: "bool option"
  vo_Skip :: int
  vo_Sorted :: bool
  vo_Stable :: bool
  vo_Stale :: string
  vo_StartKey :: any
  vo_StartKeyDocID :: string
  vo_Update :: string
  vo_UpdateSeq :: bool

record ViewRow =
  vr_ID :: string
  vr_Key :: json
  vr_Value :: json
  vr_Doc :: gomap

record ViewResponse =
  vresp_Offset :: int
  vresp_TotalRows :: int
  vresp_Rows :: "ViewRow list"
  vresp_UpdateSeq :: string

definition ViewRow_field :: "string \<Rightarrow> json \<Rightarrow> ViewRow \<Rightarrow> ViewRow option" where
  "ViewRow_field k v r =
     (if field_match k ''id'' then map_option (\<lambda>x. r\<lparr>vr_ID := x\<rparr>) (dec_string v (vr_ID r))
      else if field_match k ''key'' then map_option (\<lambda>x. r\<lparr>vr_Key := x\<rparr>) (dec_any v)
      else if field_match k ''value'' then map_option (\<lambda>x. r\<lparr>vr_Value := x\<rparr>) (dec_any v)
      else if field_match k ''doc'' then map_option (\<lambda>x. r\<lparr>vr_Doc := x\<rparr>) (dec_map v (vr_Doc r))
      else Some r)"

definition ViewResponse_field ::
  "string \<Rightarrow> json \<Rightarrow> ViewResponse \<times> ViewRow list \<Rightarrow> (ViewResponse \<times> ViewRow list) option" where
  "ViewResponse_field k v st =
     (let r = fst st; spare = snd st
      in if field_match k ''offset''
           then map_option (\<lambda>x. (r\<lparr>vresp_Offset := x\<rparr>, spare)) (dec_int v (vresp_Offset r))
         else if field_match k ''total_rows''
           then map_option (\<lambda>x. (r\<lparr>vresp_TotalRows := x\<rparr>, spare)) (dec_int v (vresp_TotalRows r))
         else if field_match k ''rows''
           then map_option (\<lambda>(rows, spare'). (r\<lparr>vresp_Rows := rows\<rparr>, spare'))
                  (dec_slice (decode_struct ViewRow_field)
                     \<lparr>vr_ID = [], vr_Key = JNull, vr_Value = JNull, vr_Doc = None\<rparr>
                     v (vresp_Rows r, spare))
         else if field_match k ''update_seq''
           then map_option (\<lambda>x. (r\<lparr>vresp_UpdateSeq := x\<rparr>, spare))
                  (dec_string v (vresp_UpdateSeq r))
         else Some st)"

definition Unmarshal_ViewResponse :: "string \<Rightarrow> ViewResponse option" where
  "Unmarshal_ViewResponse data =
     map_option fst
       (Unmarshal_struct ViewResponse_field
          (\<lparr>vresp_Offset = 0, vresp_TotalRows = 0, vresp_Rows = [], vresp_UpdateSeq = []\<rparr>, [])
          data)"

text \<open>\<^verbatim>\<open>keyJSON, _ := json.Marshal(key); string(keyJSON)\<close>: the error is dropped, and the
  text is empty then.\<close>

definition key_json :: "any \<Rightarrow> string" where
  "key_json key = (case json_Marshal key of Inl err \<Rightarrow> [] | Inr data \<Rightarrow> data)"

definition QueryView_query :: "ViewOptions \<Rightarrow> Values" where
  "QueryView_query opt =
     fold (\<lambda>step query. step query)
       [set_if (vo_Conflicts opt) ''conflicts'' ''true'',
        set_if (vo_Descending opt) ''descending'' ''true'',
        set_if (vo_EndKey opt \<noteq> ANil) ''endkey'' (key_json (vo_EndKey opt)),
        set_if (vo_EndKeyDocID opt \<noteq> []) ''endkey_docid'' (vo_EndKeyDocID opt),
        set_if (vo_Group opt) ''group'' ''true'',
        set_if (vo_GroupLevel opt > 0) ''group_level'' (Itoa (vo_GroupLevel opt)),
        set_if (vo_IncludeDocs opt) ''include_docs'' ''true'',
        set_if (vo_InclusiveEnd opt) ''inclusive_end'' ''true'',
        set_if (vo_Key opt \<noteq> ANil) ''key'' (key_json (vo_Key opt)),
        set_if (vo_Limit opt > 0) ''limit'' (Itoa (vo_Limit opt)),
        (\<lambda>query. case vo_Reduce opt of
                    None \<Rightarrow> query
                  | Some b \<Rightarrow> if b then Values_Set query ''reduce'' ''true''
                              else Values_Set query ''reduce'' ''false''),
        set_if (vo_Skip opt > 0) ''skip'' (Itoa (vo_Skip opt)),
        set_if (vo_Sorted opt) ''sorted'' ''true'',
        set_if (vo_Stable opt) ''stable'' ''true'',
        set_if (vo_Stale opt \<noteq> []) ''stale'' (vo_Stale opt),
        set_if (vo_StartKey opt \<noteq> ANil) ''startkey'' (key_json (vo_StartKey opt)),
        set_if (vo_StartKeyDocID opt \<noteq> []) ''startkey_docid'' (vo_StartKeyDocID opt),
        set_if (vo_Update opt \<noteq> []) ''update'' (vo_Update opt),
        set_if (vo_UpdateSeq opt) ''update_seq'' ''true'']
       []"

definition QueryView_path :: "string \<Rightarrow> string \<Rightarrow> string \<Rightarrow> ViewOptions option \<Rightarrow> string" where
  "QueryView_path dbName ddoc viewName options =
     (let path = ''/'' @ PathEscape dbName @ ''/_design/'' @ PathEscape ddoc @ ''/_view/''
                 @ PathEscape viewName
      in case options of
           None \<Rightarrow> path
         | Some opt \<Rightarrow> with_query path (QueryView_query opt))"

definition QueryView ::
  "Client \<Rightarrow> string \<Rightarrow> string \<Rightarrow> string \<Rightarrow> ViewOptions option \<Rightarrow> RequestOption list \<Rightarrow> world
     \<Rightarrow> (error + ViewResponse) \<times> world" where
  "QueryView c dbName ddoc viewName options opts w =
     (let path = QueryView_path dbName ddoc viewName options;
          (r, w1) = doRequest c ''GET'' path None opts w
      in case r of
           Inl err \<Rightarrow> (Inl (Wrapf ''failed to query view'' err), w1)
         | Inr resp \<Rightarrow>
             defer_Close w1
               (case ReadAll resp of
                  Inl err \<Rightarrow> Inl (Wrapf ''failed to read response'' err)
                | Inr body \<Rightarrow>
                    if StatusCode resp \<noteq> StatusOK then
                      (case Unmarshal_ErrorResponse body of
                         None \<Rightarrow> Inl (Errorf (''request failed with status ''
                                    @ Itoa (StatusCode resp) @ '': '' @ body))
                       | Some errResp \<Rightarrow>
                           Inl (Errorf (''failed to query view: ''
                                  @ er_Error errResp @ '' - '' @ er_Reason errResp)))
                    else (case Unmarshal_ViewResponse body of
                            None \<Rightarrow> Inl (Wrapf ''failed to unmarshal response'' JSONError)
                          | Some viewResp \<Rightarrow> Inr viewResp)))"

section \<open>security.go\<close>

text \<open>A \<^verbatim>\<open>[]string\<close> is \<open>None\<close> when nil, and so is the \<^verbatim>\<open>*SecurityObject\<close> that
  \<^verbatim>\<open>SetSecurity\<close> is given.\<close>

record Members =
  mem_Names :: "string list option"
  mem_Roles :: "string list option"

record SecurityObject =
  so_Admins :: Members
  so_Members :: Members

text \<open>\<^verbatim>\<open>json.Marshal\<close> of a \<^verbatim>\<open>*SecurityObject\<close>: a nil pointer is \<^verbatim>\<open>null\<close>, and so is a nil
  slice, since no field is tagged \<^verbatim>\<open>omitempty\<close>.\<close>

definition Marshal_Members :: "Members \<Rightarrow> string" where
  "Marshal_Members m =
     ''{'' @ Join [member ''names'' (encode_strings (mem_Names m)),
                   member ''roles'' (encode_strings (mem_Roles m))] '','' @ ''}''"

definition Marshal_SecurityObject :: "SecurityObject option \<Rightarrow> error + string" where
  "Marshal_SecurityObject security =
     (case security of
        None \<Rightarrow> Inr ''null''
      | Some so \<Rightarrow>
          Inr (''{'' @ Join [member ''admins'' (Marshal_Members (so_Admins so)),
                             member ''members'' (Marshal_Members (so_Members so))] '','' @ ''}''))"

text \<open>\<^verbatim>\<open>SetSecurity\<close> returns an error only (\<open>None\<close> is nil).\<close>

definition SetSecurity ::
  "Client \<Rightarrow> string \<Rightarrow> SecurityObject option \<Rightarrow> RequestOption list \<Rightarrow> world
     \<Rightarrow> error option \<times> world" where
  "SetSecurity c dbName security opts w =
     (let path = ''/'' @ PathEscape dbName @ ''/_security''
      in case Marshal_SecurityObject security of
           Inl err \<Rightarrow> (Some (Wrapf ''failed to marshal security'' err), w)
         | Inr data \<Rightarrow>
             (let (r, w1) = doRequest c ''PUT'' path (Some data) opts w
              in case r of
                   Inl err \<Rightarrow> (Some (Wrapf ''failed to set security'' err), w1)
                 | Inr resp \<Rightarrow>
                     defer_Close w1
                       (case ReadAll resp of
                          Inl err \<Rightarrow> Some (Wrapf ''failed to read response'' err)
                        | Inr body \<Rightarrow>
                            if StatusCode resp \<noteq> StatusOK then
                              (case Unmarshal_ErrorResponse body of
                                 None \<Rightarrow> Some (Errorf (''request failed with status ''
                                            @ Itoa (StatusCode resp) @ '': '' @ body))
                               | Some errResp \<Rightarrow>
                                   Some (Errorf (''failed to set security: ''
                                          @ er_Error errResp @ '' - '' @ er_Reason errResp)))
                            else None)))"

section \<open>Test doubles\<close>

text \<open>A transport that builds every request and answers each one with the same response,
  and the world before any request.\<close>

definition always :: "Response \<Rightarrow> HTTPClient" where
  "always resp = \<lparr>NewRequest_err = (\<lambda>m u. None), Do = (\<lambda>hist req. Inr resp)\<rparr>"

definition response :: "int \<Rightarrow> string \<Rightarrow> Response" where
  "response code body = \<lparr>StatusCode = code, RespBody = Inr body\<rparr>"

text \<open>A response whose body breaks off while it is read.\<close>

definition unreadable :: "int \<Rightarrow> Response" where
  "unreadable code = \<lparr>StatusCode = code, RespBody = Inl (LibError ''unexpected EOF'')\<rparr>"

definition w0 :: world where
  "w0 = \<lparr>sent = [], closed = 0\<rparr>"

text \<open>A text written with a backquote for each double quote.\<close>

definition dq :: "string \<Rightarrow> string" where
  "dq s = map (\<lambda>c. if c = CHR ''`'' then CHR 0x22 else c) s"

text \<open>A transport that answers a GET with one response and any other request with
  another.\<close>

definition get_then :: "Response \<Rightarrow> Response \<Rightarrow> HTTPClient" where
  "get_then got other =
     \<lparr>NewRequest_err = (\<lambda>m u. None),
      Do = (\<lambda>hist req. if Method req = ''GET'' then Inr got else Inr other)\<rparr>"

definition conflict_body :: string where
  "conflict_body = dq ''{`error`:`conflict`,`reason`:`Document update conflict.`}''"

definition localhost :: "Response \<Rightarrow> Client" where
  "localhost resp = NewClient (always resp) ''http://localhost:5984'' []"

definition not_found_body :: string where
  "not_found_body = dq ''{`error`:`not_found`,`reason`:`missing`}''"

text \<open>The world after one request with the content type as its only header.\<close>

definition after_request :: "string \<Rightarrow> string \<Rightarrow> string option \<Rightarrow> nat \<Rightarrow> world" where
  "after_request m url body n =
     \<lparr>sent = [\<lparr>Method = m, URL = url, Header = [(''Content-Type'', [''application/json''])],
               Body = body\<rparr>],
      closed = n\<rparr>"

text \<open>A request with the content type as its only header.\<close>

definition request :: "string \<Rightarrow> string \<Rightarrow> string option \<Rightarrow> Request" where
  "request m url body =
     \<lparr>Method = m, URL = url, Header = [(''Content-Type'', [''application/json''])], Body = body\<rparr>"

definition AllDocsOptions_zero :: AllDocsOptions where
  "AllDocsOptions_zero =
     \<lparr>ado_Conflicts = False, ado_Descending = False, ado_EndKey = [], ado_EndKeyDocID = [],
      ado_IncludeDocs = False, ado_InclusiveEnd = False, ado_Key = [], ado_Keys = [],
      ado_Limit = 0, ado_Skip = 0, ado_StartKey = [], ado_StartKeyDocID = [],
      ado_UpdateSeq = False\<rparr>"

definition ViewOptions_zero :: ViewOptions where
  "ViewOptions_zero =
     \<lparr>vo_Conflicts = False, vo_Descending = False, vo_EndKey = ANil, vo_EndKeyDocID = [],
      vo_Group = False, vo_GroupLevel = 0, vo_IncludeDocs = False, vo_InclusiveEnd = False,
      vo_Key = ANil, vo_Keys = [], vo_Limit = 0, vo_Reduce = None, vo_Skip = 0,
      vo_Sorted = False, vo_Stable = False, vo_Stale = [], vo_StartKey = ANil,
      vo_StartKeyDocID = [], vo_Update = [], vo_UpdateSeq = False\<rparr>"

definition all_docs_body :: string where
  "all_docs_body = dq ''{`offset`:0,`rows`:[],`total_rows`:0}''"

definition bulk_body :: string where
  "bulk_body = dq ''[{`id`:`a`,`ok`:true,`rev`:`1-x`}]''"

definition user_body :: string where
  "user_body = dq (''{`roles`:[`reader`],`salt`:`s4lt`,`derived_key`:`d3r1`,`iterations`:10,''
     @ ''`password_scheme`:`pbkdf2`}'')"

definition user_ok_body :: string where
  "user_ok_body = dq ''{`ok`:true,`id`:`u`,`rev`:`2-b`}''"

definition fetched_user :: User where
  "fetched_user =
     \<lparr>user_ID = [], user_Rev = [], user_Name = [], user_Type = [],
      user_Roles = Some [''reader''], user_Password = [],
      user_Salt = ''s4lt'', user_DerivedKey = ''d3r1'', user_Iterations = 10,
      user_PasswordScheme = ''pbkdf2''\<rparr>"

definition user_server :: Client where
  "user_server =
     NewClient (get_then (response 200 user_body) (response 201 user_ok_body))
       ''http://localhost:5984'' []"

text \<open>A server that has the user and refuses every write with a conflict.\<close>

definition conflict_server :: Client where
  "conflict_server =
     NewClient (get_then (response 200 user_body) (response 409 conflict_body))
       ''http://localhost:5984'' []"

section \<open>Notions used in the statements\<close>

text \<open>The four authenticators of the package, as opposed to one supplied from outside.\<close>

fun package_authenticator :: "Authenticator \<Rightarrow> bool" where
  "package_authenticator (OtherAuthenticator f) = False"
| "package_authenticator a = True"

text \<open>The requests that reached the transport between two states of the world.\<close>

definition new_requests :: "world \<Rightarrow> world \<Rightarrow> Request list" where
  "new_requests w w' = drop (length (sent w)) (sent w')"

text \<open>The bytes that stand for themselves inside a JSON string literal, as far as
  this development needs them: printable ASCII other than the double quote and the
  backslash.\<close>

definition json_plain :: "char \<Rightarrow> bool" where
  "json_plain c =
     (32 \<le> (of_char c :: nat) \<and> (of_char c :: nat) < 128 \<and> c \<noteq> CHR 0x22 \<and> c \<noteq> CHR 0x5C)"

text \<open>
  The error that the operations build for a status outside their success set, written
  once: the block is repeated in every operation of the source with its own words
  \<open>what\<close>. The body is decoded as an error envelope; when that fails the error holds the
  status and the body as they are, and otherwise the two fields of the envelope (empty
  when the body does not give them).
\<close>

definition api_error :: "string \<Rightarrow> int \<Rightarrow> string \<Rightarrow> error" where
  "api_error what code body =
     (case Unmarshal_ErrorResponse body of
        None \<Rightarrow> Errorf (''request failed with status '' @ Itoa code @ '': '' @ body)
      | Some errResp \<Rightarrow> Errorf (what @ '': '' @ er_Error errResp @ '' - '' @ er_Reason errResp))"

text \<open>The error of \<^verbatim>\<open>BulkUpdate\<close> that counts as the same as an error of \<^verbatim>\<open>BulkInsert\<close>:
  the words "bulk insert" of the operation's own prefix read "bulk update".\<close>

fun bulk_update_error :: "error \<Rightarrow> error" where
  "bulk_update_error (Wrapf p e) =
     Wrapf (if p = ''failed to bulk insert'' then ''failed to bulk update'' else p) e"
| "bulk_update_error (Errorf m) =
     (if take 23 m = ''failed to bulk insert: ''
      then Errorf (''failed to bulk update: '' @ drop 23 m) else Errorf m)"
| "bulk_update_error e = e"

section \<open>The step bounds of the encoder and of the decoder\<close>

text \<open>
  The loops of \<^verbatim>\<open>appendString\<close> and of the string literal scanner, and the calls of the
  parser, are given a number of steps. The bounds the definitions use are enough: with
  that many steps or more the result is the same, so that no result of the model is an
  effect of the bound.
\<close>

subsection \<open>The loop of the encoder\<close>

lemma appendString_loop_Suc:
  "length s \<le> n \<Longrightarrow> appendString_loop (Suc n) s = appendString_loop n s"
proof (induction n arbitrary: s)
  case 0
  then show ?case by simp
next
  case (Suc n)
  show ?case
  proof (cases s)
    case Nil
    then show ?thesis by simp
  next
    case (Cons b r)
    with Suc.prems have r: "length r \<le> n" by simp
    have d: "length (drop k (b # r)) \<le> n" if "k \<noteq> 0" for k
      using r that by (cases k) simp_all
    have w: "rune_width (b # r) \<noteq> 0 \<Longrightarrow> length (drop (rune_width (b # r)) (b # r)) \<le> n"
      by (rule d)
    show ?thesis
      unfolding Cons
      using d [of 3] w
      by (simp add: Let_def Suc.IH r)
  qed
qed

lemma appendString_loop_add:
  "length s \<le> n \<Longrightarrow> appendString_loop (n + k) s = appendString_loop n s"
  by (induction k) (simp_all add: appendString_loop_Suc)

lemma appendString_loop_fuel:
  "length s \<le> n \<Longrightarrow> appendString_loop n s = appendString_loop (length s) s"
  using appendString_loop_add [of s "length s" "n - length s"] by simp

subsection \<open>The scanner of string literals\<close>

lemma prepend_Some:
  "prepend x r = Some (str, rest) \<longleftrightarrow> (\<exists>str'. r = Some (str', rest) \<and> str = x @ str')"
  by (cases r) (auto simp add: prepend_def)

lemma unquote_consumes:
  "unquote n s = Some (str, r) \<Longrightarrow> length r < length s"
proof (induction n arbitrary: s str r)
  case 0
  then show ?case by simp
next
  case (Suc n)
  show ?case
  proof (cases s)
    case Nil
    with Suc.prems show ?thesis by simp
  next
    case (Cons c t)
    from Suc.prems show ?thesis
      unfolding Cons
      by (auto simp add: prepend_Some Let_def split: if_splits list.splits option.splits
               dest!: Suc.IH)
  qed
qed

lemma unquote_Suc:
  "length s \<le> n \<Longrightarrow> unquote (Suc n) s = unquote n s"
proof (induction n arbitrary: s)
  case 0
  then show ?case by simp
next
  case (Suc n)
  show ?case
  proof (cases s)
    case Nil
    then show ?thesis by simp
  next
    case (Cons c t)
    with Suc.prems have t: "length t \<le> n" by simp
    have d: "length (drop k t) \<le> n" for k
      using t by simp
    have e: "length (drop k (c # t)) \<le> n" if "k \<noteq> 0" for k
      using t that by (cases k) simp_all
    have w: "rune_width (c # t) \<noteq> 0 \<Longrightarrow> length (drop (rune_width (c # t)) (c # t)) \<le> n"
      by (rule e)
    have IH: "unquote (Suc n) u = unquote n u" if "length u \<le> length t" for u
      using Suc.IH [of u] that t by simp
    show ?thesis
      unfolding Cons
      using w
      by (simp add: Let_def IH split: list.splits option.splits)
  qed
qed

lemma unquote_add:
  "length s \<le> n \<Longrightarrow> unquote (n + k) s = unquote n s"
  by (induction k) (simp_all add: unquote_Suc)

lemma unquote_fuel:
  "length s \<le> n \<Longrightarrow> unquote n s = unquote (length s) s"
  using unquote_add [of s "length s" "n - length s"] by simp

subsection \<open>Every value takes at least one byte\<close>

lemma skip_ws_le: "length (skip_ws s) \<le> length s"
  by (simp add: skip_ws_def length_dropWhile_le)

lemma skip_ws_Cons: "skip_ws s = c # r \<Longrightarrow> length r < length s"
  using skip_ws_le [of s] by simp

lemma scan_digits_consumes: "scan_digits s = Some (ds, r) \<Longrightarrow> length r < length s"
proof -
  assume a: "scan_digits s = Some (ds, r)"
  then have "takeWhile is_digit s \<noteq> []" and r: "r = dropWhile is_digit s"
    by (auto simp add: scan_digits_def split: if_splits)
  then have "0 < length (takeWhile is_digit s)" by simp
  moreover have "length (takeWhile is_digit s) + length (dropWhile is_digit s) = length s"
    by (metis length_append takeWhile_dropWhile_id)
  ultimately show ?thesis unfolding r by linarith
qed

lemma scan_int_consumes: "scan_int s = Some (ds, r) \<Longrightarrow> length r < length s"
  by (auto simp add: scan_int_def split: list.splits if_splits dest: scan_digits_consumes)

lemma scan_frac_consumes: "scan_frac s = Some (ds, r) \<Longrightarrow> length r \<le> length s"
  by (auto simp add: scan_frac_def split: list.splits if_splits dest!: scan_digits_consumes)

lemma scan_exp_consumes: "scan_exp s = Some (ds, r) \<Longrightarrow> length r \<le> length s"
  by (auto simp add: scan_exp_def split: list.splits if_splits dest!: scan_digits_consumes)

lemma scan_number_consumes: "scan_number s = Some (lit, r) \<Longrightarrow> length r < length s"
  by (auto simp add: scan_number_def Let_def split: list.splits if_splits option.splits prod.splits
           dest!: scan_int_consumes scan_frac_consumes scan_exp_consumes)

lemma literal_consumes:
  "literal word v s = Some (x, r) \<Longrightarrow> word \<noteq> [] \<Longrightarrow> length r < length s"
  by (cases s) (auto simp add: literal_def split: if_splits)

lemma parse_consumes:
  "(\<forall>d s v r. parse_value n d s = Some (v, r) \<longrightarrow> length r < length s) \<and>
   (\<forall>d s vs r. parse_elements n d s = Some (vs, r) \<longrightarrow> length r < length s) \<and>
   (\<forall>d s ms r. parse_members n d s = Some (ms, r) \<longrightarrow> length r < length s)"
proof (induction n)
  case 0
  show ?case by simp
next
  case (Suc n)
  then have V: "\<And>d s v r. parse_value n d s = Some (v, r) \<Longrightarrow> length r < length s"
    and E: "\<And>d s vs r. parse_elements n d s = Some (vs, r) \<Longrightarrow> length r < length s"
    and M: "\<And>d s ms r. parse_members n d s = Some (ms, r) \<Longrightarrow> length r < length s"
    by blast+
  have v: "length r < length s" if "parse_value (Suc n) d s = Some (v, r)" for d s v r
  proof (cases "skip_ws s")
    case Nil
    with that show ?thesis by simp
  next
    case (Cons c cs)
    have cs: "length cs < length s" using Cons by (rule skip_ws_Cons)
    have le: "length (c # cs) \<le> length s" using skip_ws_le [of s] Cons by simp
    from that show ?thesis
      unfolding parse_value.simps Cons list.case
      using cs le
      by (auto split: if_splits list.splits
               dest!: M E unquote_consumes scan_number_consumes skip_ws_Cons
                      literal_consumes)
  qed
  have e: "length r < length s" if "parse_elements (Suc n) d s = Some (vs, r)" for d s vs r
    using that
    by (auto split: if_splits list.splits option.splits prod.splits
             dest!: V E skip_ws_Cons)
  have m: "length r < length s" if "parse_members (Suc n) d s = Some (ms, r)" for d s ms r
    using that
    by (auto split: if_splits list.splits option.splits prod.splits
             dest!: V M skip_ws_Cons unquote_consumes)
  from v e m show ?case by blast
qed

subsection \<open>The parser\<close>

lemma parse_value_consumes:
  "parse_value n d s = Some (v, r) \<Longrightarrow> length r < length s"
  using parse_consumes [of n] by blast

lemma parse_fuel_Suc:
  "(\<forall>d s. 2 * length s < n \<longrightarrow> parse_value (Suc n) d s = parse_value n d s) \<and>
   (\<forall>d s. 2 * length s + 1 < n \<longrightarrow> parse_elements (Suc n) d s = parse_elements n d s) \<and>
   (\<forall>d s. 2 * length s + 1 < n \<longrightarrow> parse_members (Suc n) d s = parse_members n d s)"
proof (induction n)
  case 0
  show ?case by simp
next
  case (Suc n)
  then have V: "\<And>d s. 2 * length s < n \<Longrightarrow> parse_value (Suc n) d s = parse_value n d s"
    and E: "\<And>d s. 2 * length s + 1 < n \<Longrightarrow> parse_elements (Suc n) d s = parse_elements n d s"
    and M: "\<And>d s. 2 * length s + 1 < n \<Longrightarrow> parse_members (Suc n) d s = parse_members n d s"
    by blast+
  have v: "parse_value (Suc (Suc n)) d s = parse_value (Suc n) d s"
    if len: "2 * length s < Suc n" for d s
  proof (cases "skip_ws s")
    case Nil
    then show ?thesis
      by (simp only: parse_value.simps(2) [of "Suc n" d s] parse_value.simps(2) [of n d s] list.case)
  next
    case c: (Cons c cs)
    have cs: "length cs < length s" using c by (rule skip_ws_Cons)
    show ?thesis
    proof (cases "skip_ws cs")
      case Nil
      then show ?thesis
        by (simp only: parse_value.simps(2) [of "Suc n" d s] parse_value.simps(2) [of n d s]
              c list.case)
    next
      case (Cons c2 r2)
      have "length (c2 # r2) \<le> length cs" using skip_ws_le [of cs] Cons by simp
      with cs len have small: "2 * length (c2 # r2) + 1 < n" by simp
      have pm: "parse_members (Suc n) (Suc d) (c2 # r2) = parse_members n (Suc d) (c2 # r2)"
        using small by (rule M)
      have pe: "parse_elements (Suc n) (Suc d) (c2 # r2) = parse_elements n (Suc d) (c2 # r2)"
        using small by (rule E)
      show ?thesis
        by (simp only: parse_value.simps(2) [of "Suc n" d s] parse_value.simps(2) [of n d s]
              c Cons list.case pm pe)
    qed
  qed
  have e: "parse_elements (Suc (Suc n)) d s = parse_elements (Suc n) d s"
    if len: "2 * length s + 1 < Suc n" for d s
  proof -
    from len have "2 * length s < n" by simp
    then have pv: "parse_value (Suc n) d s = parse_value n d s" by (rule V)
    show ?thesis
    proof (cases "parse_value n d s")
      case None
      then show ?thesis
        by (simp only: parse_elements.simps(2) [of "Suc n" d s] parse_elements.simps(2) [of n d s]
              pv option.case)
    next
      case (Some p)
      obtain x r where p: "p = (x, r)" by (cases p)
      have r: "length r < length s" using Some p by (auto dest: parse_value_consumes)
      show ?thesis
      proof (cases "skip_ws r")
        case Nil
        then show ?thesis
          by (simp only: parse_elements.simps(2) [of "Suc n" d s]
                parse_elements.simps(2) [of n d s] pv Some p option.case prod.case list.case)
      next
        case (Cons c r')
        have "length r' < length r" using Cons by (rule skip_ws_Cons)
        with r len have "2 * length r' + 1 < n" by simp
        then have pe: "parse_elements (Suc n) d r' = parse_elements n d r'" by (rule E)
        show ?thesis
          by (simp only: parse_elements.simps(2) [of "Suc n" d s]
                parse_elements.simps(2) [of n d s] pv Some p option.case prod.case Cons
                list.case pe)
      qed
    qed
  qed
  have m: "parse_members (Suc (Suc n)) d s = parse_members (Suc n) d s"
    if len: "2 * length s + 1 < Suc n" for d s
  proof -
    have "parse_members (Suc (Suc n)) d s =
      (case skip_ws s of
        [] \<Rightarrow> None
      | c # cs \<Rightarrow>
          if c \<noteq> CHR 0x22 then None
          else (case unquote (length cs) cs of
                  None \<Rightarrow> None
                | Some (k, r) \<Rightarrow>
                    (case skip_ws r of
                       [] \<Rightarrow> None
                     | c1 # r1 \<Rightarrow>
                         if c1 \<noteq> CHR '':'' then None
                         else (case parse_value (Suc n) d r1 of
                                 None \<Rightarrow> None
                               | Some (v, r2) \<Rightarrow>
                                   (case skip_ws r2 of
                                      [] \<Rightarrow> None
                                    | c3 # r3 \<Rightarrow>
                                        if c3 = CHR '','' then
                                          map_option (\<lambda>(ms, r4). ((k, v) # ms, r4))
                                            (parse_members (Suc n) d r3)
                                        else if c3 = CHR ''}'' then Some ([(k, v)], r3)
                                        else None)))))"
      by (rule parse_members.simps(2))
    also have "\<dots> = parse_members (Suc n) d s"
    proof (cases "skip_ws s")
      case Nil
      then show ?thesis by (simp only: parse_members.simps(2) [of n d s] list.case)
    next
      case c: (Cons c cs)
      have cs: "length cs < length s" using c by (rule skip_ws_Cons)
      show ?thesis
      proof (cases "unquote (length cs) cs")
        case None
        then show ?thesis by (simp only: parse_members.simps(2) [of n d s] c list.case option.case)
      next
        case u: (Some p)
        obtain k r where p: "p = (k, r)" by (cases p)
        have r: "length r < length cs" using u p by (auto dest: unquote_consumes)
        show ?thesis
        proof (cases "skip_ws r")
          case Nil
          then show ?thesis
            by (simp only: parse_members.simps(2) [of n d s] c u p list.case option.case prod.case)
        next
          case r1: (Cons c1 r1)
          have lr1: "length r1 < length r" using r1 by (rule skip_ws_Cons)
          with r cs len have "2 * length r1 < n" by simp
          then have pv: "parse_value (Suc n) d r1 = parse_value n d r1" by (rule V)
          show ?thesis
          proof (cases "parse_value n d r1")
            case None
            then show ?thesis
              by (simp only: parse_members.simps(2) [of n d s] c u p r1 pv
                    list.case option.case prod.case)
          next
            case v: (Some q)
            obtain x r2 where q: "q = (x, r2)" by (cases q)
            have r2: "length r2 < length r1" using v q by (auto dest: parse_value_consumes)
            show ?thesis
            proof (cases "skip_ws r2")
              case Nil
              then show ?thesis
                by (simp only: parse_members.simps(2) [of n d s] c u p r1 pv v q
                      list.case option.case prod.case)
            next
              case r3: (Cons c3 r3)
              have "length r3 < length r2" using r3 by (rule skip_ws_Cons)
              with r2 lr1 r cs len have "2 * length r3 + 1 < n" by simp
              then have pm: "parse_members (Suc n) d r3 = parse_members n d r3" by (rule M)
              show ?thesis
                by (simp only: parse_members.simps(2) [of n d s] c u p r1 pv v q r3 pm
                      list.case option.case prod.case)
            qed
          qed
        qed
      qed
    qed
    finally show ?thesis .
  qed
  from v e m show ?case by blast
qed

lemma parse_value_add:
  "2 * length s < n \<Longrightarrow> parse_value (n + k) d s = parse_value n d s"
proof (induction k)
  case 0
  show ?case by simp
next
  case (Suc k)
  have "2 * length s < n + k" using Suc.prems by simp
  then have "parse_value (Suc (n + k)) d s = parse_value (n + k) d s"
    using parse_fuel_Suc [of "n + k"] by blast
  with Suc show ?case by simp
qed

lemma parse_value_fuel:
  assumes "2 * length s + 2 \<le> n"
  shows "parse_value n d s = parse_value (2 * length s + 2) d s"
proof -
  from assms obtain k where n: "n = (2 * length s + 2) + k"
    using le_Suc_ex by blast
  show ?thesis unfolding n by (rule parse_value_add) simp
qed

section \<open>Properties of the dispatcher\<close>

lemma TrimRight_snoc_slash: "TrimRight (u @ ''/'') ''/'' = TrimRight u ''/''"
  by (simp add: TrimRight_def)

lemma TrimRight_no_trailing: "TrimRight u ''/'' \<noteq> v @ ''/''"
proof
  assume h: "TrimRight u ''/'' = v @ ''/''"
  have "dropWhile (\<lambda>c. c \<in> set ''/'') (rev u) = rev (v @ ''/'')"
    using h by (simp add: TrimRight_def rev_swap)
  then have "dropWhile (\<lambda>c. c \<in> set ''/'') (rev u) = CHR ''/'' # rev v"
    by simp
  then have "\<not> (CHR ''/'' \<in> set ''/'')"
    using hd_dropWhile [of "\<lambda>c. c \<in> set ''/''" "rev u"] by auto
  then show False by simp
qed

lemma fold_WithHTTPClient_baseURL:
  "baseURL (fold (\<lambda>opt c. opt c) (map WithHTTPClient hs) c) = baseURL c"
  by (induction hs arbitrary: c) (simp_all add: WithHTTPClient_def)

lemma NewClient_snoc_slash: "NewClient d (u @ ''/'') copts = NewClient d u copts"
  by (simp add: NewClient_def TrimRight_snoc_slash)

lemma package_authenticator_frame:
  assumes "package_authenticator a" and "Authenticate a req = Inr req'"
  shows "URL req' = URL req \<and> Method req' = Method req \<and> Body req' = Body req"
  using assms
  by (cases a) (auto simp: SetBasicAuth_def AddCookie_def Let_def split: option.splits if_splits)

lemma doRequest_sent_cases:
  "snd (doRequest c m p b opts w) = w
   \<or> (\<exists>req. snd (doRequest c m p b opts w) = w\<lparr>sent := sent w @ [req]\<rparr>
        \<and> (opts = [] \<longrightarrow> req = \<lparr>Method = (if m = [] then ''GET'' else m), URL = baseURL c @ p,
               Header = Header_Set [] ''Content-Type'' ''application/json'', Body = b\<rparr>)
        \<and> (opts \<noteq> [] \<and> package_authenticator (last opts) \<longrightarrow>
               URL req = baseURL c @ p \<and> Method req = (if m = [] then ''GET'' else m)
               \<and> Body req = b))"
proof (cases "NewRequest_err (client c) m (baseURL c @ p)")
  case (Some e)
  then show ?thesis by (simp add: doRequest_def NewRequestWithContext_def)
next
  case None
  define req0 where "req0 = \<lparr>Method = (if m = [] then ''GET'' else m), URL = baseURL c @ p,
    Header = [], Body = b\<rparr>"
  have nr: "NewRequestWithContext (client c) m (baseURL c @ p) b = Inr req0"
    using None by (simp add: NewRequestWithContext_def req0_def)
  show ?thesis
  proof (cases "opts = []")
    case True
    then show ?thesis
      using nr by (simp add: doRequest_def client_Do_def req0_def)
  next
    case False
    show ?thesis
    proof (cases "Authenticate (last opts) req0")
      case (Inl e)
      then show ?thesis using nr False by (simp add: doRequest_def)
    next
      case (Inr req')
      have "package_authenticator (last opts) \<Longrightarrow>
              URL req' = baseURL c @ p \<and> Method req' = (if m = [] then ''GET'' else m)
              \<and> Body req' = b"
        using package_authenticator_frame [OF _ Inr] by (simp add: req0_def)
      then show ?thesis
        using nr False Inr by (auto simp: doRequest_def client_Do_def)
    qed
  qed
qed

text \<open>
  C10. \<^verbatim>\<open>NewClient\<close> keeps the base address with every trailing slash removed (whatever
  transports its options install), so a client built from \<open>u\<close> and one built from \<open>u\<close>
  with a slash appended are the same client and \<^verbatim>\<open>doRequest\<close> does the same with both;
  and a request that \<^verbatim>\<open>doRequest\<close> hands to the transport, with no selector or with one of
  the package's authenticators last, has the URL \<open>baseURL @ path\<close>.
\<close>

theorem NewClient_trailing_slash_same_requests:
  "baseURL (NewClient d u (map WithHTTPClient hs)) = TrimRight u ''/''
   \<and> TrimRight u ''/'' \<noteq> v @ ''/''
   \<and> NewClient d (u @ ''/'') copts = NewClient d u copts
   \<and> doRequest (NewClient d (u @ ''/'') copts) m p b opts w
       = doRequest (NewClient d u copts) m p b opts w
   \<and> (opts = [] \<or> package_authenticator (last opts) \<longrightarrow>
        list_all (\<lambda>req. URL req = baseURL c @ p)
          (new_requests w (snd (doRequest c m p b opts w))))"
proof -
  have 1: "baseURL (NewClient d u (map WithHTTPClient hs)) = TrimRight u ''/''"
    by (simp add: NewClient_def fold_WithHTTPClient_baseURL)
  have 5: "opts = [] \<or> package_authenticator (last opts) \<Longrightarrow>
        list_all (\<lambda>req. URL req = baseURL c @ p)
          (new_requests w (snd (doRequest c m p b opts w)))"
    using doRequest_sent_cases [of c m p b opts w]
    by (cases "opts = []") (auto simp: new_requests_def)
  show ?thesis
    using 1 5 by (simp add: TrimRight_no_trailing NewClient_snoc_slash)
qed

theorem NewClient_trailing_slash_same_requests_witness:
  "(([] :: RequestOption list) = [] \<or> package_authenticator (last []))
   \<and> list_all (\<lambda>req. URL req = ''http://localhost:5984/db'')
        (new_requests w0 (snd (doRequest (NewClient (always (response 200 ''{}''))
           ''http://localhost:5984/'' []) ''GET'' ''/db'' None [] w0)))
   \<and> map URL (new_requests w0 (snd (doRequest (NewClient (always (response 200 ''{}''))
           ''http://localhost:5984/'' []) ''GET'' ''/db'' None [] w0)))
       = [''http://localhost:5984/db'']"
proof -
  let ?c = "NewClient (always (response 200 ''{}'')) ''http://localhost:5984/'' []"
  have b: "baseURL ?c = ''http://localhost:5984''"
    by code_simp
  have n: "map URL (new_requests w0 (snd (doRequest ?c ''GET'' ''/db'' None [] w0)))
       = [''http://localhost:5984/db'']"
    by code_simp
  show ?thesis
    using NewClient_trailing_slash_same_requests
      [of "always (response 200 ''{}'')" "''http://localhost:5984/''" "[]" "[]" "[]"
          "''GET''" "''/db''" None "[]" w0 ?c] b n
    by simp
qed

text \<open>
  C2. With no selector the request that reaches the transport carries the content type
  and no other header (no authenticator has run); with one or more selectors
  \<^verbatim>\<open>doRequest\<close> does what it does with the last one alone, which is to apply that
  selector's authenticator to the fresh request and then set the content type.
\<close>

theorem doRequest_last_selector_wins:
  "doRequest c m p b (opts @ [opt]) w = doRequest c m p b [opt] w
   \<and> doRequest c m p b [] w =
       (case NewRequest_err (client c) m (baseURL c @ p) of
          Some err \<Rightarrow> (Inl err, w)
        | None \<Rightarrow> client_Do (client c)
            \<lparr>Method = (if m = [] then ''GET'' else m), URL = baseURL c @ p,
             Header = [(''Content-Type'', [''application/json''])], Body = b\<rparr> w)
   \<and> doRequest c m p b [opt] w =
       (case NewRequestWithContext (client c) m (baseURL c @ p) b of
          Inl err \<Rightarrow> (Inl err, w)
        | Inr req \<Rightarrow>
            (case Authenticate opt req of
               Inl err \<Rightarrow> (Inl (Wrapf ''authentication failed'' err), w)
             | Inr req' \<Rightarrow> client_Do (client c)
                 (req'\<lparr>Header := Header_Set (Header req') ''Content-Type'' ''application/json''\<rparr>)
                 w))"
proof -
  have ct: "CanonicalMIMEHeaderKey ''Content-Type'' = ''Content-Type''"
    by code_simp
  have 1: "doRequest c m p b (opts @ [opt]) w = doRequest c m p b [opt] w"
    by (simp add: doRequest_def split: sum.splits)
  have 2: "doRequest c m p b [] w =
       (case NewRequest_err (client c) m (baseURL c @ p) of
          Some err \<Rightarrow> (Inl err, w)
        | None \<Rightarrow> client_Do (client c)
            \<lparr>Method = (if m = [] then ''GET'' else m), URL = baseURL c @ p,
             Header = [(''Content-Type'', [''application/json''])], Body = b\<rparr> w)"
    by (simp add: doRequest_def NewRequestWithContext_def Header_Set_def ct
        split: option.splits)
  have 3: "doRequest c m p b [opt] w =
       (case NewRequestWithContext (client c) m (baseURL c @ p) b of
          Inl err \<Rightarrow> (Inl err, w)
        | Inr req \<Rightarrow>
            (case Authenticate opt req of
               Inl err \<Rightarrow> (Inl (Wrapf ''authentication failed'' err), w)
             | Inr req' \<Rightarrow> client_Do (client c)
                 (req'\<lparr>Header := Header_Set (Header req') ''Content-Type'' ''application/json''\<rparr>)
                 w))"
    by (simp add: doRequest_def split: sum.splits)
  show ?thesis using 1 2 3 by blast
qed

lemma proxy_header_keys:
  "CanonicalMIMEHeaderKey ''X-Auth-CouchDB-UserName'' = ''X-Auth-Couchdb-Username''"
  "CanonicalMIMEHeaderKey ''X-Auth-CouchDB-Roles'' = ''X-Auth-Couchdb-Roles''"
  "CanonicalMIMEHeaderKey ''X-Auth-CouchDB-Token'' = ''X-Auth-Couchdb-Token''"
  by code_simp+

text \<open>
  C4, as the code has it. \<^verbatim>\<open>ProxyAuthenticator.Authenticate\<close> never fails and changes
  nothing of the request but its header, where it sets the user name header always, the
  roles header (the roles joined by commas) only when there is a role, and the token
  header only when the token is not empty; every other header keeps its values.
\<close>

theorem ProxyAuthenticator_headers:
  "(case Authenticate (ProxyAuthenticator roles username token) req of
      Inl err \<Rightarrow> False
    | Inr req' \<Rightarrow>
        Method req' = Method req \<and> URL req' = URL req \<and> Body req' = Body req
        \<and> (\<forall>k. map_of (Header req') k =
             (if k = ''X-Auth-Couchdb-Token'' \<and> token \<noteq> [] then Some [token]
              else if k = ''X-Auth-Couchdb-Roles'' \<and> roles \<noteq> [] then Some [Join roles '','']
              else if k = ''X-Auth-Couchdb-Username'' then Some [username]
              else map_of (Header req) k)))"
  by (cases "roles = []"; cases "token = []")
    (simp_all add: Let_def Header_Set_def proxy_header_keys update_conv')

text \<open>With no role and no token, one header is set and not three.\<close>

theorem ProxyAuthenticator_three_headers_counterexample:
  "Authenticate (ProxyAuthenticator [] ''proxyuser'' [])
       \<lparr>Method = ''GET'', URL = ''http://localhost:5984/db'', Header = [], Body = None\<rparr>
     = Inr \<lparr>Method = ''GET'', URL = ''http://localhost:5984/db'',
            Header = [(''X-Auth-Couchdb-Username'', [''proxyuser''])], Body = None\<rparr>"
  by (simp add: Header_Set_def proxy_header_keys)

section \<open>Properties of the operations\<close>

lemma json_Marshal_AString: "json_Marshal (AString s) = Inr (appendString s)"
  by (simp add: json_Marshal_def)

lemma new_requests_closed [simp]: "new_requests w (w1\<lparr>closed := n\<rparr>) = new_requests w w1"
  by (simp add: new_requests_def)

lemma doRequest_new_requests:
  assumes "opts = [] \<or> package_authenticator (last opts)"
  shows "list_all (\<lambda>req. Method req = (if m = [] then ''GET'' else m) \<and> URL req = baseURL c @ p
            \<and> Body req = b)
          (new_requests w (snd (doRequest c m p b opts w)))"
  using doRequest_sent_cases [of c m p b opts w] assms
  by (cases "opts = []") (auto simp: new_requests_def)

lemma SetConfigurationValue_world:
  "new_requests w (snd (SetConfigurationValue c nodeName sec key val opts w))
     = new_requests w (snd (doRequest c ''PUT''
         (''/_node/'' @ PathEscape nodeName @ ''/_config/'' @ PathEscape sec @ ''/'' @ PathEscape key)
         (Some (appendString val)) opts w))"
  by (simp add: SetConfigurationValue_def json_Marshal_AString Let_def defer_Close_def
      split: prod.splits sum.splits)

text \<open>
  C7. \<^verbatim>\<open>SetConfigurationValue\<close> marshals the value as a JSON string (for \<open>5\<close>: quote, 5,
  quote); every request it hands to the transport is a PUT of that text to the path of
  the key; and when the response has status 200 and its body can be read, the result is
  the string that the body decodes to (an error when the body is not a JSON string).
\<close>

theorem SetConfigurationValue_put_json_string:
  "json_Marshal (AString val) = Inr (appendString val)
   \<and> appendString ''5'' = quoted ''5''
   \<and> (opts = [] \<or> package_authenticator (last opts) \<longrightarrow>
        list_all (\<lambda>req. Method req = ''PUT'' \<and> Body req = Some (appendString val)
                    \<and> URL req = baseURL c @ ''/_node/'' @ PathEscape nodeName @ ''/_config/''
                                @ PathEscape sec @ ''/'' @ PathEscape key)
          (new_requests w (snd (SetConfigurationValue c nodeName sec key val opts w))))
   \<and> (doRequest c ''PUT''
         (''/_node/'' @ PathEscape nodeName @ ''/_config/'' @ PathEscape sec @ ''/'' @ PathEscape key)
         (Some (appendString val)) opts w = (Inr resp, w1)
       \<and> StatusCode resp = StatusOK \<and> ReadAll resp = Inr body \<longrightarrow>
        SetConfigurationValue c nodeName sec key val opts w =
          ((case Unmarshal_string body of
              None \<Rightarrow> Inl (Wrapf ''failed to unmarshal old value'' JSONError)
            | Some oldValue \<Rightarrow> Inr oldValue),
           w1\<lparr>closed := Suc (closed w1)\<rparr>))"
proof -
  have 2: "appendString ''5'' = quoted ''5''"
    by code_simp
  have 3: "opts = [] \<or> package_authenticator (last opts) \<Longrightarrow>
        list_all (\<lambda>req. Method req = ''PUT'' \<and> Body req = Some (appendString val)
                    \<and> URL req = baseURL c @ ''/_node/'' @ PathEscape nodeName @ ''/_config/''
                                @ PathEscape sec @ ''/'' @ PathEscape key)
          (new_requests w (snd (SetConfigurationValue c nodeName sec key val opts w)))"
    using doRequest_new_requests [of opts "''PUT''" c
        "''/_node/'' @ PathEscape nodeName @ ''/_config/'' @ PathEscape sec @ ''/'' @ PathEscape key"
        "Some (appendString val)" w]
    by (simp add: SetConfigurationValue_world list_all_iff)
  have 4: "doRequest c ''PUT''
         (''/_node/'' @ PathEscape nodeName @ ''/_config/'' @ PathEscape sec @ ''/'' @ PathEscape key)
         (Some (appendString val)) opts w = (Inr resp, w1)
       \<Longrightarrow> StatusCode resp = StatusOK \<Longrightarrow> ReadAll resp = Inr body \<Longrightarrow>
        SetConfigurationValue c nodeName sec key val opts w =
          ((case Unmarshal_string body of
              None \<Rightarrow> Inl (Wrapf ''failed to unmarshal old value'' JSONError)
            | Some oldValue \<Rightarrow> Inr oldValue),
           w1\<lparr>closed := Suc (closed w1)\<rparr>)"
    by (simp add: SetConfigurationValue_def json_Marshal_AString defer_Close_def)
  show ?thesis
    using 2 3 4 by (simp add: json_Marshal_AString)
qed

theorem SetConfigurationValue_put_json_string_witness:
  "(([] :: RequestOption list) = [] \<or> package_authenticator (last []))
   \<and> doRequest (localhost (response 200 (dq ''`4`''))) ''PUT''
       (''/_node/'' @ PathEscape ''_local'' @ ''/_config/'' @ PathEscape ''x'' @ ''/'' @ PathEscape ''y'')
       (Some (appendString ''5'')) [] w0
     = (Inr (response 200 (dq ''`4`'')),
        \<lparr>sent = [\<lparr>Method = ''PUT'', URL = ''http://localhost:5984/_node/_local/_config/x/y'',
                  Header = [(''Content-Type'', [''application/json''])],
                  Body = Some (quoted ''5'')\<rparr>], closed = 0\<rparr>)
   \<and> StatusCode (response 200 (dq ''`4`'')) = StatusOK
   \<and> ReadAll (response 200 (dq ''`4`'')) = Inr (dq ''`4`'')
   \<and> SetConfigurationValue (localhost (response 200 (dq ''`4`''))) ''_local'' ''x'' ''y'' ''5'' [] w0
     = (Inr ''4'',
        \<lparr>sent = [\<lparr>Method = ''PUT'', URL = ''http://localhost:5984/_node/_local/_config/x/y'',
                  Header = [(''Content-Type'', [''application/json''])],
                  Body = Some (quoted ''5'')\<rparr>], closed = 1\<rparr>)"
proof -
  let ?c = "localhost (response 200 (dq ''`4`''))"
  let ?w1 = "\<lparr>sent = [\<lparr>Method = ''PUT'', URL = ''http://localhost:5984/_node/_local/_config/x/y'',
                  Header = [(''Content-Type'', [''application/json''])],
                  Body = Some (quoted ''5'')\<rparr>], closed = 0\<rparr>"
  have h1: "doRequest ?c ''PUT''
       (''/_node/'' @ PathEscape ''_local'' @ ''/_config/'' @ PathEscape ''x'' @ ''/'' @ PathEscape ''y'')
       (Some (appendString ''5'')) [] w0 = (Inr (response 200 (dq ''`4`'')), ?w1)"
    by code_simp
  have h2: "StatusCode (response 200 (dq ''`4`'')) = StatusOK"
    by (simp add: response_def)
  have h3: "ReadAll (response 200 (dq ''`4`'')) = Inr (dq ''`4`'')"
    by (simp add: response_def ReadAll_def)
  have u: "Unmarshal_string (dq ''`4`'') = Some ''4''"
    by code_simp
  show ?thesis
    using SetConfigurationValue_put_json_string
      [of "''5''" "[]" ?c "''_local''" "''x''" "''y''" w0 "response 200 (dq ''`4`'')" ?w1 "dq ''`4`''"]
      h1 h2 h3 u
    by simp
qed

text \<open>
  C6, as the code has it. When the response to the GET of \<^verbatim>\<open>GetDatabase\<close>, \<^verbatim>\<open>GetDocument\<close> or \<^verbatim>\<open>GetUser\<close> has
  status 404 and its body can be read, the result is the operation's own not-found
  error, whatever the body holds: the body is not decoded as an error envelope, and the
  error is none that the envelope path builds.
\<close>

theorem fetch_404_is_not_found:
  "(doRequest c ''GET'' (''/'' @ PathEscape dbName) None opts w = (Inr resp, w1)
      \<and> StatusCode resp = StatusNotFound \<and> ReadAll resp = Inr body \<longrightarrow>
      GetDatabase c dbName opts w
        = (Inl (Errorf (''database not found: '' @ dbName)), w1\<lparr>closed := Suc (closed w1)\<rparr>))
   \<and> (doRequest c ''GET'' (GetDocument_path dbName docID options) None opts w = (Inr resp, w1)
      \<and> StatusCode resp = StatusNotFound \<and> ReadAll resp = Inr body \<longrightarrow>
      GetDocument c dbName docID options opts w
        = (Inl (Errorf (''document not found: '' @ dbName @ ''/'' @ docID)),
           w1\<lparr>closed := Suc (closed w1)\<rparr>))
   \<and> (doRequest c ''GET'' (''/_users/'' @ PathEscape (''org.couchdb.user:'' @ name)) None opts w
        = (Inr resp, w1)
      \<and> StatusCode resp = StatusNotFound \<and> ReadAll resp = Inr body \<longrightarrow>
      GetUser c name opts w
        = (Inl (Errorf (''user not found: '' @ name)), w1\<lparr>closed := Suc (closed w1)\<rparr>))
   \<and> Errorf (''database not found: '' @ dbName) \<noteq> api_error ''failed to get database'' code body'
   \<and> Errorf (''document not found: '' @ dbName @ ''/'' @ docID)
       \<noteq> api_error ''failed to get document'' code body'
   \<and> Errorf (''user not found: '' @ name) \<noteq> api_error ''failed to get user'' code body'"
proof -
  have 1: "doRequest c ''GET'' (''/'' @ PathEscape dbName) None opts w = (Inr resp, w1)
      \<Longrightarrow> StatusCode resp = StatusNotFound \<Longrightarrow> ReadAll resp = Inr body \<Longrightarrow>
      GetDatabase c dbName opts w
        = (Inl (Errorf (''database not found: '' @ dbName)), w1\<lparr>closed := Suc (closed w1)\<rparr>)"
    by (simp add: GetDatabase_def defer_Close_def)
  have 2: "doRequest c ''GET'' (GetDocument_path dbName docID options) None opts w = (Inr resp, w1)
      \<Longrightarrow> StatusCode resp = StatusNotFound \<Longrightarrow> ReadAll resp = Inr body \<Longrightarrow>
      GetDocument c dbName docID options opts w
        = (Inl (Errorf (''document not found: '' @ dbName @ ''/'' @ docID)),
           w1\<lparr>closed := Suc (closed w1)\<rparr>)"
    by (simp add: GetDocument_def defer_Close_def)
  have 3: "doRequest c ''GET'' (''/_users/'' @ PathEscape (''org.couchdb.user:'' @ name)) None opts w
        = (Inr resp, w1)
      \<Longrightarrow> StatusCode resp = StatusNotFound \<Longrightarrow> ReadAll resp = Inr body \<Longrightarrow>
      GetUser c name opts w
        = (Inl (Errorf (''user not found: '' @ name)), w1\<lparr>closed := Suc (closed w1)\<rparr>)"
    by (simp add: GetUser_def defer_Close_def)
  have 4: "Errorf (''database not found: '' @ dbName) \<noteq> api_error ''failed to get database'' code body'"
    by (simp add: api_error_def split: option.splits)
  have 5: "Errorf (''document not found: '' @ dbName @ ''/'' @ docID)
       \<noteq> api_error ''failed to get document'' code body'"
    by (simp add: api_error_def split: option.splits)
  have 6: "Errorf (''user not found: '' @ name) \<noteq> api_error ''failed to get user'' code body'"
    by (simp add: api_error_def split: option.splits)
  show ?thesis
    using 1 2 3 4 5 6 by blast
qed

theorem fetch_404_is_not_found_witness:
  "doRequest (localhost (response 404 not_found_body)) ''GET'' (''/'' @ PathEscape ''db'') None [] w0
     = (Inr (response 404 not_found_body), after_request ''GET'' ''http://localhost:5984/db'' None 0)
   \<and> StatusCode (response 404 not_found_body) = StatusNotFound
   \<and> ReadAll (response 404 not_found_body) = Inr not_found_body
   \<and> GetDatabase (localhost (response 404 not_found_body)) ''db'' [] w0
     = (Inl (Errorf ''database not found: db''),
        after_request ''GET'' ''http://localhost:5984/db'' None 1)
   \<and> doRequest (localhost (response 404 not_found_body)) ''GET''
        (GetDocument_path ''db'' ''doc1'' None) None [] w0
     = (Inr (response 404 not_found_body),
        after_request ''GET'' ''http://localhost:5984/db/doc1'' None 0)
   \<and> GetDocument (localhost (response 404 not_found_body)) ''db'' ''doc1'' None [] w0
     = (Inl (Errorf ''document not found: db/doc1''),
        after_request ''GET'' ''http://localhost:5984/db/doc1'' None 1)
   \<and> doRequest (localhost (response 404 not_found_body)) ''GET''
        (''/_users/'' @ PathEscape (''org.couchdb.user:'' @ ''john'')) None [] w0
     = (Inr (response 404 not_found_body),
        after_request ''GET'' ''http://localhost:5984/_users/org.couchdb.user:john'' None 0)
   \<and> GetUser (localhost (response 404 not_found_body)) ''john'' [] w0
     = (Inl (Errorf ''user not found: john''),
        after_request ''GET'' ''http://localhost:5984/_users/org.couchdb.user:john'' None 1)"
proof -
  let ?r = "response 404 not_found_body"
  let ?c = "localhost ?r"
  let ?wa = "after_request ''GET'' ''http://localhost:5984/db'' None 0"
  let ?wb = "after_request ''GET'' ''http://localhost:5984/db/doc1'' None 0"
  let ?wc = "after_request ''GET'' ''http://localhost:5984/_users/org.couchdb.user:john'' None 0"
  have s: "StatusCode ?r = StatusNotFound" "ReadAll ?r = Inr not_found_body"
    by (simp_all add: response_def ReadAll_def)
  have d1: "doRequest ?c ''GET'' (''/'' @ PathEscape ''db'') None [] w0 = (Inr ?r, ?wa)"
    by code_simp
  have d2: "doRequest ?c ''GET'' (GetDocument_path ''db'' ''doc1'' None) None [] w0 = (Inr ?r, ?wb)"
    by code_simp
  have d3: "doRequest ?c ''GET'' (''/_users/'' @ PathEscape (''org.couchdb.user:'' @ ''john''))
              None [] w0 = (Inr ?r, ?wc)"
    by code_simp
  have g1: "GetDatabase ?c ''db'' [] w0
     = (Inl (Errorf ''database not found: db''), after_request ''GET'' ''http://localhost:5984/db'' None 1)"
    using fetch_404_is_not_found [of ?c "''db''" "[]" w0 ?r ?wa not_found_body] d1 s
    by (simp add: after_request_def)
  have g2: "GetDocument ?c ''db'' ''doc1'' None [] w0
     = (Inl (Errorf ''document not found: db/doc1''),
        after_request ''GET'' ''http://localhost:5984/db/doc1'' None 1)"
    using fetch_404_is_not_found [of ?c "''db''" "[]" w0 ?r ?wb not_found_body "''doc1''" None] d2 s
    by (simp add: after_request_def)
  have g3: "GetUser ?c ''john'' [] w0
     = (Inl (Errorf ''user not found: john''),
        after_request ''GET'' ''http://localhost:5984/_users/org.couchdb.user:john'' None 1)"
    using fetch_404_is_not_found
      [of ?c "''db''" "[]" w0 ?r ?wc not_found_body "''doc1''" None "''john''"] d3 s
    by (simp add: after_request_def)
  show ?thesis
    using s d1 d2 d3 g1 g2 g3 by simp
qed

text \<open>A 404 whose body breaks off while it is read: the three fetches return the error
  of the read, not the not-found error.\<close>

theorem fetch_404_is_not_found_counterexample:
  "StatusCode (unreadable 404) = StatusNotFound
   \<and> GetDatabase (localhost (unreadable 404)) ''db'' [] w0
     = (Inl (Wrapf ''failed to read response'' (LibError ''unexpected EOF'')),
        after_request ''GET'' ''http://localhost:5984/db'' None 1)
   \<and> GetDocument (localhost (unreadable 404)) ''db'' ''doc1'' None [] w0
     = (Inl (Wrapf ''failed to read response'' (LibError ''unexpected EOF'')),
        after_request ''GET'' ''http://localhost:5984/db/doc1'' None 1)
   \<and> GetUser (localhost (unreadable 404)) ''john'' [] w0
     = (Inl (Wrapf ''failed to read response'' (LibError ''unexpected EOF'')),
        after_request ''GET'' ''http://localhost:5984/_users/org.couchdb.user:john'' None 1)
   \<and> Wrapf ''failed to read response'' (LibError ''unexpected EOF'')
       \<noteq> Errorf ''database not found: db''"
  by code_simp

lemma UpdatePassword_UpdateUser:
  assumes "GetUser c name opts w = (Inr currentUser, wa)"
  shows "UpdatePassword c name revision newPassword opts w
        = UpdateUser c name revision (Some newPassword) (user_Roles currentUser) opts wa"
  using assms by (simp add: UpdatePassword_def)

lemma after_request_closed:
  "(after_request m url body 0)\<lparr>closed := Suc (closed (after_request m url body 0))\<rparr>
     = after_request m url body 1"
  by (simp add: after_request_def)

lemma GetUser_ok:
  assumes "doRequest c ''GET'' (''/_users/'' @ PathEscape (''org.couchdb.user:'' @ name)) None opts w
             = (Inr resp, w1)"
    and "ReadAll resp = Inr body" and "StatusCode resp = StatusOK"
    and "Unmarshal_User body = Some user"
  shows "GetUser c name opts w = (Inr user, w1\<lparr>closed := Suc (closed w1)\<rparr>)"
  using assms by (simp add: GetUser_def defer_Close_def)

lemma Unmarshal_User_user_body: "Unmarshal_User user_body = Some fetched_user"
  by code_simp

lemma Unmarshal_ErrorResponse_conflict_body:
  "Unmarshal_ErrorResponse conflict_body
     = Some \<lparr>er_Error = ''conflict'', er_Reason = ''Document update conflict.''\<rparr>"
  by code_simp

text \<open>
  C5, as the code has it. The create and update operations are \<^verbatim>\<open>CreateDatabase\<close>,
  \<^verbatim>\<open>CreateDocument\<close>, \<^verbatim>\<open>UpdateDocument\<close>, \<^verbatim>\<open>BulkInsert\<close>, \<^verbatim>\<open>BulkUpdate\<close>,
  \<^verbatim>\<open>SetConfigurationValue\<close> with its wrappers \<^verbatim>\<open>CreateAdmin\<close> and \<^verbatim>\<open>UpdateAdminPassword\<close>,
  \<^verbatim>\<open>CreateUser\<close>, \<^verbatim>\<open>UpdateUser\<close>, \<^verbatim>\<open>UpdatePassword\<close>, \<^verbatim>\<open>UpdateRoles\<close> and \<^verbatim>\<open>SetSecurity\<close>.
  When the response to the write request of one of them can be read and its status is
  outside the operation's success set, the result is the error of \<open>api_error\<close>: if the
  body decodes as an error envelope, a structured error with the envelope's two fields,
  each empty when the body does not give it; if the body does not decode, the status and
  the body as they are. \<^verbatim>\<open>UpdatePassword\<close> and \<^verbatim>\<open>UpdateRoles\<close> send their write request
  only when \<^verbatim>\<open>GetUser\<close> has given the user, and return its error wrapped otherwise.
\<close>

theorem create_update_unexpected_status:
  "(doRequest c ''PUT'' (CreateDatabase_path dbName dbopts) None opts w = (Inr resp, wa)
      \<and> ReadAll resp = Inr body
      \<and> StatusCode resp \<noteq> StatusCreated \<and> StatusCode resp \<noteq> StatusOK \<longrightarrow>
      CreateDatabase c dbName dbopts opts w
        = (Inl (api_error ''failed to create database'' (StatusCode resp) body),
           wa\<lparr>closed := Suc (closed wa)\<rparr>))
   \<and> (json_Marshal doc = Inr data
      \<and> doRequest c ''POST'' (CreateDocument_path dbName putopts) (Some data) opts w = (Inr resp, wa)
      \<and> ReadAll resp = Inr body
      \<and> StatusCode resp \<noteq> StatusCreated \<and> StatusCode resp \<noteq> StatusAccepted \<longrightarrow>
      CreateDocument c dbName doc putopts opts w
        = (Inl (api_error ''failed to create document'' (StatusCode resp) body),
           wa\<lparr>closed := Suc (closed wa)\<rparr>))
   \<and> (json_Marshal doc = Inr data
      \<and> doRequest c ''PUT'' (UpdateDocument_path dbName docID putopts) (Some data) opts w
          = (Inr resp, wa)
      \<and> ReadAll resp = Inr body
      \<and> StatusCode resp \<noteq> StatusCreated \<and> StatusCode resp \<noteq> StatusAccepted \<longrightarrow>
      UpdateDocument c dbName docID doc putopts opts w
        = (Inl (api_error ''failed to update document'' (StatusCode resp) body),
           wa\<lparr>closed := Suc (closed wa)\<rparr>))
   \<and> (json_Marshal (AMap [(''docs'', docs_any docs)]) = Inr data
      \<and> doRequest c ''POST'' (''/'' @ PathEscape dbName @ ''/_bulk_docs'') (Some data) opts w
          = (Inr resp, wa)
      \<and> ReadAll resp = Inr body
      \<and> StatusCode resp \<noteq> StatusCreated \<and> StatusCode resp \<noteq> StatusOK \<longrightarrow>
      BulkInsert c dbName docs opts w
        = (Inl (api_error ''failed to bulk insert'' (StatusCode resp) body),
           wa\<lparr>closed := Suc (closed wa)\<rparr>)
      \<and> BulkUpdate c dbName docs opts w
        = (Inl (api_error ''failed to bulk update'' (StatusCode resp) body),
           wa\<lparr>closed := Suc (closed wa)\<rparr>))
   \<and> (doRequest c ''PUT''
        (''/_node/'' @ PathEscape nodeName @ ''/_config/'' @ PathEscape sec @ ''/'' @ PathEscape key)
        (Some (appendString val)) opts w = (Inr resp, wa)
      \<and> ReadAll resp = Inr body \<and> StatusCode resp \<noteq> StatusOK \<longrightarrow>
      SetConfigurationValue c nodeName sec key val opts w
        = (Inl (api_error ''failed to set configuration value'' (StatusCode resp) body),
           wa\<lparr>closed := Suc (closed wa)\<rparr>))
   \<and> (doRequest c ''PUT''
        (''/_node/'' @ PathEscape nodeName @ ''/_config/'' @ PathEscape ''admins'' @ ''/''
           @ PathEscape username)
        (Some (appendString password)) opts w = (Inr resp, wa)
      \<and> ReadAll resp = Inr body \<and> StatusCode resp \<noteq> StatusOK \<longrightarrow>
      CreateAdmin c nodeName username password opts w
        = (Some (api_error ''failed to set configuration value'' (StatusCode resp) body),
           wa\<lparr>closed := Suc (closed wa)\<rparr>)
      \<and> UpdateAdminPassword c nodeName username password opts w
        = (Some (api_error ''failed to set configuration value'' (StatusCode resp) body),
           wa\<lparr>closed := Suc (closed wa)\<rparr>))
   \<and> (Marshal_User
         \<lparr>user_ID = ''org.couchdb.user:'' @ name, user_Rev = [], user_Name = name,
          user_Type = ''user'',
          user_Roles = Some (case roles of None \<Rightarrow> [] | Some rs \<Rightarrow> rs),
          user_Password = password,
          user_Salt = [], user_DerivedKey = [], user_Iterations = 0,
          user_PasswordScheme = []\<rparr> = Inr data
      \<and> doRequest c ''POST'' ''/_users'' (Some data) opts w = (Inr resp, wa)
      \<and> ReadAll resp = Inr body
      \<and> StatusCode resp \<noteq> StatusCreated \<and> StatusCode resp \<noteq> StatusOK \<longrightarrow>
      CreateUser c name password roles opts w
        = (Inl (api_error ''failed to create user'' (StatusCode resp) body),
           wa\<lparr>closed := Suc (closed wa)\<rparr>))
   \<and> (Marshal_User
         \<lparr>user_ID = ''org.couchdb.user:'' @ name, user_Rev = revision, user_Name = name,
          user_Type = ''user'',
          user_Roles = Some (case roles of None \<Rightarrow> [] | Some rs \<Rightarrow> rs),
          user_Password = (case passwordp of None \<Rightarrow> [] | Some p \<Rightarrow> p),
          user_Salt = [], user_DerivedKey = [], user_Iterations = 0,
          user_PasswordScheme = []\<rparr> = Inr data
      \<and> doRequest c ''PUT'' (''/_users/'' @ PathEscape (''org.couchdb.user:'' @ name))
           (Some data) opts w = (Inr resp, wa)
      \<and> ReadAll resp = Inr body
      \<and> StatusCode resp \<noteq> StatusCreated \<and> StatusCode resp \<noteq> StatusOK \<longrightarrow>
      UpdateUser c name revision passwordp roles opts w
        = (Inl (api_error ''failed to update user'' (StatusCode resp) body),
           wa\<lparr>closed := Suc (closed wa)\<rparr>))
   \<and> (GetUser c name opts w = (Inl err, wg) \<longrightarrow>
      UpdatePassword c name revision newPassword opts w = (Inl (Wrapf ''failed to get user'' err), wg)
      \<and> UpdateRoles c name revision roles opts w = (Inl (Wrapf ''failed to get user'' err), wg))
   \<and> (GetUser c name opts w = (Inr currentUser, wg)
      \<and> Marshal_User
         \<lparr>user_ID = ''org.couchdb.user:'' @ name, user_Rev = revision, user_Name = name,
          user_Type = ''user'',
          user_Roles = Some (case user_Roles currentUser of None \<Rightarrow> [] | Some rs \<Rightarrow> rs),
          user_Password = newPassword,
          user_Salt = [], user_DerivedKey = [], user_Iterations = 0,
          user_PasswordScheme = []\<rparr> = Inr data
      \<and> doRequest c ''PUT'' (''/_users/'' @ PathEscape (''org.couchdb.user:'' @ name))
           (Some data) opts wg = (Inr resp, wa)
      \<and> ReadAll resp = Inr body
      \<and> StatusCode resp \<noteq> StatusCreated \<and> StatusCode resp \<noteq> StatusOK \<longrightarrow>
      UpdatePassword c name revision newPassword opts w
        = (Inl (api_error ''failed to update user'' (StatusCode resp) body),
           wa\<lparr>closed := Suc (closed wa)\<rparr>))
   \<and> (GetUser c name opts w = (Inr currentUser, wg)
      \<and> Marshal_User
         \<lparr>user_ID = ''org.couchdb.user:'' @ name, user_Rev = revision, user_Name = name,
          user_Type = ''user'',
          user_Roles = Some (case roles of None \<Rightarrow> [] | Some rs \<Rightarrow> rs),
          user_Password = [],
          user_Salt = user_Salt currentUser,
          user_DerivedKey = user_DerivedKey currentUser,
          user_Iterations = user_Iterations currentUser,
          user_PasswordScheme = user_PasswordScheme currentUser\<rparr> = Inr data
      \<and> doRequest c ''PUT'' (''/_users/'' @ PathEscape (''org.couchdb.user:'' @ name))
           (Some data) opts wg = (Inr resp, wa)
      \<and> ReadAll resp = Inr body
      \<and> StatusCode resp \<noteq> StatusCreated \<and> StatusCode resp \<noteq> StatusOK \<longrightarrow>
      UpdateRoles c name revision roles opts w
        = (Inl (api_error ''failed to update roles'' (StatusCode resp) body),
           wa\<lparr>closed := Suc (closed wa)\<rparr>))
   \<and> (Marshal_SecurityObject security = Inr data
      \<and> doRequest c ''PUT'' (''/'' @ PathEscape dbName @ ''/_security'') (Some data) opts w
          = (Inr resp, wa)
      \<and> ReadAll resp = Inr body \<and> StatusCode resp \<noteq> StatusOK \<longrightarrow>
      SetSecurity c dbName security opts w
        = (Some (api_error ''failed to set security'' (StatusCode resp) body),
           wa\<lparr>closed := Suc (closed wa)\<rparr>))"
proof -
  have 1: "doRequest c ''PUT'' (CreateDatabase_path dbName dbopts) None opts w = (Inr resp, wa)
      \<Longrightarrow> ReadAll resp = Inr body
      \<Longrightarrow> StatusCode resp \<noteq> StatusCreated \<Longrightarrow> StatusCode resp \<noteq> StatusOK \<Longrightarrow>
      CreateDatabase c dbName dbopts opts w
        = (Inl (api_error ''failed to create database'' (StatusCode resp) body),
           wa\<lparr>closed := Suc (closed wa)\<rparr>)"
    by (simp add: CreateDatabase_def defer_Close_def api_error_def split: option.splits)
  have 2: "json_Marshal doc = Inr data
      \<Longrightarrow> doRequest c ''POST'' (CreateDocument_path dbName putopts) (Some data) opts w = (Inr resp, wa)
      \<Longrightarrow> ReadAll resp = Inr body
      \<Longrightarrow> StatusCode resp \<noteq> StatusCreated \<Longrightarrow> StatusCode resp \<noteq> StatusAccepted \<Longrightarrow>
      CreateDocument c dbName doc putopts opts w
        = (Inl (api_error ''failed to create document'' (StatusCode resp) body),
           wa\<lparr>closed := Suc (closed wa)\<rparr>)"
    by (simp add: CreateDocument_def defer_Close_def api_error_def split: option.splits)
  have 3: "json_Marshal doc = Inr data
      \<Longrightarrow> doRequest c ''PUT'' (UpdateDocument_path dbName docID putopts) (Some data) opts w
          = (Inr resp, wa)
      \<Longrightarrow> ReadAll resp = Inr body
      \<Longrightarrow> StatusCode resp \<noteq> StatusCreated \<Longrightarrow> StatusCode resp \<noteq> StatusAccepted \<Longrightarrow>
      UpdateDocument c dbName docID doc putopts opts w
        = (Inl (api_error ''failed to update document'' (StatusCode resp) body),
           wa\<lparr>closed := Suc (closed wa)\<rparr>)"
    by (simp add: UpdateDocument_def defer_Close_def api_error_def split: option.splits)
  have 4: "json_Marshal (AMap [(''docs'', docs_any docs)]) = Inr data
      \<Longrightarrow> doRequest c ''POST'' (''/'' @ PathEscape dbName @ ''/_bulk_docs'') (Some data) opts w
          = (Inr resp, wa)
      \<Longrightarrow> ReadAll resp = Inr body
      \<Longrightarrow> StatusCode resp \<noteq> StatusCreated \<Longrightarrow> StatusCode resp \<noteq> StatusOK \<Longrightarrow>
      BulkInsert c dbName docs opts w
        = (Inl (api_error ''failed to bulk insert'' (StatusCode resp) body),
           wa\<lparr>closed := Suc (closed wa)\<rparr>)
      \<and> BulkUpdate c dbName docs opts w
        = (Inl (api_error ''failed to bulk update'' (StatusCode resp) body),
           wa\<lparr>closed := Suc (closed wa)\<rparr>)"
    by (simp add: BulkInsert_def BulkUpdate_def defer_Close_def api_error_def split: option.splits)
  have 5: "doRequest c ''PUT''
        (''/_node/'' @ PathEscape nodeName @ ''/_config/'' @ PathEscape sec @ ''/'' @ PathEscape key)
        (Some (appendString val)) opts w = (Inr resp, wa)
      \<Longrightarrow> ReadAll resp = Inr body \<Longrightarrow> StatusCode resp \<noteq> StatusOK \<Longrightarrow>
      SetConfigurationValue c nodeName sec key val opts w
        = (Inl (api_error ''failed to set configuration value'' (StatusCode resp) body),
           wa\<lparr>closed := Suc (closed wa)\<rparr>)" for sec key val
    by (simp add: SetConfigurationValue_def json_Marshal_AString defer_Close_def api_error_def
        split: option.splits)
  have 6: "doRequest c ''PUT''
        (''/_node/'' @ PathEscape nodeName @ ''/_config/'' @ PathEscape ''admins'' @ ''/''
           @ PathEscape username)
        (Some (appendString password)) opts w = (Inr resp, wa)
      \<Longrightarrow> ReadAll resp = Inr body \<Longrightarrow> StatusCode resp \<noteq> StatusOK \<Longrightarrow>
      CreateAdmin c nodeName username password opts w
        = (Some (api_error ''failed to set configuration value'' (StatusCode resp) body),
           wa\<lparr>closed := Suc (closed wa)\<rparr>)
      \<and> UpdateAdminPassword c nodeName username password opts w
        = (Some (api_error ''failed to set configuration value'' (StatusCode resp) body),
           wa\<lparr>closed := Suc (closed wa)\<rparr>)"
    using 5 [of "''admins''" username password]
    by (simp add: CreateAdmin_def UpdateAdminPassword_def)
  have 7: "Marshal_User
         \<lparr>user_ID = ''org.couchdb.user:'' @ name, user_Rev = [], user_Name = name,
          user_Type = ''user'',
          user_Roles = Some (case roles of None \<Rightarrow> [] | Some rs \<Rightarrow> rs),
          user_Password = password,
          user_Salt = [], user_DerivedKey = [], user_Iterations = 0,
          user_PasswordScheme = []\<rparr> = Inr data
      \<Longrightarrow> doRequest c ''POST'' ''/_users'' (Some data) opts w = (Inr resp, wa)
      \<Longrightarrow> ReadAll resp = Inr body
      \<Longrightarrow> StatusCode resp \<noteq> StatusCreated \<Longrightarrow> StatusCode resp \<noteq> StatusOK \<Longrightarrow>
      CreateUser c name password roles opts w
        = (Inl (api_error ''failed to create user'' (StatusCode resp) body),
           wa\<lparr>closed := Suc (closed wa)\<rparr>)"
    by (cases roles)
      (simp_all add: CreateUser_def Let_def defer_Close_def api_error_def split: option.splits)
  have 8: "Marshal_User
         \<lparr>user_ID = ''org.couchdb.user:'' @ name, user_Rev = revision, user_Name = name,
          user_Type = ''user'',
          user_Roles = Some (case rl of None \<Rightarrow> [] | Some rs \<Rightarrow> rs),
          user_Password = (case pw of None \<Rightarrow> [] | Some p \<Rightarrow> p),
          user_Salt = [], user_DerivedKey = [], user_Iterations = 0,
          user_PasswordScheme = []\<rparr> = Inr data
      \<Longrightarrow> doRequest c ''PUT'' (''/_users/'' @ PathEscape (''org.couchdb.user:'' @ name))
           (Some data) opts wx = (Inr resp, wa)
      \<Longrightarrow> ReadAll resp = Inr body
      \<Longrightarrow> StatusCode resp \<noteq> StatusCreated \<Longrightarrow> StatusCode resp \<noteq> StatusOK \<Longrightarrow>
      UpdateUser c name revision pw rl opts wx
        = (Inl (api_error ''failed to update user'' (StatusCode resp) body),
           wa\<lparr>closed := Suc (closed wa)\<rparr>)" for pw rl wx
    by (cases rl; cases pw)
      (simp_all add: UpdateUser_def Let_def defer_Close_def api_error_def split: option.splits)
  have 9: "GetUser c name opts w = (Inl err, wg) \<Longrightarrow>
      UpdatePassword c name revision newPassword opts w = (Inl (Wrapf ''failed to get user'' err), wg)
      \<and> UpdateRoles c name revision roles opts w = (Inl (Wrapf ''failed to get user'' err), wg)"
    by (simp add: UpdateRoles_def UpdatePassword_def)
  have 10: "GetUser c name opts w = (Inr currentUser, wg)
      \<Longrightarrow> Marshal_User
         \<lparr>user_ID = ''org.couchdb.user:'' @ name, user_Rev = revision, user_Name = name,
          user_Type = ''user'',
          user_Roles = Some (case user_Roles currentUser of None \<Rightarrow> [] | Some rs \<Rightarrow> rs),
          user_Password = newPassword,
          user_Salt = [], user_DerivedKey = [], user_Iterations = 0,
          user_PasswordScheme = []\<rparr> = Inr data
      \<Longrightarrow> doRequest c ''PUT'' (''/_users/'' @ PathEscape (''org.couchdb.user:'' @ name))
           (Some data) opts wg = (Inr resp, wa)
      \<Longrightarrow> ReadAll resp = Inr body
      \<Longrightarrow> StatusCode resp \<noteq> StatusCreated \<Longrightarrow> StatusCode resp \<noteq> StatusOK \<Longrightarrow>
      UpdatePassword c name revision newPassword opts w
        = (Inl (api_error ''failed to update user'' (StatusCode resp) body),
           wa\<lparr>closed := Suc (closed wa)\<rparr>)"
    using 8 [of "user_Roles currentUser" "Some newPassword" wg]
    by (simp add: UpdatePassword_UpdateUser)
  have 11: "GetUser c name opts w = (Inr currentUser, wg)
      \<Longrightarrow> Marshal_User
         \<lparr>user_ID = ''org.couchdb.user:'' @ name, user_Rev = revision, user_Name = name,
          user_Type = ''user'',
          user_Roles = Some (case roles of None \<Rightarrow> [] | Some rs \<Rightarrow> rs),
          user_Password = [],
          user_Salt = user_Salt currentUser,
          user_DerivedKey = user_DerivedKey currentUser,
          user_Iterations = user_Iterations currentUser,
          user_PasswordScheme = user_PasswordScheme currentUser\<rparr> = Inr data
      \<Longrightarrow> doRequest c ''PUT'' (''/_users/'' @ PathEscape (''org.couchdb.user:'' @ name))
           (Some data) opts wg = (Inr resp, wa)
      \<Longrightarrow> ReadAll resp = Inr body
      \<Longrightarrow> StatusCode resp \<noteq> StatusCreated \<Longrightarrow> StatusCode resp \<noteq> StatusOK \<Longrightarrow>
      UpdateRoles c name revision roles opts w
        = (Inl (api_error ''failed to update roles'' (StatusCode resp) body),
           wa\<lparr>closed := Suc (closed wa)\<rparr>)"
    by (cases roles)
      (simp_all add: UpdateRoles_def Let_def defer_Close_def api_error_def split: option.splits)
  have 12: "Marshal_SecurityObject security = Inr data
      \<Longrightarrow> doRequest c ''PUT'' (''/'' @ PathEscape dbName @ ''/_security'') (Some data) opts w
          = (Inr resp, wa)
      \<Longrightarrow> ReadAll resp = Inr body \<Longrightarrow> StatusCode resp \<noteq> StatusOK \<Longrightarrow>
      SetSecurity c dbName security opts w
        = (Some (api_error ''failed to set security'' (StatusCode resp) body),
           wa\<lparr>closed := Suc (closed wa)\<rparr>)"
    by (simp add: SetSecurity_def defer_Close_def api_error_def split: option.splits)
  show ?thesis
    apply (intro conjI)
    subgoal using 1 by blast
    subgoal using 2 by blast
    subgoal using 3 by blast
    subgoal using 4 by blast
    subgoal using 5 [of sec key val] by blast
    subgoal using 6 by blast
    subgoal using 7 by blast
    subgoal using 8 [of roles passwordp w] by blast
    subgoal using 9 by blast
    subgoal using 10 by blast
    subgoal using 11 by blast
    subgoal using 12 by blast
    done
qed

text \<open>A body that is a JSON object without the two fields: the error is neither the
  status and body as they are, nor does it carry anything of the body.\<close>

theorem create_update_unexpected_status_counterexample:
  "fst (CreateDatabase (localhost (response 500 ''{}'')) ''db'' None [] w0)
     = Inl (Errorf ''failed to create database:  - '')
   \<and> fst (CreateDatabase (localhost (response 500 ''{}'')) ''db'' None [] w0)
     \<noteq> Inl (Errorf ''request failed with status 500: {}'')
   \<and> fst (UpdateDocument (localhost (response 500 ''{}'')) ''db'' ''doc1''
            (AMap [(''name'', AString ''John Doe'')]) None [] w0)
     = Inl (Errorf ''failed to update document:  - '')"
  by code_simp

theorem create_update_unexpected_status_witness:
  "doRequest (localhost (response 409 conflict_body)) ''PUT'' (CreateDatabase_path ''db'' None)
       None [] w0
     = (Inr (response 409 conflict_body), after_request ''PUT'' ''http://localhost:5984/db'' None 0)
   \<and> ReadAll (response 409 conflict_body) = Inr conflict_body
   \<and> StatusCode (response 409 conflict_body) \<noteq> StatusCreated
   \<and> StatusCode (response 409 conflict_body) \<noteq> StatusOK
   \<and> StatusCode (response 409 conflict_body) \<noteq> StatusAccepted
   \<and> CreateDatabase (localhost (response 409 conflict_body)) ''db'' None [] w0
     = (Inl (Errorf ''failed to create database: conflict - Document update conflict.''),
        after_request ''PUT'' ''http://localhost:5984/db'' None 1)
   \<and> json_Marshal (AMap [(''name'', AString ''John Doe'')]) = Inr (dq ''{`name`:`John Doe`}'')
   \<and> doRequest (localhost (response 409 conflict_body)) ''POST'' (CreateDocument_path ''db'' None)
       (Some (dq ''{`name`:`John Doe`}'')) [] w0
     = (Inr (response 409 conflict_body),
        after_request ''POST'' ''http://localhost:5984/db'' (Some (dq ''{`name`:`John Doe`}'')) 0)
   \<and> CreateDocument (localhost (response 409 conflict_body)) ''db''
        (AMap [(''name'', AString ''John Doe'')]) None [] w0
     = (Inl (Errorf ''failed to create document: conflict - Document update conflict.''),
        after_request ''POST'' ''http://localhost:5984/db'' (Some (dq ''{`name`:`John Doe`}'')) 1)
   \<and> doRequest (localhost (response 409 conflict_body)) ''PUT''
       (UpdateDocument_path ''db'' ''doc1'' None) (Some (dq ''{`name`:`John Doe`}'')) [] w0
     = (Inr (response 409 conflict_body),
        after_request ''PUT'' ''http://localhost:5984/db/doc1'' (Some (dq ''{`name`:`John Doe`}'')) 0)
   \<and> UpdateDocument (localhost (response 409 conflict_body)) ''db'' ''doc1''
        (AMap [(''name'', AString ''John Doe'')]) None [] w0
     = (Inl (Errorf ''failed to update document: conflict - Document update conflict.''),
        after_request ''PUT'' ''http://localhost:5984/db/doc1'' (Some (dq ''{`name`:`John Doe`}'')) 1)
   \<and> json_Marshal (AMap [(''docs'', docs_any (Some [Some [(''_id'', AString ''a'')]]))])
     = Inr (dq ''{`docs`:[{`_id`:`a`}]}'')
   \<and> doRequest (localhost (response 500 ''Internal Server Error'')) ''POST''
       (''/'' @ PathEscape ''db'' @ ''/_bulk_docs'') (Some (dq ''{`docs`:[{`_id`:`a`}]}'')) [] w0
     = (Inr (response 500 ''Internal Server Error''),
        after_request ''POST'' ''http://localhost:5984/db/_bulk_docs''
          (Some (dq ''{`docs`:[{`_id`:`a`}]}'')) 0)
   \<and> ReadAll (response 500 ''Internal Server Error'') = Inr ''Internal Server Error''
   \<and> StatusCode (response 500 ''Internal Server Error'') \<noteq> StatusCreated
   \<and> StatusCode (response 500 ''Internal Server Error'') \<noteq> StatusOK
   \<and> BulkInsert (localhost (response 500 ''Internal Server Error'')) ''db''
        (Some [Some [(''_id'', AString ''a'')]]) [] w0
     = (Inl (Errorf ''request failed with status 500: Internal Server Error''),
        after_request ''POST'' ''http://localhost:5984/db/_bulk_docs''
          (Some (dq ''{`docs`:[{`_id`:`a`}]}'')) 1)
   \<and> BulkUpdate (localhost (response 500 ''Internal Server Error'')) ''db''
        (Some [Some [(''_id'', AString ''a'')]]) [] w0
     = (Inl (Errorf ''request failed with status 500: Internal Server Error''),
        after_request ''POST'' ''http://localhost:5984/db/_bulk_docs''
          (Some (dq ''{`docs`:[{`_id`:`a`}]}'')) 1)
   \<and> doRequest (localhost (response 500 ''Internal Server Error'')) ''PUT''
       (''/_node/'' @ PathEscape ''_local'' @ ''/_config/'' @ PathEscape ''x'' @ ''/'' @ PathEscape ''y'')
       (Some (appendString ''5'')) [] w0
     = (Inr (response 500 ''Internal Server Error''),
        after_request ''PUT'' ''http://localhost:5984/_node/_local/_config/x/y''
          (Some (quoted ''5'')) 0)
   \<and> SetConfigurationValue (localhost (response 500 ''Internal Server Error''))
        ''_local'' ''x'' ''y'' ''5'' [] w0
     = (Inl (Errorf ''request failed with status 500: Internal Server Error''),
        after_request ''PUT'' ''http://localhost:5984/_node/_local/_config/x/y''
          (Some (quoted ''5'')) 1)
   \<and> doRequest (localhost (response 500 ''Internal Server Error'')) ''PUT''
       (''/_node/'' @ PathEscape ''_local'' @ ''/_config/'' @ PathEscape ''admins'' @ ''/''
          @ PathEscape ''root'')
       (Some (appendString ''pw'')) [] w0
     = (Inr (response 500 ''Internal Server Error''),
        after_request ''PUT'' ''http://localhost:5984/_node/_local/_config/admins/root''
          (Some (quoted ''pw'')) 0)
   \<and> CreateAdmin (localhost (response 500 ''Internal Server Error'')) ''_local'' ''root'' ''pw'' [] w0
     = (Some (Errorf ''request failed with status 500: Internal Server Error''),
        after_request ''PUT'' ''http://localhost:5984/_node/_local/_config/admins/root''
          (Some (quoted ''pw'')) 1)
   \<and> UpdateAdminPassword (localhost (response 500 ''Internal Server Error''))
        ''_local'' ''root'' ''pw'' [] w0
     = (Some (Errorf ''request failed with status 500: Internal Server Error''),
        after_request ''PUT'' ''http://localhost:5984/_node/_local/_config/admins/root''
          (Some (quoted ''pw'')) 1)
   \<and> doRequest (localhost (response 409 conflict_body)) ''POST'' ''/_users''
       (Some (dq ''{`_id`:`org.couchdb.user:john`,`name`:`john`,`type`:`user`,`roles`:[],`password`:`pw`}''))
       [] w0
     = (Inr (response 409 conflict_body),
        after_request ''POST'' ''http://localhost:5984/_users''
          (Some (dq ''{`_id`:`org.couchdb.user:john`,`name`:`john`,`type`:`user`,`roles`:[],`password`:`pw`}''))
          0)
   \<and> CreateUser (localhost (response 409 conflict_body)) ''john'' ''pw'' None [] w0
     = (Inl (Errorf ''failed to create user: conflict - Document update conflict.''),
        after_request ''POST'' ''http://localhost:5984/_users''
          (Some (dq ''{`_id`:`org.couchdb.user:john`,`name`:`john`,`type`:`user`,`roles`:[],`password`:`pw`}''))
          1)
   \<and> doRequest (localhost (response 409 conflict_body)) ''PUT''
       (''/_users/'' @ PathEscape (''org.couchdb.user:'' @ ''john''))
       (Some (dq ''{`_id`:`org.couchdb.user:john`,`_rev`:`1-a`,`name`:`john`,`type`:`user`,`roles`:[`r`]}''))
       [] w0
     = (Inr (response 409 conflict_body),
        after_request ''PUT'' ''http://localhost:5984/_users/org.couchdb.user:john''
          (Some (dq ''{`_id`:`org.couchdb.user:john`,`_rev`:`1-a`,`name`:`john`,`type`:`user`,`roles`:[`r`]}''))
          0)
   \<and> UpdateUser (localhost (response 409 conflict_body)) ''john'' ''1-a'' None (Some [''r'']) [] w0
     = (Inl (Errorf ''failed to update user: conflict - Document update conflict.''),
        after_request ''PUT'' ''http://localhost:5984/_users/org.couchdb.user:john''
          (Some (dq ''{`_id`:`org.couchdb.user:john`,`_rev`:`1-a`,`name`:`john`,`type`:`user`,`roles`:[`r`]}''))
          1)
   \<and> GetUser (localhost (response 404 not_found_body)) ''john'' [] w0
     = (Inl (Errorf ''user not found: john''),
        after_request ''GET'' ''http://localhost:5984/_users/org.couchdb.user:john'' None 1)
   \<and> UpdatePassword (localhost (response 404 not_found_body)) ''john'' ''1-a'' ''newpw'' [] w0
     = (Inl (Wrapf ''failed to get user'' (Errorf ''user not found: john'')),
        after_request ''GET'' ''http://localhost:5984/_users/org.couchdb.user:john'' None 1)
   \<and> UpdateRoles (localhost (response 404 not_found_body)) ''john'' ''1-a'' (Some [''admin'']) [] w0
     = (Inl (Wrapf ''failed to get user'' (Errorf ''user not found: john'')),
        after_request ''GET'' ''http://localhost:5984/_users/org.couchdb.user:john'' None 1)
   \<and> GetUser conflict_server ''john'' [] w0
     = (Inr fetched_user,
        after_request ''GET'' ''http://localhost:5984/_users/org.couchdb.user:john'' None 1)
   \<and> doRequest conflict_server ''PUT'' (''/_users/'' @ PathEscape (''org.couchdb.user:'' @ ''john''))
       (Some (dq ''{`_id`:`org.couchdb.user:john`,`_rev`:`1-a`,`name`:`john`,`type`:`user`,`roles`:[`reader`],`password`:`newpw`}''))
       [] (after_request ''GET'' ''http://localhost:5984/_users/org.couchdb.user:john'' None 1)
     = (Inr (response 409 conflict_body),
        \<lparr>sent = [request ''GET'' ''http://localhost:5984/_users/org.couchdb.user:john'' None,
                 request ''PUT'' ''http://localhost:5984/_users/org.couchdb.user:john''
                   (Some (dq ''{`_id`:`org.couchdb.user:john`,`_rev`:`1-a`,`name`:`john`,`type`:`user`,`roles`:[`reader`],`password`:`newpw`}''))],
         closed = 1\<rparr>)
   \<and> UpdatePassword conflict_server ''john'' ''1-a'' ''newpw'' [] w0
     = (Inl (Errorf ''failed to update user: conflict - Document update conflict.''),
        \<lparr>sent = [request ''GET'' ''http://localhost:5984/_users/org.couchdb.user:john'' None,
                 request ''PUT'' ''http://localhost:5984/_users/org.couchdb.user:john''
                   (Some (dq ''{`_id`:`org.couchdb.user:john`,`_rev`:`1-a`,`name`:`john`,`type`:`user`,`roles`:[`reader`],`password`:`newpw`}''))],
         closed = 2\<rparr>)
   \<and> doRequest conflict_server ''PUT'' (''/_users/'' @ PathEscape (''org.couchdb.user:'' @ ''john''))
       (Some (dq (''{`_id`:`org.couchdb.user:john`,`_rev`:`1-a`,`name`:`john`,`type`:`user`,''
          @ ''`roles`:[`admin`],`salt`:`s4lt`,`derived_key`:`d3r1`,`iterations`:10,''
          @ ''`password_scheme`:`pbkdf2`}'')))
       [] (after_request ''GET'' ''http://localhost:5984/_users/org.couchdb.user:john'' None 1)
     = (Inr (response 409 conflict_body),
        \<lparr>sent = [request ''GET'' ''http://localhost:5984/_users/org.couchdb.user:john'' None,
                 request ''PUT'' ''http://localhost:5984/_users/org.couchdb.user:john''
                   (Some (dq (''{`_id`:`org.couchdb.user:john`,`_rev`:`1-a`,`name`:`john`,`type`:`user`,''
                      @ ''`roles`:[`admin`],`salt`:`s4lt`,`derived_key`:`d3r1`,`iterations`:10,''
                      @ ''`password_scheme`:`pbkdf2`}'')))],
         closed = 1\<rparr>)
   \<and> UpdateRoles conflict_server ''john'' ''1-a'' (Some [''admin'']) [] w0
     = (Inl (Errorf ''failed to update roles: conflict - Document update conflict.''),
        \<lparr>sent = [request ''GET'' ''http://localhost:5984/_users/org.couchdb.user:john'' None,
                 request ''PUT'' ''http://localhost:5984/_users/org.couchdb.user:john''
                   (Some (dq (''{`_id`:`org.couchdb.user:john`,`_rev`:`1-a`,`name`:`john`,`type`:`user`,''
                      @ ''`roles`:[`admin`],`salt`:`s4lt`,`derived_key`:`d3r1`,`iterations`:10,''
                      @ ''`password_scheme`:`pbkdf2`}'')))],
         closed = 2\<rparr>)
   \<and> Marshal_SecurityObject
        (Some \<lparr>so_Admins = \<lparr>mem_Names = Some [''root''], mem_Roles = None\<rparr>,
               so_Members = \<lparr>mem_Names = None, mem_Roles = Some [''dev'']\<rparr>\<rparr>)
     = Inr (dq ''{`admins`:{`names`:[`root`],`roles`:null},`members`:{`names`:null,`roles`:[`dev`]}}'')
   \<and> doRequest (localhost (response 409 conflict_body)) ''PUT''
       (''/'' @ PathEscape ''db'' @ ''/_security'')
       (Some (dq ''{`admins`:{`names`:[`root`],`roles`:null},`members`:{`names`:null,`roles`:[`dev`]}}''))
       [] w0
     = (Inr (response 409 conflict_body),
        after_request ''PUT'' ''http://localhost:5984/db/_security''
          (Some (dq ''{`admins`:{`names`:[`root`],`roles`:null},`members`:{`names`:null,`roles`:[`dev`]}}''))
          0)
   \<and> SetSecurity (localhost (response 409 conflict_body)) ''db''
        (Some \<lparr>so_Admins = \<lparr>mem_Names = Some [''root''], mem_Roles = None\<rparr>,
               so_Members = \<lparr>mem_Names = None, mem_Roles = Some [''dev'']\<rparr>\<rparr>) [] w0
     = (Some (Errorf ''failed to set security: conflict - Document update conflict.''),
        after_request ''PUT'' ''http://localhost:5984/db/_security''
          (Some (dq ''{`admins`:{`names`:[`root`],`roles`:null},`members`:{`names`:null,`roles`:[`dev`]}}''))
          1)"
proof -
  let ?r = "response 409 conflict_body"
  let ?c = "localhost ?r"
  let ?e = "response 500 ''Internal Server Error''"
  let ?d = "localhost ?e"
  let ?n = "localhost (response 404 not_found_body)"
  let ?doc = "AMap [(''name'', AString ''John Doe'')]"
  let ?data = "dq ''{`name`:`John Doe`}''"
  let ?docs = "Some [Some [(''_id'', AString ''a'')]]"
  let ?bulk = "dq ''{`docs`:[{`_id`:`a`}]}''"
  let ?new_user = "dq ''{`_id`:`org.couchdb.user:john`,`name`:`john`,`type`:`user`,`roles`:[],`password`:`pw`}''"
  let ?upd_user = "dq ''{`_id`:`org.couchdb.user:john`,`_rev`:`1-a`,`name`:`john`,`type`:`user`,`roles`:[`r`]}''"
  let ?pass_doc = "dq ''{`_id`:`org.couchdb.user:john`,`_rev`:`1-a`,`name`:`john`,`type`:`user`,`roles`:[`reader`],`password`:`newpw`}''"
  let ?roles_doc = "dq (''{`_id`:`org.couchdb.user:john`,`_rev`:`1-a`,`name`:`john`,`type`:`user`,''
                      @ ''`roles`:[`admin`],`salt`:`s4lt`,`derived_key`:`d3r1`,`iterations`:10,''
                      @ ''`password_scheme`:`pbkdf2`}'')"
  let ?so = "Some \<lparr>so_Admins = \<lparr>mem_Names = Some [''root''], mem_Roles = None\<rparr>,
               so_Members = \<lparr>mem_Names = None, mem_Roles = Some [''dev'']\<rparr>\<rparr>"
  let ?sec = "dq ''{`admins`:{`names`:[`root`],`roles`:null},`members`:{`names`:null,`roles`:[`dev`]}}''"
  let ?u = "''http://localhost:5984/_users/org.couchdb.user:john''"
  let ?w1 = "after_request ''PUT'' ''http://localhost:5984/db'' None 0"
  let ?w2 = "after_request ''POST'' ''http://localhost:5984/db'' (Some ?data) 0"
  let ?w3 = "after_request ''PUT'' ''http://localhost:5984/db/doc1'' (Some ?data) 0"
  let ?w4 = "after_request ''POST'' ''http://localhost:5984/db/_bulk_docs'' (Some ?bulk) 0"
  let ?w5 = "after_request ''PUT'' ''http://localhost:5984/_node/_local/_config/x/y''
               (Some (quoted ''5'')) 0"
  let ?w6 = "after_request ''PUT'' ''http://localhost:5984/_node/_local/_config/admins/root''
               (Some (quoted ''pw'')) 0"
  let ?w7 = "after_request ''POST'' ''http://localhost:5984/_users'' (Some ?new_user) 0"
  let ?w8 = "after_request ''PUT'' ?u (Some ?upd_user) 0"
  let ?wg = "after_request ''GET'' ?u None 1"
  let ?w10 = "\<lparr>sent = [request ''GET'' ?u None, request ''PUT'' ?u (Some ?pass_doc)], closed = 1\<rparr>"
  let ?w11 = "\<lparr>sent = [request ''GET'' ?u None, request ''PUT'' ?u (Some ?roles_doc)], closed = 1\<rparr>"
  let ?w12 = "after_request ''PUT'' ''http://localhost:5984/db/_security'' (Some ?sec) 0"
  let ?t = "''http://localhost:5984''"
  have s: "ReadAll ?r = Inr conflict_body" "StatusCode ?r \<noteq> StatusCreated"
    "StatusCode ?r \<noteq> StatusOK" "StatusCode ?r \<noteq> StatusAccepted"
    "ReadAll ?e = Inr ''Internal Server Error''" "StatusCode ?e \<noteq> StatusCreated"
    "StatusCode ?e \<noteq> StatusOK"
    by (simp_all add: response_def ReadAll_def)
  have m: "json_Marshal ?doc = Inr ?data"
    "json_Marshal (AMap [(''docs'', docs_any ?docs)]) = Inr ?bulk"
    by code_simp+
  have mu1: "Marshal_User
         \<lparr>user_ID = ''org.couchdb.user:'' @ ''john'', user_Rev = [], user_Name = ''john'',
          user_Type = ''user'',
          user_Roles = Some (case None of None \<Rightarrow> [] | Some rs \<Rightarrow> rs),
          user_Password = ''pw'',
          user_Salt = [], user_DerivedKey = [], user_Iterations = 0,
          user_PasswordScheme = []\<rparr> = Inr ?new_user"
    by code_simp
  have mu2: "Marshal_User
         \<lparr>user_ID = ''org.couchdb.user:'' @ ''john'', user_Rev = ''1-a'', user_Name = ''john'',
          user_Type = ''user'',
          user_Roles = Some (case Some [''r''] of None \<Rightarrow> [] | Some rs \<Rightarrow> rs),
          user_Password = (case None of None \<Rightarrow> [] | Some p \<Rightarrow> p),
          user_Salt = [], user_DerivedKey = [], user_Iterations = 0,
          user_PasswordScheme = []\<rparr> = Inr ?upd_user"
    by code_simp
  have mu3: "Marshal_User
         \<lparr>user_ID = ''org.couchdb.user:'' @ ''john'', user_Rev = ''1-a'', user_Name = ''john'',
          user_Type = ''user'',
          user_Roles = Some (case user_Roles fetched_user of None \<Rightarrow> [] | Some rs \<Rightarrow> rs),
          user_Password = ''newpw'',
          user_Salt = [], user_DerivedKey = [], user_Iterations = 0,
          user_PasswordScheme = []\<rparr> = Inr ?pass_doc"
    by code_simp
  have mu4: "Marshal_User
         \<lparr>user_ID = ''org.couchdb.user:'' @ ''john'', user_Rev = ''1-a'', user_Name = ''john'',
          user_Type = ''user'',
          user_Roles = Some (case Some [''admin''] of None \<Rightarrow> [] | Some rs \<Rightarrow> rs),
          user_Password = [],
          user_Salt = user_Salt fetched_user,
          user_DerivedKey = user_DerivedKey fetched_user,
          user_Iterations = user_Iterations fetched_user,
          user_PasswordScheme = user_PasswordScheme fetched_user\<rparr> = Inr ?roles_doc"
    by code_simp
  have ms: "Marshal_SecurityObject ?so = Inr ?sec"
    by code_simp
  have d1: "doRequest ?c ''PUT'' (CreateDatabase_path ''db'' None) None [] w0 = (Inr ?r, ?w1)"
    by code_simp
  have d2: "doRequest ?c ''POST'' (CreateDocument_path ''db'' None) (Some ?data) [] w0 = (Inr ?r, ?w2)"
    by code_simp
  have d3: "doRequest ?c ''PUT'' (UpdateDocument_path ''db'' ''doc1'' None) (Some ?data) [] w0
              = (Inr ?r, ?w3)"
    by code_simp
  have d4: "doRequest ?d ''POST'' (''/'' @ PathEscape ''db'' @ ''/_bulk_docs'') (Some ?bulk) [] w0
              = (Inr ?e, ?w4)"
    by code_simp
  have d5: "doRequest ?d ''PUT''
       (''/_node/'' @ PathEscape ''_local'' @ ''/_config/'' @ PathEscape ''x'' @ ''/'' @ PathEscape ''y'')
       (Some (appendString ''5'')) [] w0 = (Inr ?e, ?w5)"
    by code_simp
  have d6: "doRequest ?d ''PUT''
       (''/_node/'' @ PathEscape ''_local'' @ ''/_config/'' @ PathEscape ''admins'' @ ''/''
          @ PathEscape ''root'')
       (Some (appendString ''pw'')) [] w0 = (Inr ?e, ?w6)"
    by code_simp
  have d7: "doRequest ?c ''POST'' ''/_users'' (Some ?new_user) [] w0 = (Inr ?r, ?w7)"
    by code_simp
  have d8: "doRequest ?c ''PUT'' (''/_users/'' @ PathEscape (''org.couchdb.user:'' @ ''john''))
              (Some ?upd_user) [] w0 = (Inr ?r, ?w8)"
    by code_simp
  have n: "GetUser ?n ''john'' [] w0 = (Inl (Errorf ''user not found: john''), ?wg)"
    by code_simp
  have dg: "doRequest conflict_server ''GET''
              (''/_users/'' @ PathEscape (''org.couchdb.user:'' @ ''john'')) None [] w0
              = (Inr (response 200 user_body), after_request ''GET'' ?u None 0)"
    by code_simp
  have g: "GetUser conflict_server ''john'' [] w0 = (Inr fetched_user, ?wg)"
    using GetUser_ok [OF dg _ _ Unmarshal_User_user_body]
    by (simp add: response_def ReadAll_def after_request_def)
  have d10: "doRequest conflict_server ''PUT''
              (''/_users/'' @ PathEscape (''org.couchdb.user:'' @ ''john'')) (Some ?pass_doc) [] ?wg
              = (Inr ?r, ?w10)"
    by code_simp
  have d11: "doRequest conflict_server ''PUT''
              (''/_users/'' @ PathEscape (''org.couchdb.user:'' @ ''john'')) (Some ?roles_doc) [] ?wg
              = (Inr ?r, ?w11)"
    by code_simp
  have d12: "doRequest ?c ''PUT'' (''/'' @ PathEscape ''db'' @ ''/_security'') (Some ?sec) [] w0
              = (Inr ?r, ?w12)"
    by code_simp
  have i: "Itoa (StatusCode ?e) = ''500''"
    by code_simp
  have ue: "Unmarshal_ErrorResponse ''Internal Server Error'' = None"
    by code_simp
  have a: "api_error ''failed to create database'' (StatusCode ?r) conflict_body
             = Errorf ''failed to create database: conflict - Document update conflict.''"
    "api_error ''failed to create document'' (StatusCode ?r) conflict_body
             = Errorf ''failed to create document: conflict - Document update conflict.''"
    "api_error ''failed to update document'' (StatusCode ?r) conflict_body
             = Errorf ''failed to update document: conflict - Document update conflict.''"
    "api_error ''failed to bulk insert'' (StatusCode ?e) ''Internal Server Error''
             = Errorf ''request failed with status 500: Internal Server Error''"
    "api_error ''failed to bulk update'' (StatusCode ?e) ''Internal Server Error''
             = Errorf ''request failed with status 500: Internal Server Error''"
    "api_error ''failed to set configuration value'' (StatusCode ?e) ''Internal Server Error''
             = Errorf ''request failed with status 500: Internal Server Error''"
    "api_error ''failed to create user'' (StatusCode ?r) conflict_body
             = Errorf ''failed to create user: conflict - Document update conflict.''"
    "api_error ''failed to update user'' (StatusCode ?r) conflict_body
             = Errorf ''failed to update user: conflict - Document update conflict.''"
    "api_error ''failed to update roles'' (StatusCode ?r) conflict_body
             = Errorf ''failed to update roles: conflict - Document update conflict.''"
    "api_error ''failed to set security'' (StatusCode ?r) conflict_body
             = Errorf ''failed to set security: conflict - Document update conflict.''"
    by (simp_all add: api_error_def Unmarshal_ErrorResponse_conflict_body ue i)
  have c2: "?w10\<lparr>closed := Suc (closed ?w10)\<rparr>
      = \<lparr>sent = [request ''GET'' ?u None, request ''PUT'' ?u (Some ?pass_doc)], closed = 2\<rparr>"
    "?w11\<lparr>closed := Suc (closed ?w11)\<rparr>
      = \<lparr>sent = [request ''GET'' ?u None, request ''PUT'' ?u (Some ?roles_doc)], closed = 2\<rparr>"
    by simp_all
  note t = create_update_unexpected_status
  note r = a after_request_closed c2
  have g1: "CreateDatabase ?c ''db'' None [] w0
     = (Inl (Errorf ''failed to create database: conflict - Document update conflict.''),
        after_request ''PUT'' ''http://localhost:5984/db'' None 1)"
    by (rule t [where c = ?c and dbName = "''db''" and dbopts = None and opts = "[]" and w = w0
          and resp = ?r and wa = ?w1 and body = conflict_body,
          THEN conjunct1, rule_format, unfolded r])
       (intro conjI d1 s)
  have g2: "CreateDocument ?c ''db'' ?doc None [] w0
     = (Inl (Errorf ''failed to create document: conflict - Document update conflict.''),
        after_request ''POST'' ''http://localhost:5984/db'' (Some ?data) 1)"
    by (rule t [where c = ?c and dbName = "''db''" and putopts = None and opts = "[]" and w = w0
          and resp = ?r and wa = ?w2 and body = conflict_body and doc = ?doc and data = ?data,
          THEN conjunct2, THEN conjunct1, rule_format, unfolded r])
       (intro conjI m d2 s)
  have g3: "UpdateDocument ?c ''db'' ''doc1'' ?doc None [] w0
     = (Inl (Errorf ''failed to update document: conflict - Document update conflict.''),
        after_request ''PUT'' ''http://localhost:5984/db/doc1'' (Some ?data) 1)"
    by (rule t [where c = ?c and dbName = "''db''" and putopts = None and opts = "[]" and w = w0
          and resp = ?r and wa = ?w3 and body = conflict_body and doc = ?doc and data = ?data
          and docID = "''doc1''",
          THEN conjunct2, THEN conjunct2, THEN conjunct1, rule_format, unfolded r])
       (intro conjI m d3 s)
  have g4: "BulkInsert ?d ''db'' ?docs [] w0
     = (Inl (Errorf ''request failed with status 500: Internal Server Error''),
        after_request ''POST'' ''http://localhost:5984/db/_bulk_docs'' (Some ?bulk) 1)
     \<and> BulkUpdate ?d ''db'' ?docs [] w0
     = (Inl (Errorf ''request failed with status 500: Internal Server Error''),
        after_request ''POST'' ''http://localhost:5984/db/_bulk_docs'' (Some ?bulk) 1)"
    by (rule t [where c = ?d and dbName = "''db''" and opts = "[]" and w = w0
          and resp = ?e and wa = ?w4 and body = "''Internal Server Error''" and docs = ?docs
          and data = ?bulk,
          THEN conjunct2, THEN conjunct2, THEN conjunct2, THEN conjunct1, rule_format,
          unfolded r])
       (intro conjI m d4 s)
  have g5: "SetConfigurationValue ?d ''_local'' ''x'' ''y'' ''5'' [] w0
     = (Inl (Errorf ''request failed with status 500: Internal Server Error''),
        after_request ''PUT'' ''http://localhost:5984/_node/_local/_config/x/y''
          (Some (quoted ''5'')) 1)"
    by (rule t [where c = ?d and opts = "[]" and w = w0 and resp = ?e and wa = ?w5
          and body = "''Internal Server Error''" and nodeName = "''_local''" and sec = "''x''"
          and key = "''y''" and val = "''5''",
          THEN conjunct2, THEN conjunct2, THEN conjunct2, THEN conjunct2, THEN conjunct1,
          rule_format, unfolded r])
       (intro conjI d5 s)
  have g6: "CreateAdmin ?d ''_local'' ''root'' ''pw'' [] w0
     = (Some (Errorf ''request failed with status 500: Internal Server Error''),
        after_request ''PUT'' ''http://localhost:5984/_node/_local/_config/admins/root''
          (Some (quoted ''pw'')) 1)
     \<and> UpdateAdminPassword ?d ''_local'' ''root'' ''pw'' [] w0
     = (Some (Errorf ''request failed with status 500: Internal Server Error''),
        after_request ''PUT'' ''http://localhost:5984/_node/_local/_config/admins/root''
          (Some (quoted ''pw'')) 1)"
    by (rule t [where c = ?d and opts = "[]" and w = w0 and resp = ?e and wa = ?w6
          and body = "''Internal Server Error''" and nodeName = "''_local''"
          and username = "''root''" and password = "''pw''",
          THEN conjunct2, THEN conjunct2, THEN conjunct2, THEN conjunct2, THEN conjunct2,
          THEN conjunct1, rule_format, unfolded r])
       (intro conjI d6 s)
  have g7: "CreateUser ?c ''john'' ''pw'' None [] w0
     = (Inl (Errorf ''failed to create user: conflict - Document update conflict.''),
        after_request ''POST'' ''http://localhost:5984/_users'' (Some ?new_user) 1)"
    by (rule t [where c = ?c and opts = "[]" and w = w0 and resp = ?r and wa = ?w7
          and body = conflict_body and name = "''john''" and password = "''pw''" and roles = None
          and data = ?new_user,
          THEN conjunct2, THEN conjunct2, THEN conjunct2, THEN conjunct2, THEN conjunct2,
          THEN conjunct2, THEN conjunct1, rule_format, unfolded r])
       (intro conjI mu1 d7 s)
  have g8: "UpdateUser ?c ''john'' ''1-a'' None (Some [''r'']) [] w0
     = (Inl (Errorf ''failed to update user: conflict - Document update conflict.''),
        after_request ''PUT'' ?u (Some ?upd_user) 1)"
    by (rule t [where c = ?c and opts = "[]" and w = w0 and resp = ?r and wa = ?w8
          and body = conflict_body and name = "''john''" and revision = "''1-a''"
          and passwordp = None and roles = "Some [''r'']" and data = ?upd_user,
          THEN conjunct2, THEN conjunct2, THEN conjunct2, THEN conjunct2, THEN conjunct2,
          THEN conjunct2, THEN conjunct2, THEN conjunct1, rule_format, unfolded r])
       (intro conjI mu2 d8 s)
  have g9: "UpdatePassword ?n ''john'' ''1-a'' ''newpw'' [] w0
      = (Inl (Wrapf ''failed to get user'' (Errorf ''user not found: john'')), ?wg)
     \<and> UpdateRoles ?n ''john'' ''1-a'' (Some [''admin'']) [] w0
      = (Inl (Wrapf ''failed to get user'' (Errorf ''user not found: john'')), ?wg)"
    by (rule t [where c = ?n and name = "''john''" and opts = "[]" and w = w0 and wg = ?wg
          and err = "Errorf ''user not found: john''" and revision = "''1-a''"
          and roles = "Some [''admin'']" and newPassword = "''newpw''",
          THEN conjunct2, THEN conjunct2, THEN conjunct2, THEN conjunct2, THEN conjunct2,
          THEN conjunct2, THEN conjunct2, THEN conjunct2, THEN conjunct1, rule_format])
       (rule n)
  have g10: "UpdatePassword conflict_server ''john'' ''1-a'' ''newpw'' [] w0
     = (Inl (Errorf ''failed to update user: conflict - Document update conflict.''),
        \<lparr>sent = [request ''GET'' ?u None, request ''PUT'' ?u (Some ?pass_doc)], closed = 2\<rparr>)"
    by (rule t [where c = conflict_server and name = "''john''" and opts = "[]" and w = w0
          and wg = ?wg and currentUser = fetched_user and revision = "''1-a''"
          and newPassword = "''newpw''" and data = ?pass_doc and resp = ?r and wa = ?w10
          and body = conflict_body,
          THEN conjunct2, THEN conjunct2, THEN conjunct2, THEN conjunct2, THEN conjunct2,
          THEN conjunct2, THEN conjunct2, THEN conjunct2, THEN conjunct2, THEN conjunct1,
          rule_format, unfolded r])
       (intro conjI g mu3 d10 s)
  have g11: "UpdateRoles conflict_server ''john'' ''1-a'' (Some [''admin'']) [] w0
     = (Inl (Errorf ''failed to update roles: conflict - Document update conflict.''),
        \<lparr>sent = [request ''GET'' ?u None, request ''PUT'' ?u (Some ?roles_doc)], closed = 2\<rparr>)"
    by (rule t [where c = conflict_server and name = "''john''" and opts = "[]" and w = w0
          and wg = ?wg and currentUser = fetched_user and revision = "''1-a''"
          and roles = "Some [''admin'']" and data = ?roles_doc and resp = ?r and wa = ?w11
          and body = conflict_body,
          THEN conjunct2, THEN conjunct2, THEN conjunct2, THEN conjunct2, THEN conjunct2,
          THEN conjunct2, THEN conjunct2, THEN conjunct2, THEN conjunct2, THEN conjunct2,
          THEN conjunct1, rule_format, unfolded r])
       (intro conjI g mu4 d11 s)
  have g12: "SetSecurity ?c ''db'' ?so [] w0
     = (Some (Errorf ''failed to set security: conflict - Document update conflict.''),
        after_request ''PUT'' ''http://localhost:5984/db/_security'' (Some ?sec) 1)"
    by (rule t [where c = ?c and dbName = "''db''" and opts = "[]" and w = w0 and resp = ?r
          and wa = ?w12 and body = conflict_body and security = ?so and data = ?sec,
          THEN conjunct2, THEN conjunct2, THEN conjunct2, THEN conjunct2, THEN conjunct2,
          THEN conjunct2, THEN conjunct2, THEN conjunct2, THEN conjunct2, THEN conjunct2,
          THEN conjunct2, rule_format, unfolded r])
       (intro conjI ms d12 s)
  show ?thesis
    by (intro conjI s m ms d1 d2 d3 d4 d5 d6 d7 d8 n g d10 d11 d12
        g1 g2 g3 g4 [THEN conjunct1] g4 [THEN conjunct2] g5 g6 [THEN conjunct1] g6 [THEN conjunct2]
        g7 g8 g9 [THEN conjunct1] g9 [THEN conjunct2] g10 g11 g12)
qed

lemma BulkInsert_world:
  "new_requests w (snd (BulkInsert c dbName docs opts w))
     = (case json_Marshal (AMap [(''docs'', docs_any docs)]) of
          Inl err \<Rightarrow> []
        | Inr data \<Rightarrow> new_requests w (snd (doRequest c ''POST''
            (''/'' @ PathEscape dbName @ ''/_bulk_docs'') (Some data) opts w)))"
  by (simp add: BulkInsert_def Let_def defer_Close_def new_requests_def
      split: prod.splits sum.splits)

text \<open>
  C9. \<^verbatim>\<open>BulkInsert\<close> and \<^verbatim>\<open>BulkUpdate\<close> leave the same world behind (the same requests
  handed to the transport, the same bodies closed) and give the same result, an error of
  the one being the error of the other with the operation's words exchanged; and every
  request they hand over is a POST of the marshalled \<^verbatim>\<open>{"docs": docs}\<close> to the
  \<^verbatim>\<open>_bulk_docs\<close> path of the database.
\<close>

theorem BulkInsert_BulkUpdate_same:
  "snd (BulkUpdate c dbName docs opts w) = snd (BulkInsert c dbName docs opts w)
   \<and> fst (BulkUpdate c dbName docs opts w)
       = map_sum bulk_update_error id (fst (BulkInsert c dbName docs opts w))
   \<and> (opts = [] \<or> package_authenticator (last opts) \<longrightarrow>
        list_all (\<lambda>req. Method req = ''POST''
                    \<and> URL req = baseURL c @ ''/'' @ PathEscape dbName @ ''/_bulk_docs''
                    \<and> map_option Inr (Body req) = Some (json_Marshal (AMap [(''docs'', docs_any docs)])))
          (new_requests w (snd (BulkInsert c dbName docs opts w))))"
proof -
  have 1: "snd (BulkUpdate c dbName docs opts w) = snd (BulkInsert c dbName docs opts w)"
    by (simp add: BulkInsert_def BulkUpdate_def Let_def defer_Close_def
        split: prod.splits sum.splits)
  have 2: "fst (BulkUpdate c dbName docs opts w)
       = map_sum bulk_update_error id (fst (BulkInsert c dbName docs opts w))"
    by (simp add: BulkInsert_def BulkUpdate_def Let_def defer_Close_def
        split: prod.splits sum.splits option.splits)
  have 3: "opts = [] \<or> package_authenticator (last opts) \<Longrightarrow>
        list_all (\<lambda>req. Method req = ''POST''
                    \<and> URL req = baseURL c @ ''/'' @ PathEscape dbName @ ''/_bulk_docs''
                    \<and> map_option Inr (Body req) = Some (json_Marshal (AMap [(''docs'', docs_any docs)])))
          (new_requests w (snd (BulkInsert c dbName docs opts w)))"
  proof (cases "json_Marshal (AMap [(''docs'', docs_any docs)])")
    case (Inl err)
    then show ?thesis by (simp add: BulkInsert_world)
  next
    case (Inr data)
    assume "opts = [] \<or> package_authenticator (last opts)"
    then show ?thesis
      using doRequest_new_requests [of opts "''POST''" c
          "''/'' @ PathEscape dbName @ ''/_bulk_docs''" "Some data" w] Inr
      by (simp add: BulkInsert_world list_all_iff)
  qed
  show ?thesis
    using 1 2 3 by blast
qed

theorem BulkInsert_BulkUpdate_same_witness:
  "(([] :: RequestOption list) = [] \<or> package_authenticator (last []))
   \<and> list_all (\<lambda>req. Method req = ''POST''
                \<and> URL req = baseURL (localhost (response 201 bulk_body)) @ ''/'' @ PathEscape ''db''
                            @ ''/_bulk_docs''
                \<and> map_option Inr (Body req)
                    = Some (json_Marshal (AMap [(''docs'', docs_any (Some [Some [(''_id'', AString ''a'')]]))])))
        (new_requests w0 (snd (BulkInsert (localhost (response 201 bulk_body)) ''db''
           (Some [Some [(''_id'', AString ''a'')]]) [] w0)))
   \<and> BulkInsert (localhost (response 201 bulk_body)) ''db'' (Some [Some [(''_id'', AString ''a'')]]) [] w0
     = (Inr [\<lparr>bdi_ID = ''a'', bdi_OK = True, bdi_Rev = ''1-x''\<rparr>],
        after_request ''POST'' ''http://localhost:5984/db/_bulk_docs''
          (Some (dq ''{`docs`:[{`_id`:`a`}]}'')) 1)
   \<and> BulkUpdate (localhost (response 201 bulk_body)) ''db'' (Some [Some [(''_id'', AString ''a'')]]) [] w0
     = (Inr [\<lparr>bdi_ID = ''a'', bdi_OK = True, bdi_Rev = ''1-x''\<rparr>],
        after_request ''POST'' ''http://localhost:5984/db/_bulk_docs''
          (Some (dq ''{`docs`:[{`_id`:`a`}]}'')) 1)"
proof -
  let ?c = "localhost (response 201 bulk_body)"
  let ?docs = "Some [Some [(''_id'', AString ''a'')]]"
  let ?res = "(Inr [\<lparr>bdi_ID = ''a'', bdi_OK = True, bdi_Rev = ''1-x''\<rparr>],
        after_request ''POST'' ''http://localhost:5984/db/_bulk_docs''
          (Some (dq ''{`docs`:[{`_id`:`a`}]}'')) 1)"
  have i: "BulkInsert ?c ''db'' ?docs [] w0 = ?res"
    by code_simp
  note t = BulkInsert_BulkUpdate_same [of ?c "''db''" ?docs "[]" w0]
  have u: "BulkUpdate ?c ''db'' ?docs [] w0 = ?res"
    using t i by (simp add: prod_eq_iff)
  show ?thesis
    using t i u by simp
qed

lemma GetUser_world:
  "new_requests w (snd (GetUser c name opts w))
     = new_requests w (snd (doRequest c ''GET''
         (''/_users/'' @ PathEscape (''org.couchdb.user:'' @ name)) None opts w))"
  by (simp add: GetUser_def Let_def defer_Close_def split: prod.splits sum.splits)

lemma UpdateUser_world:
  assumes "Marshal_User
       \<lparr>user_ID = ''org.couchdb.user:'' @ name, user_Rev = revision, user_Name = name,
        user_Type = ''user'',
        user_Roles = Some (case roles of None \<Rightarrow> [] | Some rs \<Rightarrow> rs),
        user_Password = (case password of None \<Rightarrow> [] | Some p \<Rightarrow> p),
        user_Salt = [], user_DerivedKey = [], user_Iterations = 0,
        user_PasswordScheme = []\<rparr> = Inr data"
  shows "new_requests w (snd (UpdateUser c name revision password roles opts w))
      = new_requests w (snd (doRequest c ''PUT''
          (''/_users/'' @ PathEscape (''org.couchdb.user:'' @ name)) (Some data) opts w))"
  using assms
  by (cases roles; cases password)
    (simp_all add: UpdateUser_def Let_def defer_Close_def split: prod.splits sum.splits)

lemma UpdateRoles_world:
  assumes "GetUser c name opts w = (Inr currentUser, wa)"
    and "Marshal_User
       \<lparr>user_ID = ''org.couchdb.user:'' @ name, user_Rev = revision, user_Name = name,
        user_Type = ''user'',
        user_Roles = Some (case roles of None \<Rightarrow> [] | Some rs \<Rightarrow> rs),
        user_Password = [],
        user_Salt = user_Salt currentUser,
        user_DerivedKey = user_DerivedKey currentUser,
        user_Iterations = user_Iterations currentUser,
        user_PasswordScheme = user_PasswordScheme currentUser\<rparr> = Inr data"
  shows "new_requests wa (snd (UpdateRoles c name revision roles opts w))
      = new_requests wa (snd (doRequest c ''PUT''
          (''/_users/'' @ PathEscape (''org.couchdb.user:'' @ name)) (Some data) opts wa))"
  using assms
  by (cases roles)
    (simp_all add: UpdateRoles_def Let_def defer_Close_def split: prod.splits sum.splits)

lemma UpdateUser_requests:
  assumes "opts = [] \<or> package_authenticator (last opts)"
  shows "list_all (\<lambda>req. Method req = ''PUT''
            \<and> URL req = baseURL c @ ''/_users/'' @ PathEscape (''org.couchdb.user:'' @ name)
            \<and> map_option Inr (Body req) = Some (Marshal_User
                 \<lparr>user_ID = ''org.couchdb.user:'' @ name, user_Rev = revision, user_Name = name,
                  user_Type = ''user'',
                  user_Roles = Some (case roles of None \<Rightarrow> [] | Some rs \<Rightarrow> rs),
                  user_Password = (case password of None \<Rightarrow> [] | Some p \<Rightarrow> p),
                  user_Salt = [], user_DerivedKey = [], user_Iterations = 0,
                  user_PasswordScheme = []\<rparr>))
          (new_requests w (snd (UpdateUser c name revision password roles opts w)))"
proof -
  let ?u = "\<lparr>user_ID = ''org.couchdb.user:'' @ name, user_Rev = revision, user_Name = name,
              user_Type = ''user'',
              user_Roles = Some (case roles of None \<Rightarrow> [] | Some rs \<Rightarrow> rs),
              user_Password = (case password of None \<Rightarrow> [] | Some p \<Rightarrow> p),
              user_Salt = [], user_DerivedKey = [], user_Iterations = 0,
              user_PasswordScheme = []\<rparr>"
  obtain data where d: "Marshal_User ?u = Inr data"
    by (simp add: Marshal_User_def)
  show ?thesis
    using doRequest_new_requests [OF assms, of "''PUT''" c
        "''/_users/'' @ PathEscape (''org.couchdb.user:'' @ name)" "Some data" w] d
    by (simp add: UpdateUser_world [OF d] list_all_iff)
qed

lemma UpdateRoles_requests:
  assumes "GetUser c name opts w = (Inr currentUser, wa)"
    and "opts = [] \<or> package_authenticator (last opts)"
  shows "list_all (\<lambda>req. Method req = ''PUT''
            \<and> URL req = baseURL c @ ''/_users/'' @ PathEscape (''org.couchdb.user:'' @ name)
            \<and> map_option Inr (Body req) = Some (Marshal_User
                 \<lparr>user_ID = ''org.couchdb.user:'' @ name, user_Rev = revision, user_Name = name,
                  user_Type = ''user'',
                  user_Roles = Some (case roles of None \<Rightarrow> [] | Some rs \<Rightarrow> rs),
                  user_Password = [],
                  user_Salt = user_Salt currentUser,
                  user_DerivedKey = user_DerivedKey currentUser,
                  user_Iterations = user_Iterations currentUser,
                  user_PasswordScheme = user_PasswordScheme currentUser\<rparr>))
          (new_requests wa (snd (UpdateRoles c name revision roles opts w)))"
proof -
  let ?u = "\<lparr>user_ID = ''org.couchdb.user:'' @ name, user_Rev = revision, user_Name = name,
              user_Type = ''user'',
              user_Roles = Some (case roles of None \<Rightarrow> [] | Some rs \<Rightarrow> rs),
              user_Password = [],
              user_Salt = user_Salt currentUser,
              user_DerivedKey = user_DerivedKey currentUser,
              user_Iterations = user_Iterations currentUser,
              user_PasswordScheme = user_PasswordScheme currentUser\<rparr>"
  obtain data where d: "Marshal_User ?u = Inr data"
    by (simp add: Marshal_User_def)
  show ?thesis
    using doRequest_new_requests [OF assms(2), of "''PUT''" c
        "''/_users/'' @ PathEscape (''org.couchdb.user:'' @ name)" "Some data" wa] d
    by (simp add: UpdateRoles_world [OF assms(1) d] list_all_iff)
qed

text \<open>
  C8. Both operations begin with \<^verbatim>\<open>GetUser\<close> (a GET of the user's document) and do
  nothing else when it fails. When it gives the current user, every request that
  \<^verbatim>\<open>UpdateRoles\<close> then hands to the transport is a PUT of a user document with the new
  roles and the fetched salt, derived key, iteration count and password scheme; and every
  request that \<^verbatim>\<open>UpdatePassword\<close> then hands over is a PUT of a user document with the new
  password and the fetched roles (a nil list written as an empty one).
\<close>

theorem UpdateRoles_UpdatePassword_preserve:
  "(opts = [] \<or> package_authenticator (last opts) \<longrightarrow>
      list_all (\<lambda>req. Method req = ''GET''
                  \<and> URL req = baseURL c @ ''/_users/'' @ PathEscape (''org.couchdb.user:'' @ name)
                  \<and> Body req = None)
        (new_requests w (snd (GetUser c name opts w))))
   \<and> (GetUser c name opts w = (Inl err, wa) \<longrightarrow>
      UpdateRoles c name revision roles opts w = (Inl (Wrapf ''failed to get user'' err), wa)
      \<and> UpdatePassword c name revision newPassword opts w
          = (Inl (Wrapf ''failed to get user'' err), wa))
   \<and> (GetUser c name opts w = (Inr currentUser, wa)
       \<and> (opts = [] \<or> package_authenticator (last opts)) \<longrightarrow>
      list_all (\<lambda>req. Method req = ''PUT''
            \<and> URL req = baseURL c @ ''/_users/'' @ PathEscape (''org.couchdb.user:'' @ name)
            \<and> map_option Inr (Body req) = Some (Marshal_User
                 \<lparr>user_ID = ''org.couchdb.user:'' @ name, user_Rev = revision, user_Name = name,
                  user_Type = ''user'',
                  user_Roles = Some (case roles of None \<Rightarrow> [] | Some rs \<Rightarrow> rs),
                  user_Password = [],
                  user_Salt = user_Salt currentUser,
                  user_DerivedKey = user_DerivedKey currentUser,
                  user_Iterations = user_Iterations currentUser,
                  user_PasswordScheme = user_PasswordScheme currentUser\<rparr>))
        (new_requests wa (snd (UpdateRoles c name revision roles opts w)))
      \<and> list_all (\<lambda>req. Method req = ''PUT''
            \<and> URL req = baseURL c @ ''/_users/'' @ PathEscape (''org.couchdb.user:'' @ name)
            \<and> map_option Inr (Body req) = Some (Marshal_User
                 \<lparr>user_ID = ''org.couchdb.user:'' @ name, user_Rev = revision, user_Name = name,
                  user_Type = ''user'',
                  user_Roles = Some (case user_Roles currentUser of None \<Rightarrow> [] | Some rs \<Rightarrow> rs),
                  user_Password = newPassword,
                  user_Salt = [], user_DerivedKey = [], user_Iterations = 0,
                  user_PasswordScheme = []\<rparr>))
        (new_requests wa (snd (UpdatePassword c name revision newPassword opts w))))"
proof -
  have 1: "opts = [] \<or> package_authenticator (last opts) \<Longrightarrow>
      list_all (\<lambda>req. Method req = ''GET''
                  \<and> URL req = baseURL c @ ''/_users/'' @ PathEscape (''org.couchdb.user:'' @ name)
                  \<and> Body req = None)
        (new_requests w (snd (GetUser c name opts w)))"
    using doRequest_new_requests [of opts "''GET''" c
        "''/_users/'' @ PathEscape (''org.couchdb.user:'' @ name)" None w]
    by (simp add: GetUser_world list_all_iff)
  have 2: "GetUser c name opts w = (Inl err, wa) \<Longrightarrow>
      UpdateRoles c name revision roles opts w = (Inl (Wrapf ''failed to get user'' err), wa)
      \<and> UpdatePassword c name revision newPassword opts w
          = (Inl (Wrapf ''failed to get user'' err), wa)"
    by (simp add: UpdateRoles_def UpdatePassword_def)
  show ?thesis
    using 1 2 UpdateRoles_requests [of c name opts w currentUser wa revision roles]
      UpdateUser_requests [where opts = opts and c = c and name = name and revision = revision
        and password = "Some newPassword" and roles = "user_Roles currentUser" and w = wa]
    by (simp add: UpdatePassword_UpdateUser)
qed

theorem UpdateRoles_UpdatePassword_preserve_witness:
  "(([] :: RequestOption list) = [] \<or> package_authenticator (last []))
   \<and> GetUser (localhost (response 404 not_found_body)) ''john'' [] w0
     = (Inl (Errorf ''user not found: john''),
        after_request ''GET'' ''http://localhost:5984/_users/org.couchdb.user:john'' None 1)
   \<and> UpdateRoles (localhost (response 404 not_found_body)) ''john'' ''1-a'' (Some [''admin'']) [] w0
     = (Inl (Wrapf ''failed to get user'' (Errorf ''user not found: john'')),
        after_request ''GET'' ''http://localhost:5984/_users/org.couchdb.user:john'' None 1)
   \<and> UpdatePassword (localhost (response 404 not_found_body)) ''john'' ''1-a'' ''newpw'' [] w0
     = (Inl (Wrapf ''failed to get user'' (Errorf ''user not found: john'')),
        after_request ''GET'' ''http://localhost:5984/_users/org.couchdb.user:john'' None 1)
   \<and> GetUser user_server ''john'' [] w0
     = (Inr fetched_user,
        after_request ''GET'' ''http://localhost:5984/_users/org.couchdb.user:john'' None 1)
   \<and> list_all (\<lambda>req. Method req = ''PUT''
            \<and> URL req = ''http://localhost:5984/_users/org.couchdb.user:john''
            \<and> Body req = Some (dq (''{`_id`:`org.couchdb.user:john`,`_rev`:`1-a`,`name`:`john`,''
                 @ ''`type`:`user`,`roles`:[`admin`],`salt`:`s4lt`,`derived_key`:`d3r1`,''
                 @ ''`iterations`:10,`password_scheme`:`pbkdf2`}'')))
        (new_requests (after_request ''GET'' ''http://localhost:5984/_users/org.couchdb.user:john'' None 1)
           (snd (UpdateRoles user_server ''john'' ''1-a'' (Some [''admin'']) [] w0)))
   \<and> list_all (\<lambda>req. Method req = ''PUT''
            \<and> URL req = ''http://localhost:5984/_users/org.couchdb.user:john''
            \<and> Body req = Some (dq (''{`_id`:`org.couchdb.user:john`,`_rev`:`1-a`,`name`:`john`,''
                 @ ''`type`:`user`,`roles`:[`reader`],`password`:`newpw`}'')))
        (new_requests (after_request ''GET'' ''http://localhost:5984/_users/org.couchdb.user:john'' None 1)
           (snd (UpdatePassword user_server ''john'' ''1-a'' ''newpw'' [] w0)))
   \<and> length (new_requests (after_request ''GET'' ''http://localhost:5984/_users/org.couchdb.user:john'' None 1)
           (snd (UpdateRoles user_server ''john'' ''1-a'' (Some [''admin'']) [] w0))) = 1
   \<and> length (new_requests (after_request ''GET'' ''http://localhost:5984/_users/org.couchdb.user:john'' None 1)
           (snd (UpdatePassword user_server ''john'' ''1-a'' ''newpw'' [] w0))) = 1"
proof -
  let ?n = "localhost (response 404 not_found_body)"
  let ?wa = "after_request ''GET'' ''http://localhost:5984/_users/org.couchdb.user:john'' None 1"
  let ?roles_doc = "dq (''{`_id`:`org.couchdb.user:john`,`_rev`:`1-a`,`name`:`john`,''
                 @ ''`type`:`user`,`roles`:[`admin`],`salt`:`s4lt`,`derived_key`:`d3r1`,''
                 @ ''`iterations`:10,`password_scheme`:`pbkdf2`}'')"
  let ?password_doc = "dq (''{`_id`:`org.couchdb.user:john`,`_rev`:`1-a`,`name`:`john`,''
                 @ ''`type`:`user`,`roles`:[`reader`],`password`:`newpw`}'')"
  have n: "GetUser ?n ''john'' [] w0 = (Inl (Errorf ''user not found: john''), ?wa)"
    by code_simp
  have dg: "doRequest user_server ''GET''
              (''/_users/'' @ PathEscape (''org.couchdb.user:'' @ ''john'')) None [] w0
              = (Inr (response 200 user_body),
                 after_request ''GET'' ''http://localhost:5984/_users/org.couchdb.user:john'' None 0)"
    by code_simp
  have g: "GetUser user_server ''john'' [] w0 = (Inr fetched_user, ?wa)"
    using GetUser_ok [OF dg _ _ Unmarshal_User_user_body]
    by (simp add: response_def ReadAll_def after_request_def)
  have b: "baseURL user_server = ''http://localhost:5984''"
    "PathEscape (''org.couchdb.user:'' @ ''john'') = ''org.couchdb.user:john''"
    by code_simp+
  have m1: "Marshal_User
       \<lparr>user_ID = ''org.couchdb.user:'' @ ''john'', user_Rev = ''1-a'', user_Name = ''john'',
        user_Type = ''user'',
        user_Roles = Some (case Some [''admin''] of None \<Rightarrow> [] | Some rs \<Rightarrow> rs),
        user_Password = [],
        user_Salt = user_Salt fetched_user,
        user_DerivedKey = user_DerivedKey fetched_user,
        user_Iterations = user_Iterations fetched_user,
        user_PasswordScheme = user_PasswordScheme fetched_user\<rparr> = Inr ?roles_doc"
    by code_simp
  have m2: "Marshal_User
       \<lparr>user_ID = ''org.couchdb.user:'' @ ''john'', user_Rev = ''1-a'', user_Name = ''john'',
        user_Type = ''user'',
        user_Roles = Some (case user_Roles fetched_user of None \<Rightarrow> [] | Some rs \<Rightarrow> rs),
        user_Password = (case Some ''newpw'' of None \<Rightarrow> [] | Some p \<Rightarrow> p),
        user_Salt = [], user_DerivedKey = [], user_Iterations = 0,
        user_PasswordScheme = []\<rparr> = Inr ?password_doc"
    by code_simp
  have e1: "length (new_requests ?wa (snd (doRequest user_server ''PUT''
          (''/_users/'' @ PathEscape (''org.couchdb.user:'' @ ''john'')) (Some ?roles_doc) [] ?wa))) = 1"
    by code_simp
  have e2: "length (new_requests ?wa (snd (doRequest user_server ''PUT''
          (''/_users/'' @ PathEscape (''org.couchdb.user:'' @ ''john'')) (Some ?password_doc) [] ?wa))) = 1"
    by code_simp
  have l: "length (new_requests ?wa
             (snd (UpdateRoles user_server ''john'' ''1-a'' (Some [''admin'']) [] w0))) = 1"
    "length (new_requests ?wa (snd (UpdatePassword user_server ''john'' ''1-a'' ''newpw'' [] w0))) = 1"
    using e1 e2
    by (simp_all only: UpdateRoles_world [OF g m1] UpdatePassword_UpdateUser [OF g]
        UpdateUser_world [OF m2])
  note t = UpdateRoles_UpdatePassword_preserve
  have f: "UpdateRoles ?n ''john'' ''1-a'' (Some [''admin'']) [] w0
      = (Inl (Wrapf ''failed to get user'' (Errorf ''user not found: john'')), ?wa)"
    "UpdatePassword ?n ''john'' ''1-a'' ''newpw'' [] w0
      = (Inl (Wrapf ''failed to get user'' (Errorf ''user not found: john'')), ?wa)"
    using t [where c = ?n and name = "''john''" and opts = "[]" and w = w0 and wa = ?wa
        and err = "Errorf ''user not found: john''" and revision = "''1-a''"
        and roles = "Some [''admin'']" and newPassword = "''newpw''"] n
    by simp_all
  have m2': "Marshal_User
       \<lparr>user_ID = ''org.couchdb.user:'' @ ''john'', user_Rev = ''1-a'', user_Name = ''john'',
        user_Type = ''user'',
        user_Roles = Some (case user_Roles fetched_user of None \<Rightarrow> [] | Some rs \<Rightarrow> rs),
        user_Password = ''newpw'',
        user_Salt = [], user_DerivedKey = [], user_Iterations = 0,
        user_PasswordScheme = []\<rparr> = Inr ?password_doc"
    using m2 by simp
  have p: "list_all (\<lambda>req. Method req = ''PUT''
            \<and> URL req = ''http://localhost:5984/_users/org.couchdb.user:john''
            \<and> Body req = Some ?roles_doc)
        (new_requests ?wa (snd (UpdateRoles user_server ''john'' ''1-a'' (Some [''admin'']) [] w0)))"
    "list_all (\<lambda>req. Method req = ''PUT''
            \<and> URL req = ''http://localhost:5984/_users/org.couchdb.user:john''
            \<and> Body req = Some ?password_doc)
        (new_requests ?wa (snd (UpdatePassword user_server ''john'' ''1-a'' ''newpw'' [] w0)))"
    using t [where c = user_server and name = "''john''" and opts = "[]" and w = w0 and wa = ?wa
        and currentUser = fetched_user and revision = "''1-a''"
        and roles = "Some [''admin'']" and newPassword = "''newpw''"] g
    unfolding m1 m2' b
    by (simp_all add: list_all_iff)
  show ?thesis
    using n g f p l by simp
qed

text \<open>
  C1. A call of \<^verbatim>\<open>AllDocs\<close> with a key list, answered with status 200 and a well-formed
  body: the POST with the keys in its body is handed to the transport, the body of the
  response is closed, and the call panics before the body is read, since the \<^verbatim>\<open>resp\<close> that
  the rest of the function reads is not the one that the branch assigned.
\<close>

theorem AllDocs_keys_panics:
  "AllDocs (localhost (response 200 all_docs_body)) ''db''
       (Some (AllDocsOptions_zero\<lparr>ado_Keys := [''a'']\<rparr>)) [] w0
     = (Panics ''runtime error: invalid memory address or nil pointer dereference'',
        after_request ''POST'' ''http://localhost:5984/db/_all_docs'' (Some (dq ''{`keys`:[`a`]}'')) 1)"
  by code_simp

text \<open>With any key list that is not empty, \<^verbatim>\<open>AllDocs\<close> returns the error of
  \<^verbatim>\<open>doRequest\<close> as it is, or panics: it never returns a response.\<close>

lemma AllDocs_keys_never_returns:
  assumes "ado_Keys opt \<noteq> []"
  shows "AllDocs c dbName (Some opt) opts w =
           (case doRequest c ''POST''
                   (with_query (''/'' @ PathEscape dbName @ ''/_all_docs'') (AllDocs_keys_query opt))
                   (Some (''{'' @ appendString ''keys'' @ '':'' @ ''[''
                          @ Join (map appendString (ado_Keys opt)) '','' @ '']'' @ ''}''))
                   opts w of
              (Inl err, wa) \<Rightarrow> (Returns (Inl err), wa)
            | (Inr resp, wa) \<Rightarrow>
                (Panics ''runtime error: invalid memory address or nil pointer dereference'',
                 wa\<lparr>closed := Suc (closed wa)\<rparr>))"
proof -
  have s: "sequence (map (encode_any \<circ> AString) ks) = Some (map appendString ks)" for ks
    by (induction ks) simp_all
  have "json_Marshal (AMap [(''keys'', ASlice (map AString (ado_Keys opt)))])
      = Inr (''{'' @ appendString ''keys'' @ '':'' @ ''[''
             @ Join (map appendString (ado_Keys opt)) '','' @ '']'' @ ''}'')"
    by (simp add: json_Marshal_def s)
  then show ?thesis
    using assms
    by (simp add: AllDocs_def AllDocs_rest_def Let_def defer_Close_def
        split: prod.splits sum.splits)
qed

section \<open>Keys in the query string\<close>

lemma map_of_set_if:
  "map_of (set_if b k v q) k' = (if b \<and> k = k' then Some [v] else map_of q k')"
  by (simp add: set_if_def Values_Set_def update_conv')

lemma AllDocs_query_keys:
  "ado_Key opt \<noteq> [] \<Longrightarrow> map_of (AllDocs_query opt) ''key'' = Some [quoted (ado_Key opt)]"
  "ado_StartKey opt \<noteq> [] \<Longrightarrow> map_of (AllDocs_query opt) ''startkey'' = Some [quoted (ado_StartKey opt)]"
  "ado_EndKey opt \<noteq> [] \<Longrightarrow> map_of (AllDocs_query opt) ''endkey'' = Some [quoted (ado_EndKey opt)]"
  by (simp_all add: AllDocs_query_def map_of_set_if)

lemma QueryView_query_keys:
  "vo_Key opt \<noteq> ANil \<Longrightarrow> map_of (QueryView_query opt) ''key'' = Some [key_json (vo_Key opt)]"
  "vo_StartKey opt \<noteq> ANil \<Longrightarrow> map_of (QueryView_query opt) ''startkey'' = Some [key_json (vo_StartKey opt)]"
  "vo_EndKey opt \<noteq> ANil \<Longrightarrow> map_of (QueryView_query opt) ''endkey'' = Some [key_json (vo_EndKey opt)]"
  by (simp_all add: QueryView_query_def map_of_set_if Values_Set_def update_conv'
      split: option.splits)

lemma unquote_plain:
  "list_all json_plain s \<Longrightarrow> length s < n \<Longrightarrow> unquote n (s @ CHR 0x22 # rest) = Some (s, rest)"
proof (induction s arbitrary: n)
  case Nil
  then obtain m where "n = Suc m" by (cases n) auto
  then show ?case by simp
next
  case (Cons c cs)
  then obtain m where n: "n = Suc m" by (cases n) auto
  have c: "c \<noteq> CHR 0x22" "c \<noteq> CHR 0x5C" "\<not> (of_char c :: nat) < 32" "(of_char c :: nat) < 128"
    using Cons.prems(1) by (auto simp: json_plain_def)
  have "unquote m (cs @ CHR 0x22 # rest) = Some (cs, rest)"
    using Cons n by simp
  then show ?case
    using c n by (simp add: prepend_def)
qed

lemma Unmarshal_string_quoted:
  assumes "list_all json_plain s"
  shows "Unmarshal_string (quoted s) = Some s"
proof -
  have f: "2 * length (quoted s) + 2 = Suc (2 * length (quoted s) + 1)"
    by simp
  have u: "unquote (length (s @ [CHR 0x22])) (s @ CHR 0x22 # []) = Some (s, [])"
    using unquote_plain [OF assms, of "length (s @ [CHR 0x22])" "[]"] by simp
  have "parse_value (2 * length (quoted s) + 2) 0 (quoted s) = Some (JString s, [])"
    unfolding f using u
    by (simp add: quoted_def skip_ws_def is_space_def)
  then show ?thesis
    by (simp add: Unmarshal_string_def json_parse_def skip_ws_def dec_string_def)
qed

lemma appendString_loop_safe:
  "list_all htmlSafe s \<Longrightarrow> length s \<le> n \<Longrightarrow> appendString_loop n s = s"
proof (induction s arbitrary: n)
  case Nil
  then show ?case by (cases n) simp_all
next
  case (Cons c cs)
  then obtain m where n: "n = Suc m" by (cases n) auto
  have "(of_char c :: nat) < 128" "htmlSafe c"
    using Cons.prems(1) by (auto simp: htmlSafe_def)
  then show ?case
    using Cons n by simp
qed

lemma appendString_safe: "list_all htmlSafe s \<Longrightarrow> appendString s = quoted s"
  by (simp add: appendString_def quoted_def appendString_loop_safe)

lemma key_json_simps:
  "key_json (AString s) = appendString s"
  "key_json (AInt i) = Itoa i"
  "sequence (map encode_any xs) = Some es \<Longrightarrow> key_json (ASlice xs) = ''['' @ Join es '','' @ '']''"
  by (simp_all add: key_json_def json_Marshal_def)

lemma AllDocs_get_world:
  assumes "ado_Keys opt = []"
  shows "new_requests w (snd (AllDocs c dbName (Some opt) opts w))
     = new_requests w (snd (doRequest c ''GET''
         (with_query (''/'' @ PathEscape dbName @ ''/_all_docs'') (AllDocs_query opt)) None opts w))"
  using assms
  by (simp add: AllDocs_def AllDocs_rest_def Let_def defer_Close_def split: prod.splits sum.splits)

lemma QueryView_world:
  "new_requests w (snd (QueryView c dbName ddoc viewName options opts w))
     = new_requests w (snd (doRequest c ''GET'' (QueryView_path dbName ddoc viewName options)
         None opts w))"
  by (simp add: QueryView_def Let_def defer_Close_def split: prod.splits sum.splits)

text \<open>
  Where the keys of a query are sent as JSON. In \<^verbatim>\<open>AllDocs\<close> (with
  no key list) a \<^verbatim>\<open>Key\<close>, \<^verbatim>\<open>StartKey\<close> or \<^verbatim>\<open>EndKey\<close> that is not empty becomes the
  parameter \<open>quoted s\<close>, and when it consists of bytes that a JSON string holds as they
  are, that parameter decodes as a JSON string to \<open>s\<close>. In \<^verbatim>\<open>QueryView\<close> a key that is
  not nil becomes the parameter \<open>key_json k\<close>, the text that \<^verbatim>\<open>json.Marshal\<close> gives: for a
  string its JSON encoding, which is \<open>quoted s\<close> when no byte of \<open>s\<close> needs an escape; for
  an integer its digits with no quotes (5 gives 5); for a slice of values that encode,
  their encodings between brackets. Both operations send a GET to the path followed by
  \<^verbatim>\<open>?\<close> and the query as \<^verbatim>\<open>url.Values.Encode\<close> writes it.
\<close>

theorem plain_keys_json_encoded:
  "(list_all json_plain s \<longrightarrow> Unmarshal_string (quoted s) = Some s)
   \<and> (list_all htmlSafe s \<longrightarrow> appendString s = quoted s)
   \<and> (ado_Key opt \<noteq> [] \<and> list_all json_plain (ado_Key opt) \<longrightarrow>
        map_of (AllDocs_query opt) ''key'' = Some [quoted (ado_Key opt)])
   \<and> (ado_StartKey opt \<noteq> [] \<and> list_all json_plain (ado_StartKey opt) \<longrightarrow>
        map_of (AllDocs_query opt) ''startkey'' = Some [quoted (ado_StartKey opt)])
   \<and> (ado_EndKey opt \<noteq> [] \<and> list_all json_plain (ado_EndKey opt) \<longrightarrow>
        map_of (AllDocs_query opt) ''endkey'' = Some [quoted (ado_EndKey opt)])
   \<and> (ado_Keys opt = [] \<and> (opts = [] \<or> package_authenticator (last opts)) \<longrightarrow>
        list_all (\<lambda>req. Method req = ''GET''
                    \<and> URL req = baseURL c @ with_query (''/'' @ PathEscape dbName @ ''/_all_docs'')
                                              (AllDocs_query opt))
          (new_requests w (snd (AllDocs c dbName (Some opt) opts w))))
   \<and> (vo_Key vopt \<noteq> ANil \<longrightarrow> map_of (QueryView_query vopt) ''key'' = Some [key_json (vo_Key vopt)])
   \<and> (vo_StartKey vopt \<noteq> ANil \<longrightarrow>
        map_of (QueryView_query vopt) ''startkey'' = Some [key_json (vo_StartKey vopt)])
   \<and> (vo_EndKey vopt \<noteq> ANil \<longrightarrow>
        map_of (QueryView_query vopt) ''endkey'' = Some [key_json (vo_EndKey vopt)])
   \<and> key_json (AString s) = appendString s
   \<and> key_json (AInt i) = Itoa i
   \<and> key_json (AInt 5) = ''5''
   \<and> (sequence (map encode_any xs) = Some es \<longrightarrow>
        key_json (ASlice xs) = ''['' @ Join es '','' @ '']'')
   \<and> (opts = [] \<or> package_authenticator (last opts) \<longrightarrow>
        list_all (\<lambda>req. Method req = ''GET''
                    \<and> URL req = baseURL c @ with_query (''/'' @ PathEscape dbName @ ''/_design/''
                                   @ PathEscape ddoc @ ''/_view/'' @ PathEscape viewName)
                                   (QueryView_query vopt))
          (new_requests w (snd (QueryView c dbName ddoc viewName (Some vopt) opts w))))"
proof -
  have 5: "key_json (AInt 5) = ''5''"
    by code_simp
  have a: "ado_Keys opt = [] \<Longrightarrow> opts = [] \<or> package_authenticator (last opts) \<Longrightarrow>
        list_all (\<lambda>req. Method req = ''GET''
                    \<and> URL req = baseURL c @ with_query (''/'' @ PathEscape dbName @ ''/_all_docs'')
                                              (AllDocs_query opt))
          (new_requests w (snd (AllDocs c dbName (Some opt) opts w)))"
    using doRequest_new_requests [of opts "''GET''" c
        "with_query (''/'' @ PathEscape dbName @ ''/_all_docs'') (AllDocs_query opt)" None w]
    by (simp add: AllDocs_get_world list_all_iff)
  have v: "opts = [] \<or> package_authenticator (last opts) \<Longrightarrow>
        list_all (\<lambda>req. Method req = ''GET''
                    \<and> URL req = baseURL c @ with_query (''/'' @ PathEscape dbName @ ''/_design/''
                                   @ PathEscape ddoc @ ''/_view/'' @ PathEscape viewName)
                                   (QueryView_query vopt))
          (new_requests w (snd (QueryView c dbName ddoc viewName (Some vopt) opts w)))"
    using doRequest_new_requests [of opts "''GET''" c
        "QueryView_path dbName ddoc viewName (Some vopt)" None w]
    by (simp add: QueryView_world QueryView_path_def list_all_iff)
  show ?thesis
    using 5 a v
    by (simp add: Unmarshal_string_quoted appendString_safe AllDocs_query_keys
        QueryView_query_keys key_json_simps)
qed

theorem plain_keys_json_encoded_example:
  "list_all json_plain ''abc'' \<and> Unmarshal_string (quoted ''abc'') = Some ''abc''
   \<and> list_all htmlSafe ''abc'' \<and> appendString ''abc'' = quoted ''abc''
   \<and> ado_Key (AllDocsOptions_zero\<lparr>ado_EndKey := ''b'', ado_Key := ''abc'', ado_StartKey := ''a''\<rparr>) \<noteq> []
   \<and> list_all json_plain
        (ado_Key (AllDocsOptions_zero\<lparr>ado_EndKey := ''b'', ado_Key := ''abc'', ado_StartKey := ''a''\<rparr>))
   \<and> map_of (AllDocs_query
        (AllDocsOptions_zero\<lparr>ado_EndKey := ''b'', ado_Key := ''abc'', ado_StartKey := ''a''\<rparr>)) ''key''
       = Some [quoted ''abc'']
   \<and> ado_StartKey (AllDocsOptions_zero\<lparr>ado_EndKey := ''b'', ado_Key := ''abc'', ado_StartKey := ''a''\<rparr>) \<noteq> []
   \<and> list_all json_plain
        (ado_StartKey (AllDocsOptions_zero\<lparr>ado_EndKey := ''b'', ado_Key := ''abc'', ado_StartKey := ''a''\<rparr>))
   \<and> map_of (AllDocs_query
        (AllDocsOptions_zero\<lparr>ado_EndKey := ''b'', ado_Key := ''abc'', ado_StartKey := ''a''\<rparr>)) ''startkey''
       = Some [quoted ''a'']
   \<and> ado_EndKey (AllDocsOptions_zero\<lparr>ado_EndKey := ''b'', ado_Key := ''abc'', ado_StartKey := ''a''\<rparr>) \<noteq> []
   \<and> list_all json_plain
        (ado_EndKey (AllDocsOptions_zero\<lparr>ado_EndKey := ''b'', ado_Key := ''abc'', ado_StartKey := ''a''\<rparr>))
   \<and> map_of (AllDocs_query
        (AllDocsOptions_zero\<lparr>ado_EndKey := ''b'', ado_Key := ''abc'', ado_StartKey := ''a''\<rparr>)) ''endkey''
       = Some [quoted ''b'']
   \<and> ado_Keys (AllDocsOptions_zero\<lparr>ado_EndKey := ''b'', ado_Key := ''abc'', ado_StartKey := ''a''\<rparr>) = []
   \<and> (([] :: RequestOption list) = [] \<or> package_authenticator (last []))
   \<and> list_all (\<lambda>req. Method req = ''GET''
         \<and> URL req = ''http://localhost:5984/db/_all_docs?endkey=%22b%22&key=%22abc%22&startkey=%22a%22'')
        (new_requests w0 (snd (AllDocs (localhost (response 200 all_docs_body)) ''db''
           (Some (AllDocsOptions_zero\<lparr>ado_EndKey := ''b'', ado_Key := ''abc'', ado_StartKey := ''a''\<rparr>))
           [] w0)))
   \<and> length (new_requests w0 (snd (AllDocs (localhost (response 200 all_docs_body)) ''db''
           (Some (AllDocsOptions_zero\<lparr>ado_EndKey := ''b'', ado_Key := ''abc'', ado_StartKey := ''a''\<rparr>))
           [] w0))) = 1
   \<and> vo_Key (ViewOptions_zero\<lparr>vo_EndKey := ASlice [AInt 1, AString ''x''], vo_Key := AInt 5,
                vo_StartKey := AString ''abc''\<rparr>) \<noteq> ANil
   \<and> map_of (QueryView_query (ViewOptions_zero\<lparr>vo_EndKey := ASlice [AInt 1, AString ''x''],
                vo_Key := AInt 5, vo_StartKey := AString ''abc''\<rparr>)) ''key'' = Some [''5'']
   \<and> vo_StartKey (ViewOptions_zero\<lparr>vo_EndKey := ASlice [AInt 1, AString ''x''], vo_Key := AInt 5,
                vo_StartKey := AString ''abc''\<rparr>) \<noteq> ANil
   \<and> map_of (QueryView_query (ViewOptions_zero\<lparr>vo_EndKey := ASlice [AInt 1, AString ''x''],
                vo_Key := AInt 5, vo_StartKey := AString ''abc''\<rparr>)) ''startkey''
       = Some [quoted ''abc'']
   \<and> vo_EndKey (ViewOptions_zero\<lparr>vo_EndKey := ASlice [AInt 1, AString ''x''], vo_Key := AInt 5,
                vo_StartKey := AString ''abc''\<rparr>) \<noteq> ANil
   \<and> map_of (QueryView_query (ViewOptions_zero\<lparr>vo_EndKey := ASlice [AInt 1, AString ''x''],
                vo_Key := AInt 5, vo_StartKey := AString ''abc''\<rparr>)) ''endkey''
       = Some [dq ''[1,`x`]'']
   \<and> sequence (map encode_any [AInt 1, AString ''x'']) = Some [''1'', quoted ''x'']
   \<and> list_all (\<lambda>req. Method req = ''GET''
         \<and> URL req = ''http://localhost:5984/db/_design/dd/_view/v?endkey=%5B1%2C%22x%22%5D&key=5&startkey=%22abc%22'')
        (new_requests w0 (snd (QueryView (localhost (response 200 all_docs_body)) ''db'' ''dd'' ''v''
           (Some (ViewOptions_zero\<lparr>vo_EndKey := ASlice [AInt 1, AString ''x''], vo_Key := AInt 5,
                vo_StartKey := AString ''abc''\<rparr>)) [] w0)))
   \<and> length (new_requests w0 (snd (QueryView (localhost (response 200 all_docs_body)) ''db'' ''dd'' ''v''
           (Some (ViewOptions_zero\<lparr>vo_EndKey := ASlice [AInt 1, AString ''x''], vo_Key := AInt 5,
                vo_StartKey := AString ''abc''\<rparr>)) [] w0))) = 1"
proof -
  let ?opt = "AllDocsOptions_zero\<lparr>ado_EndKey := ''b'', ado_Key := ''abc'', ado_StartKey := ''a''\<rparr>"
  let ?vopt = "ViewOptions_zero\<lparr>vo_EndKey := ASlice [AInt 1, AString ''x''], vo_Key := AInt 5,
                vo_StartKey := AString ''abc''\<rparr>"
  let ?c = "localhost (response 200 all_docs_body)"
  let ?p = "''/db/_all_docs?endkey=%22b%22&key=%22abc%22&startkey=%22a%22''"
  let ?q = "''/db/_design/dd/_view/v?endkey=%5B1%2C%22x%22%5D&key=5&startkey=%22abc%22''"
  have h: "list_all json_plain ''abc''" "list_all htmlSafe ''abc''"
    "list_all json_plain ''a''" "list_all json_plain ''b''" "list_all htmlSafe ''x''"
    by code_simp+
  have o: "ado_Key ?opt = ''abc''" "ado_StartKey ?opt = ''a''" "ado_EndKey ?opt = ''b''"
    "ado_Keys ?opt = []"
    by (simp_all add: AllDocsOptions_zero_def)
  have vo: "vo_Key ?vopt = AInt 5" "vo_StartKey ?vopt = AString ''abc''"
    "vo_EndKey ?vopt = ASlice [AInt 1, AString ''x'']"
    by (simp_all add: ViewOptions_zero_def)
  have sq: "sequence (map encode_any [AInt 1, AString ''x'']) = Some [''1'', quoted ''x'']"
    by code_simp
  have jn: "''['' @ Join [''1'', quoted ''x''] '','' @ '']'' = dq ''[1,`x`]''"
    by code_simp
  have b: "baseURL ?c = ''http://localhost:5984''"
    by code_simp
  have i5: "Itoa 5 = ''5''"
    by code_simp
  have p: "with_query (''/'' @ PathEscape ''db'' @ ''/_all_docs'') (AllDocs_query ?opt) = ?p"
    by code_simp
  have q: "with_query (''/'' @ PathEscape ''db'' @ ''/_design/'' @ PathEscape ''dd'' @ ''/_view/''
              @ PathEscape ''v'') (QueryView_query ?vopt) = ?q"
    by code_simp
  have n1: "length (new_requests w0 (snd (doRequest ?c ''GET'' ?p None [] w0))) = 1"
    by code_simp
  have n2: "length (new_requests w0 (snd (doRequest ?c ''GET'' ?q None [] w0))) = 1"
    by code_simp
  have l1: "length (new_requests w0 (snd (AllDocs ?c ''db'' (Some ?opt) [] w0))) = 1"
    unfolding AllDocs_get_world [OF o(4)] p by (rule n1)
  have l2: "length (new_requests w0 (snd (QueryView ?c ''db'' ''dd'' ''v'' (Some ?vopt) [] w0))) = 1"
    unfolding QueryView_world QueryView_path_def Let_def option.case q by (rule n2)
  note t = plain_keys_json_encoded [where s = "''abc''" and opt = ?opt and opts = "[]" and c = ?c
      and dbName = "''db''" and w = w0 and vopt = ?vopt and i = 5
      and xs = "[AInt 1, AString ''x'']" and es = "[''1'', quoted ''x'']" and ddoc = "''dd''"
      and viewName = "''v''"]
  show ?thesis
    using t h sq l1 l2 i5
    unfolding o vo p q b jn
    by (simp add: appendString_safe)
qed

text \<open>
  C3. \<^verbatim>\<open>AllDocs\<close> wraps a key in quotes without escaping it. For the key \<^verbatim>\<open>a"b\<close> the one
  request it sends carries the parameter \<^verbatim>\<open>"a"b"\<close>, which is no JSON text; for the key
  \<^verbatim>\<open>a\b\<close> the parameter is the JSON string literal of another string, \<^verbatim>\<open>a\<close> followed by a
  backspace. \<^verbatim>\<open>QueryView\<close> marshals the key, and for the same two keys its parameter is a
  JSON string literal that decodes to the key.
\<close>

theorem AllDocs_key_not_escaped:
  "new_requests w0 (snd (AllDocs (localhost (response 200 all_docs_body)) ''db''
       (Some (AllDocsOptions_zero\<lparr>ado_Key := dq ''a`b''\<rparr>)) [] w0))
     = [\<lparr>Method = ''GET'', URL = ''http://localhost:5984/db/_all_docs?key=%22a%22b%22'',
         Header = [(''Content-Type'', [''application/json''])], Body = None\<rparr>]
   \<and> map_of (AllDocs_query (AllDocsOptions_zero\<lparr>ado_Key := dq ''a`b''\<rparr>)) ''key''
     = Some [dq ''`a`b`'']
   \<and> json_parse (dq ''`a`b`'') = None
   \<and> map_of (AllDocs_query (AllDocsOptions_zero\<lparr>ado_StartKey := [CHR ''a'', CHR 0x5C, CHR ''b'']\<rparr>))
        ''startkey''
     = Some [[CHR 0x22, CHR ''a'', CHR 0x5C, CHR ''b'', CHR 0x22]]
   \<and> Unmarshal_string [CHR 0x22, CHR ''a'', CHR 0x5C, CHR ''b'', CHR 0x22]
     = Some [CHR ''a'', CHR 0x08]
   \<and> map_of (QueryView_query (ViewOptions_zero\<lparr>vo_Key := AString (dq ''a`b'')\<rparr>)) ''key''
     = Some [[CHR 0x22, CHR ''a'', CHR 0x5C, CHR 0x22, CHR ''b'', CHR 0x22]]
   \<and> Unmarshal_string [CHR 0x22, CHR ''a'', CHR 0x5C, CHR 0x22, CHR ''b'', CHR 0x22]
     = Some (dq ''a`b'')
   \<and> map_of (QueryView_query
          (ViewOptions_zero\<lparr>vo_StartKey := AString [CHR ''a'', CHR 0x5C, CHR ''b'']\<rparr>)) ''startkey''
     = Some [[CHR 0x22, CHR ''a'', CHR 0x5C, CHR 0x5C, CHR ''b'', CHR 0x22]]
   \<and> Unmarshal_string [CHR 0x22, CHR ''a'', CHR 0x5C, CHR 0x5C, CHR ''b'', CHR 0x22]
     = Some [CHR ''a'', CHR 0x5C, CHR ''b'']"
  by code_simp

end
